theory Spec2Isabelle
  imports Complex_Main "HOL-Library.Sublist"
begin

section \<open>Numbers, points and footprints\<close>

text \<open>
  The program is TypeScript; its numbers are IEEE doubles. They are modelled as
  mathematical reals. The two non-real values that the geometry code itself produces
  from real inputs are modelled explicitly: the initial \<open>Infinity\<close> of the
  nearest-footprint search (type \<open>Dist\<close>) and the \<open>NaN\<close> that \<open>0 / 0\<close> yields for the
  centroid of an empty point list (constructor \<open>CentroidNaN\<close>). Overflow is not
  represented: the coordinates are metres in a local frame around the query point.

  Rounding changes a computed value by a relative error of at most \<open>2 powr (-53)\<close>, and it can
  change which footprint the search for the nearest centroid selects. The functions of
  this section compute in exact arithmetic; the section on floating-point arithmetic
  below gives the centroid and the selection again with the rounding of every
  operation as a parameter, of which the exact functions are the instance that does not
  round.
\<close>

datatype Vector2 = Vector2 (x_of: real) (y_of: real)

text \<open>The object \<open>{ x: number; y: number }\<close> returned by \<open>computeFootprintCentroid\<close>;
  both fields are divided by the same count, so they are \<open>NaN\<close> together.\<close>

datatype Centroid = Centroid real real | CentroidNaN

record Metadata =
  centroid :: Centroid
  hero :: "bool option"
  scale :: "real option"

record Footprint =
  pts :: "Vector2 list"
  height :: real
  tags :: "string \<rightharpoonup> string"
  metadata :: "Metadata option"

section \<open>Centroid and hero selection\<close>

text \<open>The \<open>for (const pt of pts)\<close> loop of \<open>computeFootprintCentroid\<close>, carrying
  \<open>(sumX, sumY)\<close>.\<close>

fun centroidLoop :: "Vector2 list \<Rightarrow> real \<times> real \<Rightarrow> real \<times> real" where
  "centroidLoop [] acc = acc"
| "centroidLoop (pt # rest) (sumX, sumY) = centroidLoop rest (sumX + x_of pt, sumY + y_of pt)"

definition computeFootprintCentroid :: "Vector2 list \<Rightarrow> Centroid" where
  "computeFootprintCentroid ps =
     (let (sumX, sumY) = centroidLoop ps (0, 0);
          count = length ps
      in if count = 0 then CentroidNaN
         else Centroid (sumX / real count) (sumY / real count))"

text \<open>\<open>bestDist\<close> starts at \<open>Infinity\<close>.\<close>

datatype Dist = Infinity | Finite real

fun distLess :: "real \<Rightarrow> Dist \<Rightarrow> bool" where
  "distLess d Infinity = True"
| "distLess d (Finite b) = (d < b)"

datatype PrimarySelection = PrimarySelection (sel_index: nat) (sel_centroid: Vector2)

text \<open>
  The callback of \<open>footprints.forEach\<close> in \<open>selectPrimaryFootprint\<close>, on the state
  \<open>(bestIndex, bestDist, bestCentroid)\<close>. For a \<open>NaN\<close> centroid \<open>dist\<close> is \<open>NaN\<close> and
  \<open>dist < bestDist\<close> is false, so the state stays as it is.
\<close>

fun selectStep :: "nat \<times> Dist \<times> Vector2 \<Rightarrow> Footprint \<Rightarrow> nat \<Rightarrow> nat \<times> Dist \<times> Vector2" where
  "selectStep (bestIndex, bestDist, bestCentroid) fp idx =
     (case computeFootprintCentroid (pts fp) of
        CentroidNaN \<Rightarrow> (bestIndex, bestDist, bestCentroid)
      | Centroid cx cy \<Rightarrow>
          (let dist = cx * cx + cy * cy
           in if distLess dist bestDist then (idx, Finite dist, Vector2 cx cy)
              else (bestIndex, bestDist, bestCentroid)))"

fun selectLoop :: "Footprint list \<Rightarrow> nat \<Rightarrow> nat \<times> Dist \<times> Vector2 \<Rightarrow> nat \<times> Dist \<times> Vector2" where
  "selectLoop [] idx st = st"
| "selectLoop (fp # rest) idx st = selectLoop rest (Suc idx) (selectStep st fp idx)"

definition selectPrimaryFootprint :: "Footprint list \<Rightarrow> PrimarySelection option" where
  "selectPrimaryFootprint footprints =
     (if length footprints = 0 then None
      else (let (bestIndex, bestDist, bestCentroid) =
                  selectLoop footprints 0 (0, Infinity, Vector2 0 0)
            in Some (PrimarySelection bestIndex bestCentroid)))"

section \<open>Preparation: re-centring and fitting to the platform\<close>

definition hypot :: "real \<Rightarrow> real \<Rightarrow> real" where
  "hypot dx dy = sqrt (dx * dx + dy * dy)"

text \<open>The reducer of \<open>pts.reduce(..., 1)\<close> in \<open>prepareFootprints\<close>.\<close>

definition radiusStep :: "Vector2 \<Rightarrow> real \<Rightarrow> Vector2 \<Rightarrow> real" where
  "radiusStep c acc pt = max acc (hypot (x_of pt - x_of c) (y_of pt - y_of c))"

definition maxRadiusOf :: "Vector2 \<Rightarrow> Vector2 list \<Rightarrow> real" where
  "maxRadiusOf c ps = foldl (radiusStep c) 1 ps"

definition fitScaleOf :: "real \<Rightarrow> real \<Rightarrow> real" where
  "fitScaleOf platformSize maxRadius =
     (let margin = platformSize * 0.35
      in if maxRadius > 0 then margin / maxRadius else 1)"

definition centrePoint :: "Vector2 \<Rightarrow> real \<Rightarrow> Vector2 \<Rightarrow> Vector2" where
  "centrePoint c fitScale pt =
     Vector2 ((x_of pt - x_of c) * fitScale) ((y_of pt - y_of c) * fitScale)"

text \<open>The callback of \<open>footprints.map\<close>: a new object that spreads \<open>fp\<close> (so \<open>tags\<close> is
  carried over) and replaces \<open>pts\<close>, \<open>height\<close> and \<open>metadata\<close>; the spread of the old
  metadata is overwritten in all three of its fields.\<close>

definition prepareOne :: "PrimarySelection \<Rightarrow> real \<Rightarrow> nat \<times> Footprint \<Rightarrow> Footprint" where
  "prepareOne selection fitScale = (\<lambda>(idx, fp).
     (let centered = map (centrePoint (sel_centroid selection) fitScale) (pts fp)
      in fp\<lparr> pts := centered,
             height := height fp * fitScale,
             metadata := Some \<lparr> centroid =
                                   (if idx = sel_index selection then Centroid 0 0
                                    else computeFootprintCentroid centered),
                                 hero = Some (idx = sel_index selection),
                                 scale = Some fitScale \<rparr> \<rparr>))"

text \<open>\<open>footprints[selection.index]\<close> is read with \<open>!\<close>: the index is always in range
  (lemma \<open>selectPrimaryFootprint_index\<close> below).\<close>

definition prepareFootprints :: "Footprint list \<Rightarrow> real \<Rightarrow> Footprint list" where
  "prepareFootprints footprints platformSize =
     (case selectPrimaryFootprint footprints of
        None \<Rightarrow> []
      | Some selection \<Rightarrow>
          (let maxRadius = maxRadiusOf (sel_centroid selection)
                             (pts (footprints ! sel_index selection));
               fitScale = fitScaleOf platformSize maxRadius
           in map (prepareOne selection fitScale) (enumerate 0 footprints)))"

text \<open>\<open>Boolean(fp.metadata?.hero)\<close>, the test the render effect uses to recognise the
  hero footprint.\<close>

definition isHero :: "Footprint \<Rightarrow> bool" where
  "isHero fp = (case metadata fp of None \<Rightarrow> False | Some m \<Rightarrow> hero m = Some True)"

section \<open>Vocabulary of the geometric properties\<close>

text \<open>The arithmetic mean of a point list, and Euclidean distances. These are the
  notions the properties are stated in; the program computes the mean by the loop
  \<open>centroidLoop\<close> and compares squared distances.\<close>

definition meanPoint :: "Vector2 list \<Rightarrow> Vector2" where
  "meanPoint ps = Vector2 (sum_list (map x_of ps) / real (length ps))
                          (sum_list (map y_of ps) / real (length ps))"

definition distToOrigin :: "Vector2 \<Rightarrow> real" where
  "distToOrigin p = sqrt ((x_of p)\<^sup>2 + (y_of p)\<^sup>2)"



definition sqNorm :: "Vector2 \<Rightarrow> real" where
  "sqNorm p = x_of p * x_of p + y_of p * y_of p"

text \<open>Two closed footprints used as a running example: a triangle away from the
  origin and a rectangle around it.\<close>

definition farTriangle :: Footprint where
  "farTriangle = \<lparr> pts = [Vector2 10 10, Vector2 12 10, Vector2 12 12, Vector2 10 10],
                    height = 9, tags = Map.empty, metadata = None \<rparr>"

definition nearRectangle :: Footprint where
  "nearRectangle = \<lparr> pts = [Vector2 3 4, Vector2 (-3) 4, Vector2 (-3) (-4), Vector2 3 (-4),
                             Vector2 3 4],
                      height = 12, tags = Map.empty, metadata = None \<rparr>"

section \<open>Centroid and hero selection in floating-point arithmetic\<close>

text \<open>
  \<open>computeFootprintCentroid\<close> and \<open>selectPrimaryFootprint\<close> once more, with the rounding
  of the machine as the parameter \<open>fl\<close>: the exact result of every addition, division
  and multiplication of the source passes through \<open>fl\<close> before it is used. For the
  program, \<open>fl\<close> is \<open>roundDouble\<close> below; for \<open>fl = (\<lambda>x. x)\<close> these are the exact functions
  of the previous sections (lemma \<open>selectPrimaryFootprintFl_exact\<close>). The count of the
  points is an integer and is held exactly.
\<close>

fun centroidLoopFl :: "(real \<Rightarrow> real) \<Rightarrow> Vector2 list \<Rightarrow> real \<times> real \<Rightarrow> real \<times> real" where
  "centroidLoopFl fl [] acc = acc"
| "centroidLoopFl fl (pt # rest) (sumX, sumY) =
     centroidLoopFl fl rest (fl (sumX + x_of pt), fl (sumY + y_of pt))"

definition computeFootprintCentroidFl :: "(real \<Rightarrow> real) \<Rightarrow> Vector2 list \<Rightarrow> Centroid" where
  "computeFootprintCentroidFl fl ps =
     (let (sumX, sumY) = centroidLoopFl fl ps (0, 0);
          count = length ps
      in if count = 0 then CentroidNaN
         else Centroid (fl (sumX / real count)) (fl (sumY / real count)))"

text \<open>\<open>const dist = centroid.x * centroid.x + centroid.y * centroid.y\<close>: two products
  and a sum, each rounded.\<close>

fun selectStepFl ::
  "(real \<Rightarrow> real) \<Rightarrow> nat \<times> Dist \<times> Vector2 \<Rightarrow> Footprint \<Rightarrow> nat \<Rightarrow> nat \<times> Dist \<times> Vector2" where
  "selectStepFl fl (bestIndex, bestDist, bestCentroid) fp idx =
     (case computeFootprintCentroidFl fl (pts fp) of
        CentroidNaN \<Rightarrow> (bestIndex, bestDist, bestCentroid)
      | Centroid cx cy \<Rightarrow>
          (let dist = fl (fl (cx * cx) + fl (cy * cy))
           in if distLess dist bestDist then (idx, Finite dist, Vector2 cx cy)
              else (bestIndex, bestDist, bestCentroid)))"

fun selectLoopFl ::
  "(real \<Rightarrow> real) \<Rightarrow> Footprint list \<Rightarrow> nat \<Rightarrow> nat \<times> Dist \<times> Vector2 \<Rightarrow> nat \<times> Dist \<times> Vector2" where
  "selectLoopFl fl [] idx st = st"
| "selectLoopFl fl (fp # rest) idx st = selectLoopFl fl rest (Suc idx) (selectStepFl fl st fp idx)"

definition selectPrimaryFootprintFl ::
  "(real \<Rightarrow> real) \<Rightarrow> Footprint list \<Rightarrow> PrimarySelection option" where
  "selectPrimaryFootprintFl fl footprints =
     (if length footprints = 0 then None
      else (let (bestIndex, bestDist, bestCentroid) =
                  selectLoopFl fl footprints 0 (0, Infinity, Vector2 0 0)
            in Some (PrimarySelection bestIndex bestCentroid)))"

text \<open>
  The rounding of IEEE 754 double precision, round to nearest with ties to the even
  mantissa: \<open>x\<close> is rounded to a multiple of \<open>2 powr (e - 52)\<close>, where \<open>2 powr e\<close> is the
  largest power of two not above \<open>\<bar>x\<bar>\<close>, and \<open>e\<close> is at least \<open>-1022\<close> (below that the
  doubles are evenly spaced). Overflow to \<open>Infinity\<close>, for magnitudes from
  \<open>2 powr 1024\<close> on, is not represented.
\<close>

definition roundHalfEven :: "real \<Rightarrow> int" where
  "roundHalfEven y =
     (let n = \<lfloor>y\<rfloor>; r = y - of_int n
      in if r < 1 / 2 then n else if 1 / 2 < r then n + 1 else if even n then n else n + 1)"

definition roundDouble :: "real \<Rightarrow> real" where
  "roundDouble x =
     (if x = 0 then 0
      else (let e = max \<lfloor>log 2 \<bar>x\<bar>\<rfloor> (- 1022);
                u = 2 powr (of_int e - 52)
            in u * of_int (roundHalfEven (x / u))))"

section \<open>Vocabulary of the floating-point properties\<close>

text \<open>The sum, the mean and the squared distance from the origin as the program
  computes them: from left to right, every operation rounded.\<close>

definition roundedSum :: "(real \<Rightarrow> real) \<Rightarrow> real list \<Rightarrow> real" where
  "roundedSum fl xs = foldl (\<lambda>s x. fl (s + x)) 0 xs"

definition roundedMean :: "(real \<Rightarrow> real) \<Rightarrow> Vector2 list \<Rightarrow> Vector2" where
  "roundedMean fl ps = Vector2 (fl (roundedSum fl (map x_of ps) / real (length ps)))
                               (fl (roundedSum fl (map y_of ps) / real (length ps)))"

definition roundedSqNorm :: "(real \<Rightarrow> real) \<Rightarrow> Vector2 \<Rightarrow> real" where
  "roundedSqNorm fl p = fl (fl (x_of p * x_of p) + fl (y_of p * y_of p))"

text \<open>Loop invariant of \<open>selectLoopFl\<close> after the footprints \<open>seen\<close>: either nothing
  has been selected yet, which happens only while every footprint seen has no points,
  or the state holds the first footprint among those with points whose computed
  centroid has the least computed squared distance.\<close>

definition selectInv :: "(real \<Rightarrow> real) \<Rightarrow> Footprint list \<Rightarrow> nat \<times> Dist \<times> Vector2 \<Rightarrow> bool" where
  "selectInv fl seen st =
     (case st of (bi, bd, bc) \<Rightarrow>
        (st = (0, Infinity, Vector2 0 0) \<and> (\<forall>fp \<in> set seen. pts fp = [])) \<or>
        (bi < length seen \<and> pts (seen ! bi) \<noteq> [] \<and>
         bc = roundedMean fl (pts (seen ! bi)) \<and> bd = Finite (roundedSqNorm fl bc) \<and>
         (\<forall>j < length seen. pts (seen ! j) \<noteq> [] \<longrightarrow>
              roundedSqNorm fl bc \<le> roundedSqNorm fl (roundedMean fl (pts (seen ! j)))) \<and>
         (\<forall>j < bi. pts (seen ! j) \<noteq> [] \<longrightarrow>
              roundedSqNorm fl bc < roundedSqNorm fl (roundedMean fl (pts (seen ! j))))))"

text \<open>
  Two closed triangles with a corner at the query point, their other corners at the
  doubles written \<open>0.1\<close>, \<open>0.2\<close>, \<open>0.3\<close> and \<open>0.4\<close> in the source language: the corners
  (0.1, 0.1) and (0.2, 0.3), and the corners (0, 0.4) and (0.3, 0).
\<close>

definition skewTriangle :: Footprint where
  "skewTriangle = \<lparr> pts = [Vector2 0 0, Vector2 (roundDouble (1 / 10)) (roundDouble (1 / 10)),
                             Vector2 (roundDouble (2 / 10)) (roundDouble (3 / 10)), Vector2 0 0],
                      height = 9, tags = Map.empty, metadata = None \<rparr>"

definition rightTriangle :: Footprint where
  "rightTriangle = \<lparr> pts = [Vector2 0 0, Vector2 0 (roundDouble (4 / 10)),
                              Vector2 (roundDouble (3 / 10)) 0, Vector2 0 0],
                       height = 9, tags = Map.empty, metadata = None \<rparr>"


section \<open>Errors, strings and the network\<close>

text \<open>
  A thrown JavaScript value: an \<open>Error\<close> object with its message, or any other value,
  represented by what \<open>String(value)\<close> gives. Every function that can throw returns a sum
  with the thrown value on the left.
\<close>

datatype Thrown = Error string | Other string

fun normalizeError :: "Thrown \<Rightarrow> Thrown" where
  "normalizeError (Error m) = Error m"
| "normalizeError (Other s) = Error s"

fun message :: "Thrown \<Rightarrow> string" where
  "message (Error m) = m"
| "message (Other s) = s"

text \<open>Strings are lists of characters; the string functions below are the ASCII
  behaviour of the JavaScript methods of the same names.\<close>

definition digitChar :: "nat \<Rightarrow> char" where
  "digitChar n = ''0123456789'' ! n"

text \<open>\<open>String(n)\<close> for a non-negative integer.\<close>

function showNat :: "nat \<Rightarrow> string" where
  "showNat n = (if n < 10 then [digitChar n] else showNat (n div 10) @ [digitChar (n mod 10)])"
  by pat_completeness auto
termination
  by (relation "measure id") auto

definition toLowerChar :: "char \<Rightarrow> char" where
  "toLowerChar c =
     (case map_of (zip ''ABCDEFGHIJKLMNOPQRSTUVWXYZ'' ''abcdefghijklmnopqrstuvwxyz'') c of
        Some l \<Rightarrow> l | None \<Rightarrow> c)"

definition toUpperChar :: "char \<Rightarrow> char" where
  "toUpperChar c =
     (case map_of (zip ''abcdefghijklmnopqrstuvwxyz'' ''ABCDEFGHIJKLMNOPQRSTUVWXYZ'') c of
        Some u \<Rightarrow> u | None \<Rightarrow> c)"

definition toLowerCase :: "string \<Rightarrow> string" where
  "toLowerCase s = map toLowerChar s"

definition toUpperCase :: "string \<Rightarrow> string" where
  "toUpperCase s = map toUpperChar s"

text \<open>\<open>s.includes(t)\<close>: \<open>t\<close> occurs in \<open>s\<close> as a contiguous substring.\<close>

fun str_includes :: "string \<Rightarrow> string \<Rightarrow> bool" where
  "str_includes [] t = (t = [])"
| "str_includes (c # cs) t = (prefix t (c # cs) \<or> str_includes cs t)"

text \<open>JavaScript truthiness of an optional string: \<open>undefined\<close> and \<open>""\<close> are falsy.\<close>

fun truthy :: "string option \<Rightarrow> bool" where
  "truthy None = False"
| "truthy (Some s) = (s \<noteq> [])"

text \<open>\<open>v || d\<close> for an optional string \<open>v\<close>.\<close>

fun orElse :: "string option \<Rightarrow> string \<Rightarrow> string" where
  "orElse None d = d"
| "orElse (Some s) d = (if s = [] then d else s)"

section \<open>Overpass responses\<close>

datatype OverpassCoordinate = OverpassCoordinate (coord_lat: real) (coord_lon: real)

record OverpassElement =
  el_type :: string
  geometry :: "OverpassCoordinate list option"
  el_tags :: "(string \<rightharpoonup> string) option"

record OverpassResponse =
  elements :: "OverpassElement list option"

text \<open>What \<open>await res.json()\<close> gives: the parsed body, or a rejection.\<close>

datatype Body = Json OverpassResponse | BadJson Thrown

text \<open>What \<open>await fetch(...)\<close> gives: a rejection (network failure), or a response
  with its status code and body. \<open>res.ok\<close> holds for the statuses 200 to 299.\<close>

datatype FetchOutcome = Rejected Thrown | Response nat Body

definition res_ok :: "nat \<Rightarrow> bool" where
  "res_ok status = (200 \<le> status \<and> status \<le> 299)"

record Endpoint =
  url :: string
  label :: string

definition OVERPASS_ENDPOINTS :: "Endpoint list" where
  "OVERPASS_ENDPOINTS =
     [ \<lparr> url = ''https://overpass-api.de/api/interpreter'', label = ''de'' \<rparr>,
       \<lparr> url = ''https://overpass.kumi.systems/api/interpreter'', label = ''kumi'' \<rparr>,
       \<lparr> url = ''https://overpass.openstreetmap.ru/api/interpreter'', label = ''ru'' \<rparr> ]"

text \<open>
  The world outside \<open>fetchBuildings\<close>: the outcome of the request sent to an endpoint
  at a given attempt (the body of the request is the same query text every time and is
  not modelled; each request is assumed to settle), the builtin \<open>parseFloat\<close> with
  \<open>None\<close> for \<open>NaN\<close>, and the successive values of \<open>Math.random()\<close>.
\<close>

record World =
  fetch :: "Endpoint \<Rightarrow> nat \<Rightarrow> FetchOutcome"
  parseFloat :: "string \<Rightarrow> real option"
  random :: "nat \<Rightarrow> real"

section \<open>Geographic coordinates to local metres\<close>

definition DEG2RAD :: real where
  "DEG2RAD = pi / 180"

definition metersPerDegreeLon :: "real \<Rightarrow> real" where
  "metersPerDegreeLon latDeg = 111320 * cos (latDeg * DEG2RAD)"

definition metersPerDegreeLat :: real where
  "metersPerDegreeLat = 110540"

definition llToLocalMeters :: "real \<Rightarrow> real \<Rightarrow> real \<Rightarrow> real \<Rightarrow> real \<times> real" where
  "llToLocalMeters lat0 lon0 lat lon =
     (let mx = (lon - lon0) * metersPerDegreeLon lat0;
          my = (lat - lat0) * metersPerDegreeLat
      in (mx, my))"

section \<open>Building footprints from an Overpass response\<close>

text \<open>\<open>a.distanceTo(b)\<close> of \<open>THREE.Vector2\<close>.\<close>

definition distanceTo :: "Vector2 \<Rightarrow> Vector2 \<Rightarrow> real" where
  "distanceTo a b = sqrt ((x_of a - x_of b) * (x_of a - x_of b) + (y_of a - y_of b) * (y_of a - y_of b))"

definition localPoint :: "real \<Rightarrow> real \<Rightarrow> OverpassCoordinate \<Rightarrow> Vector2" where
  "localPoint lat lon coord =
     (let (x, y) = llToLocalMeters lat lon (coord_lat coord) (coord_lon coord) in Vector2 x y)"

text \<open>\<open>if (pts[0].distanceTo(pts[pts.length - 1]) > 0.01) pts.push(pts[0].clone())\<close>.
  The caller has checked that there are at least three points; for no point at all
  \<open>pts[0]\<close> would be \<open>undefined\<close> and the call would throw, which is the left case.\<close>

fun closeRing :: "Vector2 list \<Rightarrow> Thrown + Vector2 list" where
  "closeRing [] = Inl (Error ''Cannot read properties of undefined'')"
| "closeRing (p0 # rest) =
     (if distanceTo p0 (last (p0 # rest)) > 0.01 then Inr ((p0 # rest) @ [p0])
      else Inr (p0 # rest))"

text \<open>\<open>String(tags.height).replace(/m$/i, "")\<close>: one trailing \<open>m\<close> or \<open>M\<close> is removed.\<close>

definition stripTrailingM :: "string \<Rightarrow> string" where
  "stripTrailingM s =
     (if s \<noteq> [] \<and> (last s = CHR ''m'' \<or> last s = CHR ''M'') then butlast s else s)"

text \<open>The height of one building, in the three stages of the source: the \<open>height\<close>
  tag, then \<open>building:levels\<close>, then a random default by building type. The number is the
  count of random values drawn so far.\<close>

definition heightFromTag :: "World \<Rightarrow> (string \<rightharpoonup> string) \<Rightarrow> real option" where
  "heightFromTag w tgs =
     (if truthy (tgs ''height'') then parseFloat w (stripTrailingM (orElse (tgs ''height'') []))
      else None)"

definition heightFromLevels :: "World \<Rightarrow> (string \<rightharpoonup> string) \<Rightarrow> real option" where
  "heightFromLevels w tgs =
     (if truthy (tgs ''building:levels'')
      then (case parseFloat w (orElse (tgs ''building:levels'') []) of
              None \<Rightarrow> None
            | Some levels \<Rightarrow> Some (max 3 (min 60 (levels * 3))))
      else None)"

definition heightDefault :: "World \<Rightarrow> (string \<rightharpoonup> string) \<Rightarrow> nat \<Rightarrow> real \<times> nat" where
  "heightDefault w tgs n =
     (let t = toLowerCase (orElse (tgs ''building'') [])
      in if str_includes t ''house'' \<or> str_includes t ''residential'' then (9 + random w n * 6, Suc n)
         else if str_includes t ''garage'' then (4 + random w n * 2, Suc n)
         else (12 + random w n * 18, Suc n))"

definition buildingHeight :: "World \<Rightarrow> (string \<rightharpoonup> string) \<Rightarrow> nat \<Rightarrow> real \<times> nat" where
  "buildingHeight w tgs n =
     (case heightFromTag w tgs of
        Some h \<Rightarrow> (h, n)
      | None \<Rightarrow>
          (case heightFromLevels w tgs of
             Some h \<Rightarrow> (h, n)
           | None \<Rightarrow> heightDefault w tgs n))"

text \<open>The guard \<open>el.type !== "way" || !el.geometry || el.geometry.length < 3\<close>, negated.\<close>

definition usable :: "OverpassElement \<Rightarrow> bool" where
  "usable el = (el_type el = ''way'' \<and>
                (case geometry el of None \<Rightarrow> False | Some g \<Rightarrow> \<not> length g < 3))"

text \<open>The body of \<open>for (const el of elements)\<close>: \<open>None\<close> when the element is skipped
  by \<open>continue\<close>.\<close>

definition footprintOf ::
  "World \<Rightarrow> real \<Rightarrow> real \<Rightarrow> OverpassElement \<Rightarrow> nat \<Rightarrow> Thrown + (Footprint option \<times> nat)" where
  "footprintOf w lat lon el n =
     (if \<not> usable el then Inr (None, n)
      else
        (case closeRing (map (localPoint lat lon) (case geometry el of None \<Rightarrow> [] | Some g \<Rightarrow> g)) of
           Inl e \<Rightarrow> Inl e
         | Inr ps \<Rightarrow>
             (let tgs = (case el_tags el of None \<Rightarrow> Map.empty | Some t \<Rightarrow> t);
                  (heightM, n') = buildingHeight w tgs n
              in Inr (Some \<lparr> pts = ps, height = heightM, tags = tgs, metadata = None \<rparr>, n'))))"

fun footprintsLoop ::
  "World \<Rightarrow> real \<Rightarrow> real \<Rightarrow> OverpassElement list \<Rightarrow> nat \<Rightarrow> Footprint list \<Rightarrow> Thrown + Footprint list" where
  "footprintsLoop w lat lon [] n footprints = Inr footprints"
| "footprintsLoop w lat lon (el # els) n footprints =
     (case footprintOf w lat lon el n of
        Inl e \<Rightarrow> Inl e
      | Inr (None, n') \<Rightarrow> footprintsLoop w lat lon els n' footprints
      | Inr (Some fp, n') \<Rightarrow> footprintsLoop w lat lon els n' (footprints @ [fp]))"

definition parseFootprints :: "World \<Rightarrow> real \<Rightarrow> real \<Rightarrow> OverpassResponse \<Rightarrow> Thrown + Footprint list" where
  "parseFootprints w lat lon data =
     footprintsLoop w lat lon (case elements data of None \<Rightarrow> [] | Some els \<Rightarrow> els) 0 []"

section \<open>The retry loops of \<open>fetchBuildings\<close>\<close>

text \<open>What a run does besides computing: the requests it sends and the delays it
  waits for, in order. Console output is not recorded.\<close>

datatype Event = Request string nat | Delay nat

text \<open>The state of the loops: \<open>lastError\<close> and the events so far.\<close>

type_synonym LoopState = "Thrown option \<times> Event list"

text \<open>
  \<open>for (let attempt = 0; attempt < 2; attempt++)\<close> with its \<open>try\<close>/\<open>catch\<close>. The result
  is \<open>Inr footprints\<close> when an attempt returns, and the loop state when the loop ends
  without returning. A rate-limit or timeout status waits and continues; anything
  thrown inside \<open>try\<close> (a rejected request, another status, an unreadable body, an error
  while building footprints) goes through \<open>catch\<close>, which records the error, waits if this
  was the first attempt, and lets the loop go on.
\<close>

definition onCatch :: "Endpoint \<Rightarrow> nat \<Rightarrow> Thrown \<Rightarrow> Event list \<Rightarrow> LoopState" where
  "onCatch endpoint attempt e evs =
     (Some (normalizeError e),
      evs @ (if attempt < 1 then [Delay (2000 * (attempt + 1))] else []))"

function attemptLoop ::
  "World \<Rightarrow> real \<Rightarrow> real \<Rightarrow> Endpoint \<Rightarrow> nat \<Rightarrow> LoopState \<Rightarrow> LoopState + Footprint list \<times> Event list" where
  "attemptLoop w lat lon endpoint attempt (lastError, evs) =
     (if attempt < 2 then
        (let evs1 = evs @ [Request (label endpoint) attempt] in
         case fetch w endpoint attempt of
           Rejected e \<Rightarrow>
             attemptLoop w lat lon endpoint (attempt + 1) (onCatch endpoint attempt e evs1)
         | Response status body \<Rightarrow>
             if \<not> res_ok status then
               (if status = 504 \<or> status = 429 \<or> status = 503
                then attemptLoop w lat lon endpoint (attempt + 1)
                       (lastError, evs1 @ [Delay (2000 * (attempt + 1))])
                else attemptLoop w lat lon endpoint (attempt + 1)
                       (onCatch endpoint attempt
                          (Error (''Overpass API returned '' @ showNat status)) evs1))
             else
               (case body of
                  BadJson e \<Rightarrow>
                    attemptLoop w lat lon endpoint (attempt + 1) (onCatch endpoint attempt e evs1)
                | Json data \<Rightarrow>
                    (case parseFootprints w lat lon data of
                       Inl e \<Rightarrow>
                         attemptLoop w lat lon endpoint (attempt + 1)
                           (onCatch endpoint attempt e evs1)
                     | Inr footprints \<Rightarrow> Inr (footprints, evs1))))
      else Inl (lastError, evs))"
  by pat_completeness auto
termination
  by (relation "measure (\<lambda>(w, lat, lon, endpoint, attempt, st). 2 - attempt)") auto

text \<open>\<open>for (let endpointIdx = 0; endpointIdx < OVERPASS_ENDPOINTS.length; endpointIdx++)\<close>.\<close>

fun endpointLoop ::
  "World \<Rightarrow> real \<Rightarrow> real \<Rightarrow> Endpoint list \<Rightarrow> LoopState \<Rightarrow> LoopState + Footprint list \<times> Event list" where
  "endpointLoop w lat lon [] st = Inl st"
| "endpointLoop w lat lon (endpoint # rest) st =
     (case attemptLoop w lat lon endpoint 0 st of
        Inr r \<Rightarrow> Inr r
      | Inl st' \<Rightarrow> endpointLoop w lat lon rest st')"

definition unavailable :: "Thrown option \<Rightarrow> Thrown" where
  "unavailable lastError =
     Error (''Building data unavailable (last error: ''
            @ orElse (map_option message lastError) ''unknown''
            @ ''). Try again in a minute or reduce the search area.'')"

text \<open>\<open>fetchBuildings\<close>: the result, and the events of the run. The bounding box and
  the query text built from \<open>sizeMeters\<close> only go into the request body.\<close>

definition fetchBuildings ::
  "World \<Rightarrow> real \<Rightarrow> real \<Rightarrow> real \<Rightarrow> (Thrown + Footprint list) \<times> Event list" where
  "fetchBuildings w lat lon sizeMeters =
     (case endpointLoop w lat lon OVERPASS_ENDPOINTS (None, []) of
        Inr (footprints, evs) \<Rightarrow> (Inr footprints, evs)
      | Inl (lastError, evs) \<Rightarrow> (Inl (unavailable lastError), evs))"

section \<open>Vocabulary of the retry properties\<close>

text \<open>What one attempt at an endpoint comes to: it returns footprints, it meets a
  rate-limit or timeout status, or something is thrown inside \<open>try\<close>.\<close>

datatype AttemptResult = Succeeded "Footprint list" | RateLimited | Failed Thrown

definition attemptResult :: "World \<Rightarrow> real \<Rightarrow> real \<Rightarrow> Endpoint \<Rightarrow> nat \<Rightarrow> AttemptResult" where
  "attemptResult w lat lon endpoint attempt =
     (case fetch w endpoint attempt of
        Rejected e \<Rightarrow> Failed e
      | Response status body \<Rightarrow>
          if \<not> res_ok status then
            (if status = 504 \<or> status = 429 \<or> status = 503 then RateLimited
             else Failed (Error (''Overpass API returned '' @ showNat status)))
          else
            (case body of
               BadJson e \<Rightarrow> Failed e
             | Json data \<Rightarrow>
                 (case parseFootprints w lat lon data of
                    Inl e \<Rightarrow> Failed e
                  | Inr footprints \<Rightarrow> Succeeded footprints)))"

fun succeeded :: "AttemptResult \<Rightarrow> bool" where
  "succeeded (Succeeded footprints) = True"
| "succeeded RateLimited = False"
| "succeeded (Failed e) = False"

definition succeeds :: "World \<Rightarrow> real \<Rightarrow> real \<Rightarrow> Endpoint \<times> nat \<Rightarrow> bool" where
  "succeeds w lat lon = (\<lambda>(endpoint, attempt). succeeded (attemptResult w lat lon endpoint attempt))"

text \<open>The fixed order of attempts: each endpoint twice, in the order of the list.\<close>

definition schedule :: "Endpoint list \<Rightarrow> (Endpoint \<times> nat) list" where
  "schedule endpoints = concat (map (\<lambda>endpoint. [(endpoint, 0), (endpoint, 1)]) endpoints)"

text \<open>The elements of a list up to and including the first one that satisfies \<open>P\<close>.\<close>

fun upToFirst :: "('a \<Rightarrow> bool) \<Rightarrow> 'a list \<Rightarrow> 'a list" where
  "upToFirst P [] = []"
| "upToFirst P (x # xs) = (if P x then [x] else x # upToFirst P xs)"

definition requestOf :: "Endpoint \<times> nat \<Rightarrow> Event" where
  "requestOf = (\<lambda>(endpoint, attempt). Request (label endpoint) attempt)"

fun isRequest :: "Event \<Rightarrow> bool" where
  "isRequest (Request l a) = True"
| "isRequest (Delay ms) = False"

definition requestsOf :: "Event list \<Rightarrow> Event list" where
  "requestsOf evs = filter isRequest evs"

text \<open>The events that follow one attempt that did not succeed.\<close>

fun waitAfter :: "AttemptResult \<Rightarrow> nat \<Rightarrow> Event list" where
  "waitAfter RateLimited attempt = [Delay (2000 * (attempt + 1))]"
| "waitAfter (Failed e) attempt = (if attempt < 1 then [Delay (2000 * (attempt + 1))] else [])"
| "waitAfter (Succeeded footprints) attempt = []"

text \<open>The events of a whole run over a list of endpoints, written down directly.\<close>

fun expectedEvents :: "World \<Rightarrow> real \<Rightarrow> real \<Rightarrow> Endpoint list \<Rightarrow> Event list" where
  "expectedEvents w lat lon [] = []"
| "expectedEvents w lat lon (endpoint # rest) =
     (let r0 = attemptResult w lat lon endpoint 0; r1 = attemptResult w lat lon endpoint 1 in
      if succeeded r0 then [Request (label endpoint) 0]
      else [Request (label endpoint) 0] @ waitAfter r0 0 @ [Request (label endpoint) 1] @
           (if succeeded r1 then [] else waitAfter r1 1 @ expectedEvents w lat lon rest))"

text \<open>\<open>lastError\<close> after an attempt that did not succeed.\<close>

fun errorAfter :: "AttemptResult \<Rightarrow> Thrown option \<Rightarrow> Thrown option" where
  "errorAfter (Failed e) lastError = Some (normalizeError e)"
| "errorAfter RateLimited lastError = lastError"
| "errorAfter (Succeeded footprints) lastError = lastError"

text \<open>Worlds used as examples. In \<open>world500\<close> the first mirror answers its first
  request with status 500 and every other request with an empty result; in
  \<open>worldBusy\<close> every request meets status 429; in \<open>worldDown\<close> every request is rejected.\<close>

definition emptyResponse :: FetchOutcome where
  "emptyResponse = Response 200 (Json \<lparr> elements = None \<rparr>)"

definition world500 :: World where
  "world500 = \<lparr> fetch = (\<lambda>endpoint attempt.
                    if label endpoint = ''de'' \<and> attempt = 0
                    then Response 500 (BadJson (Error ''Unexpected token''))
                    else emptyResponse),
                parseFloat = (\<lambda>s. None), random = (\<lambda>n. 0) \<rparr>"

definition worldBusy :: World where
  "worldBusy = \<lparr> fetch = (\<lambda>endpoint attempt. Response 429 (BadJson (Error ''Unexpected token''))),
                 parseFloat = (\<lambda>s. None), random = (\<lambda>n. 0) \<rparr>"

text \<open>In \<open>world429then500\<close> the first mirror answers its first request with status 429 and
  its second with status 500; every other request gets an empty result.\<close>

definition world429then500 :: World where
  "world429then500 = \<lparr> fetch = (\<lambda>endpoint attempt.
                          if label endpoint = ''de'' \<and> attempt = 0
                          then Response 429 (BadJson (Error ''Unexpected token''))
                          else if label endpoint = ''de''
                          then Response 500 (BadJson (Error ''Unexpected token''))
                          else emptyResponse),
                       parseFloat = (\<lambda>s. None), random = (\<lambda>n. 0) \<rparr>"

definition worldDown :: World where
  "worldDown = \<lparr> fetch = (\<lambda>endpoint attempt. Rejected (Error ''Failed to fetch'')),
                 parseFloat = (\<lambda>s. None), random = (\<lambda>n. 0) \<rparr>"

text \<open>The requests of a run that go to the endpoint with a given label.\<close>

fun isRequestTo :: "string \<Rightarrow> Event \<Rightarrow> bool" where
  "isRequestTo l (Request l' a) = (l' = l)"
| "isRequestTo l (Delay ms) = False"

text \<open>The events of a run, whether it returns or ends without a result.\<close>

definition eventsOfRun :: "LoopState + Footprint list \<times> Event list \<Rightarrow> Event list" where
  "eventsOfRun r = (case r of Inl (lastError, evs) \<Rightarrow> evs | Inr (footprints, evs) \<Rightarrow> evs)"

section \<open>Vocabulary of the polygon properties\<close>












section \<open>Location strings\<close>

text \<open>
  The characters matched by \<open>\s\<close> and removed by \<open>trim()\<close>. A \<open>char\<close> holds a code unit
  below 256; among these JavaScript counts as white space the tab, line feed, vertical
  tab, form feed, carriage return, space and the no-break space U+00A0. Its other white
  space (U+1680, U+2000 to U+200A, U+2028, U+2029, U+202F, U+205F, U+3000, U+FEFF) lies
  outside the type, and \<open>toUpperCase\<close> is modelled for the ASCII letters only; so the
  properties of functions that inspect their input are stated for ASCII input, which
  \<open>ascii\<close> expresses. The digits matched by \<open>\d\<close> are the ten ASCII digits.
\<close>

definition isSpace :: "char \<Rightarrow> bool" where
  "isSpace c = (c \<in> set [CHR '' '', CHR 0x09, CHR 0x0A, CHR 0x0B, CHR 0x0C, CHR 0x0D, CHR 0xA0])"


definition isDigit :: "char \<Rightarrow> bool" where
  "isDigit c = (c \<in> set ''0123456789'')"

definition trim :: "string \<Rightarrow> string" where
  "trim s = rev (dropWhile isSpace (rev (dropWhile isSpace s)))"

text \<open>\<open>!input || !input.trim()\<close>.\<close>

definition blank :: "string \<Rightarrow> bool" where
  "blank input = (input = [] \<or> trim input = [])"

text \<open>
  The part \<open>-?\d+(?:\.\d+)?\<close> of \<open>LATLON_RE\<close>, matched at the start of a string: the
  matched text and the rest. The repetitions are greedy, and taking fewer characters
  never helps the rest of the expression to match, because what may follow a number (white
  space, a comma, the end) is neither a digit nor a dot; so the first choice is the only one
  (lemma \<open>matchLatLon_iff\<close> below).
\<close>

definition matchNumber :: "string \<Rightarrow> (string \<times> string) option" where
  "matchNumber s =
     (let (sign, s1) = (case s of c # r \<Rightarrow> if c = CHR ''-'' then ([c], r) else ([], s) | [] \<Rightarrow> ([], s));
          ds = takeWhile isDigit s1;
          s2 = dropWhile isDigit s1
      in if ds = [] then None
         else (case s2 of
                 c # r \<Rightarrow>
                   if c = CHR ''.'' \<and> takeWhile isDigit r \<noteq> []
                   then Some (sign @ ds @ [c] @ takeWhile isDigit r, dropWhile isDigit r)
                   else Some (sign @ ds, s2)
               | [] \<Rightarrow> Some (sign @ ds, s2)))"

text \<open>\<open>input.match(LATLON_RE)\<close> with
  \<open>LATLON_RE = /^\s*(-?\d+(?:\.\d+)?)\s*,\s*(-?\d+(?:\.\d+)?)\s*$/\<close>: the two groups.\<close>

definition matchLatLon :: "string \<Rightarrow> (string \<times> string) option" where
  "matchLatLon input =
     (case matchNumber (dropWhile isSpace input) of
        None \<Rightarrow> None
      | Some (m1, r1) \<Rightarrow>
          (case dropWhile isSpace r1 of
             [] \<Rightarrow> None
           | c # r2 \<Rightarrow>
               if c \<noteq> CHR '','' then None
               else (case matchNumber (dropWhile isSpace r2) of
                       None \<Rightarrow> None
                     | Some (m2, r3) \<Rightarrow>
                         if dropWhile isSpace r3 = [] then Some (m1, m2) else None)))"

text \<open>\<open>parseFloat\<close> on a string matched by \<open>-?\d+(?:\.\d+)?\<close>: its decimal value.\<close>

definition digitValue :: "char \<Rightarrow> nat" where
  "digitValue c = (case map_of (zip ''0123456789'' [0, 1, 2, 3, 4, 5, 6, 7, 8, 9]) c of
                     Some d \<Rightarrow> d | None \<Rightarrow> 0)"

definition digitsValue :: "string \<Rightarrow> nat" where
  "digitsValue ds = foldl (\<lambda>acc c. 10 * acc + digitValue c) 0 ds"

definition parseDecimal :: "string \<Rightarrow> real" where
  "parseDecimal m =
     (let negative = (m \<noteq> [] \<and> hd m = CHR ''-'');
          body = (if negative then tl m else m);
          whole = takeWhile isDigit body;
          frac = takeWhile isDigit (drop 1 (dropWhile isDigit body));
          v = real (digitsValue whole) + real (digitsValue frac) / 10 ^ length frac
      in if negative then - v else v)"

text \<open>\<open>str.split(/\s+/)\<close>: the pieces between maximal runs of white space (with an
  empty piece at either end when the string starts or ends with white space).\<close>

function splitSpaces :: "string \<Rightarrow> string \<Rightarrow> string list" where
  "splitSpaces [] cur = [cur]"
| "splitSpaces (c # cs) cur =
     (if isSpace c then cur # splitSpaces (dropWhile isSpace cs) []
      else splitSpaces cs (cur @ [c]))"
  by pat_completeness auto
termination
  by (relation "measure (\<lambda>(s, cur). length s)") (auto simp: length_dropWhile_le less_Suc_eq_le)

text \<open>\<open>s.split("+")\<close> for a separator of one character.\<close>

fun splitChar :: "char \<Rightarrow> string \<Rightarrow> string \<Rightarrow> string list" where
  "splitChar sep [] cur = [cur]"
| "splitChar sep (c # cs) cur =
     (if c = sep then cur # splitChar sep cs [] else splitChar sep cs (cur @ [c]))"

definition plusCodeChar :: "char \<Rightarrow> bool" where
  "plusCodeChar c = (c \<in> set ''23456789CFGHJMPQRVWX+'')"

text \<open>\<open>extractPlusCode\<close>. The pattern \<open>[a, b] = cleaned.split("+")\<close> reads the first
  two pieces; there are at least two because \<open>cleaned\<close> contains a plus sign.\<close>

definition extractPlusCode :: "string \<Rightarrow> string option" where
  "extractPlusCode str =
     (if str = [] then None
      else (case find (\<lambda>t. CHR ''+'' \<in> set t) (splitSpaces str []) of
              None \<Rightarrow> None
            | Some token \<Rightarrow>
                (let cleaned = filter plusCodeChar (toUpperCase token)
                 in if CHR ''+'' \<notin> set cleaned then None
                    else (case splitChar CHR ''+'' cleaned [] of
                            a # b # others \<Rightarrow>
                              if length a \<ge> 2 \<and> length b \<ge> 2 then Some (a @ ''+'' @ b) else None
                          | _ \<Rightarrow> None))))"

text \<open>\<open>input.replace(code, "")\<close>: the first occurrence of \<open>code\<close> is removed.\<close>

fun removeFirst :: "string \<Rightarrow> string \<Rightarrow> string" where
  "removeFirst code [] = []"
| "removeFirst code (c # cs) =
     (if prefix code (c # cs) then drop (length code) (c # cs) else c # removeFirst code cs)"

text \<open>\<open>s.indexOf(c)\<close>, with \<open>-1\<close> when there is none.\<close>

fun indexOf :: "string \<Rightarrow> char \<Rightarrow> int" where
  "indexOf [] c = - 1"
| "indexOf (d # ds) c = (if d = c then 0 else (let i = indexOf ds c in if i < 0 then - 1 else i + 1))"

section \<open>Geocoding and Plus Codes\<close>

datatype LatLon = LatLon (lat_of: real) (lon_of: real)

text \<open>
  The Nominatim service, seen from \<open>geocodeNominatim\<close>: a rejected request, or a status
  code with a body that does not parse, parses to something that is not an array, or
  parses to an array of results. The \<open>lat\<close> and \<open>lon\<close> of a result are numeric strings;
  the model holds the numbers \<open>parseFloat\<close> reads from them.
\<close>

datatype NominatimBody = NBadJson Thrown | NNotArray | NResults "LatLon list"

datatype NominatimOutcome = NRejected Thrown | NResponse nat NominatimBody

text \<open>The \<open>open-location-code\<close> library, of which the program uses three functions;
  \<open>decode\<close> is modelled by the centre of the area it returns.\<close>

record Geo =
  nominatim :: "string \<Rightarrow> NominatimOutcome"
  olc_recoverNearest :: "string \<Rightarrow> real \<Rightarrow> real \<Rightarrow> Thrown + string"
  olc_decode :: "string \<Rightarrow> Thrown + LatLon"
  olc_isValid :: "string \<Rightarrow> bool"

definition geocodeNominatim :: "Geo \<Rightarrow> string \<Rightarrow> Thrown + LatLon" where
  "geocodeNominatim g query =
     (case nominatim g query of
        NRejected e \<Rightarrow> Inl e
      | NResponse status body \<Rightarrow>
          if \<not> res_ok status then Inl (Error (''Nominatim error '' @ showNat status))
          else (case body of
                  NBadJson e \<Rightarrow> Inl e
                | NNotArray \<Rightarrow> Inl (Error ''No results from Nominatim'')
                | NResults [] \<Rightarrow> Inl (Error ''No results from Nominatim'')
                | NResults (r # rs) \<Rightarrow> Inr r))"

definition decodePlusCode :: "Geo \<Rightarrow> string \<Rightarrow> real \<Rightarrow> real \<Rightarrow> Thrown + LatLon" where
  "decodePlusCode g code refLat refLon =
     (if length code \<le> 8 \<or> (CHR ''+'' \<in> set code \<and> indexOf code CHR ''+'' \<le> 4)
      then (case olc_recoverNearest g code refLat refLon of
              Inl e \<Rightarrow> Inl e
            | Inr fullCode \<Rightarrow> olc_decode g fullCode)
      else if \<not> olc_isValid g code then Inl (Error (''Invalid Plus Code: '' @ code))
      else olc_decode g code)"

text \<open>The reference point of the Plus Code pathway: the geocoded locality when there
  is one and geocoding it succeeds, the fallback coordinates otherwise. The second
  component lists the queries sent to Nominatim.\<close>

definition referencePoint :: "Geo \<Rightarrow> string \<Rightarrow> real \<Rightarrow> real \<Rightarrow> LatLon \<times> string list" where
  "referencePoint g locality fallbackLat fallbackLon =
     (if length locality > 0
      then (case geocodeNominatim g locality of
              Inr r \<Rightarrow> (r, [locality])
            | Inl e \<Rightarrow> (LatLon fallbackLat fallbackLon, [locality]))
      else (LatLon fallbackLat fallbackLon, []))"

text \<open>\<open>resolveLocationString\<close>: the result, and the queries sent to Nominatim.\<close>

definition resolveLocationString ::
  "Geo \<Rightarrow> string \<Rightarrow> real \<Rightarrow> real \<Rightarrow> (Thrown + LatLon) \<times> string list" where
  "resolveLocationString g input fallbackLat fallbackLon =
     (if blank input then (Inl (Error ''Empty location query''), [])
      else
        (case matchLatLon input of
           Some (m1, m2) \<Rightarrow> (Inr (LatLon (parseDecimal m1) (parseDecimal m2)), [])
         | None \<Rightarrow>
             (case extractPlusCode input of
                Some code \<Rightarrow>
                  (let locality = trim (removeFirst code input);
                       (ref, queries) = referencePoint g locality fallbackLat fallbackLon
                   in (decodePlusCode g code (lat_of ref) (lon_of ref), queries))
              | None \<Rightarrow> (geocodeNominatim g input, [input]))))"

section \<open>Literal coordinate pairs\<close>




section \<open>The application state and its two handlers\<close>

record BuildingControlState =
  footprintScale :: real
  heightScale :: real
  rotation :: real
  verticalOffset :: real

record EnvironmentControlState =
  cloudSize :: real
  cloudCover :: real
  cloudDensity :: real
  hour :: real

text \<open>The \<open>useState\<close> variables of \<open>App\<close>.\<close>

record AppState =
  s_locQuery :: string
  s_lat :: real
  s_lon :: real
  s_size :: real
  s_footprints :: "Footprint list"
  s_loading :: bool
  s_error :: "string option"
  s_showDiagnostics :: bool
  s_renderKey :: nat
  s_buildingControls :: BuildingControlState
  s_envControls :: EnvironmentControlState

text \<open>\<open>v.toFixed(6)\<close> for a real \<open>v\<close> of magnitude below \<open>10 ^ 21\<close>: rounded to six
  decimals, half away from zero. (From \<open>10 ^ 21\<close> on the method prints the exponent form
  of \<open>String(v)\<close>, and it rounds the binary value of the double that holds \<open>v\<close>, which
  for a decimal such as 1.0000005 lies just off the half; neither is represented. The
  text is only what \<open>handleLocate\<close> writes back into the query field on success.)\<close>

definition toFixed6 :: "real \<Rightarrow> string" where
  "toFixed6 v =
     (let n = nat \<lfloor>\<bar>v\<bar> * 1000000 + 1 / 2\<rfloor>;
          whole = showNat (n div 1000000);
          frac = showNat (n mod 1000000)
      in (if v < 0 then ''-'' else []) @ whole @ ''.''
           @ replicate (6 - length frac) CHR ''0'' @ frac)"

text \<open>\<open>normalizeError(error).message || fallback\<close>.\<close>

definition errorMessage :: "Thrown \<Rightarrow> string \<Rightarrow> string" where
  "errorMessage e fallback = orElse (Some (message (normalizeError e))) fallback"

text \<open>
  \<open>handleLocate\<close> and \<open>handleRender\<close>: the state after the handler has run to its end,
  from the state it was created in. Each setter call is one record update, in the order
  of the source; \<open>catch\<close> is the left case of the sum.
\<close>

definition handleLocate :: "Geo \<Rightarrow> AppState \<Rightarrow> AppState" where
  "handleLocate g s =
     (let s1 = s\<lparr> s_loading := True \<rparr>;
          s2 = s1\<lparr> s_error := None \<rparr>;
          s3 = (case fst (resolveLocationString g (s_locQuery s) (s_lat s) (s_lon s)) of
                  Inr found \<Rightarrow>
                    (let newLat = lat_of found; newLon = lon_of found
                     in s2\<lparr> s_lat := newLat \<rparr>
                          \<lparr> s_lon := newLon \<rparr>
                          \<lparr> s_locQuery := toFixed6 newLat @ '', '' @ toFixed6 newLon \<rparr>)
                | Inl e \<Rightarrow> s2\<lparr> s_error := Some (errorMessage e ''Failed to geocode location.'') \<rparr>)
      in s3\<lparr> s_loading := False \<rparr>)"

definition handleRender :: "Geo \<Rightarrow> World \<Rightarrow> AppState \<Rightarrow> AppState" where
  "handleRender g w s =
     (let s1 = s\<lparr> s_loading := True \<rparr>;
          s2 = s1\<lparr> s_error := None \<rparr>;
          s3 = (case fst (resolveLocationString g (s_locQuery s) (s_lat s) (s_lon s)) of
                  Inl e \<Rightarrow> s2\<lparr> s_error := Some (errorMessage e ''Failed to fetch building data.'') \<rparr>
                | Inr found \<Rightarrow>
                    (let currentLat = lat_of found; currentLon = lon_of found;
                         s21 = s2\<lparr> s_lat := currentLat \<rparr>\<lparr> s_lon := currentLon \<rparr>
                     in case fst (fetchBuildings w currentLat currentLon (s_size s)) of
                          Inl e \<Rightarrow>
                            s21\<lparr> s_error := Some (errorMessage e ''Failed to fetch building data.'') \<rparr>
                        | Inr fetchedFootprints \<Rightarrow>
                            (let preparedFootprints =
                                   prepareFootprints fetchedFootprints (s_size s * 0.4)
                             in s21\<lparr> s_footprints := preparedFootprints \<rparr>
                                   \<lparr> s_renderKey := s_renderKey s21 + 1 \<rparr>)))
      in s3\<lparr> s_loading := False \<rparr>)"

text \<open>The state \<open>App\<close> starts in, with one footprint already rendered, and a query
  that is a literal coordinate pair.\<close>

definition renderedState :: AppState where
  "renderedState =
     \<lparr> s_locQuery = ''1, 2'', s_lat = 52.52, s_lon = 13.405, s_size = 250,
       s_footprints = [nearRectangle], s_loading = False, s_error = None,
       s_showDiagnostics = False, s_renderKey = 1,
       s_buildingControls = \<lparr> footprintScale = 1, heightScale = 1, rotation = 0,
                               verticalOffset = 0 \<rparr>,
       s_envControls = \<lparr> cloudSize = 150, cloudCover = 0.3, cloudDensity = 0.1, hour = 10 \<rparr> \<rparr>"

text \<open>Three geocoders used as examples: one whose service rejects every request and
  whose library accepts no code; one whose service finds the same place for every query;
  and one that knows Berlin and one Plus Code there.\<close>

definition geoDown :: Geo where
  "geoDown = \<lparr> nominatim = (\<lambda>q. NRejected (Error ''Failed to fetch'')),
               olc_recoverNearest = (\<lambda>code la lo. Inl (Error ''Invalid code'')),
               olc_decode = (\<lambda>code. Inl (Error ''Invalid code'')),
               olc_isValid = (\<lambda>code. False) \<rparr>"



section \<open>API keys\<close>

record ApiKeys =
  openai :: string
  gemini :: string
  huggingface :: string
  ollama :: string

section \<open>The building-info route of the proxy\<close>

record BuildingInfo =
  b_lat :: real
  b_lon :: real
  building_type :: string
  b_name :: "string option"
  addr_street :: "string option"
  addr_housenumber :: "string option"
  addr_city :: "string option"
  b_height :: "real option"
  b_levels :: "real option"
  b_tags :: "string \<rightharpoonup> string"

text \<open>The JSON bodies the route sends: every field that occurs in one of them.\<close>

record InfoJson =
  j_error :: "string option"
  j_name :: "string option"
  j_description :: "string option"
  j_original_tags :: "(string \<rightharpoonup> string) option"

text \<open>
  A request as the handler sees it: what \<open>await c.req.json()\<close> gives (the destructured
  \<open>building\<close>, or something thrown) and the \<open>x-openai-key\<close> header. A chat completion
  either throws or replies; the reply is reduced to \<open>choices[0]?.message?.content\<close>, which
  may be missing. The two completions of one request are told apart by their number; the
  prompt, built from the building by \<open>createBuildingContext\<close>, is not modelled.
\<close>

record InfoRequest =
  req_json :: "Thrown + BuildingInfo"
  req_key_header :: "string option"

datatype ChatOutcome = ChatThrows Thrown | ChatReplies "string option"

record ServerEnv =
  OPENAI_API_KEY :: "string option"
  chat :: "nat \<Rightarrow> ChatOutcome"

text \<open>\<open>word.charAt(0).toUpperCase() + word.slice(1)\<close> and \<open>capitalizeWords\<close>.\<close>

fun capitalize :: "string \<Rightarrow> string" where
  "capitalize [] = []"
| "capitalize (c # cs) = toUpperChar c # cs"

fun joinWith :: "string \<Rightarrow> string list \<Rightarrow> string" where
  "joinWith sep [] = []"
| "joinWith sep [x] = x"
| "joinWith sep (x # y # ys) = x @ sep @ joinWith sep (y # ys)"

definition capitalizeWords :: "string \<Rightarrow> string" where
  "capitalizeWords str = joinWith '' '' (map capitalize (splitChar CHR ''_'' str []))"

text \<open>The response of the \<open>catch\<close> block, and of the missing key.\<close>

definition failureResponse :: "nat \<times> InfoJson" where
  "failureResponse =
     (500, \<lparr> j_error = Some ''Failed to generate building information'',
              j_name = Some ''Unknown Building'',
              j_description = Some ''A unique structure in the urban environment, contributing to the city's architectural diversity.'',
              j_original_tags = None \<rparr>)"

definition noKeyResponse :: "nat \<times> InfoJson" where
  "noKeyResponse =
     (500, \<lparr> j_error = Some ''OpenAI API key not configured'', j_name = None,
              j_description = None, j_original_tags = None \<rparr>)"

text \<open>\<open>headerKey || c.env.OPENAI_API_KEY\<close> with \<open>headerKey = c.req.header(...)?.trim()\<close>.\<close>

definition apiKeyOf :: "ServerEnv \<Rightarrow> InfoRequest \<Rightarrow> string option" where
  "apiKeyOf env req =
     (let headerKey = map_option trim (req_key_header req)
      in if truthy headerKey then headerKey else OPENAI_API_KEY env)"

text \<open>\<open>content?.trim() || building.name || capitalizeWords(building.building_type)\<close>.\<close>

definition generatedNameOf :: "string option \<Rightarrow> BuildingInfo \<Rightarrow> string" where
  "generatedNameOf content building =
     (if truthy (map_option trim content) then orElse (map_option trim content) []
      else if truthy (b_name building) then orElse (b_name building) []
      else capitalizeWords (building_type building))"

text \<open>The handler of \<open>app.post("/building-info")\<close>: status code and JSON body.\<close>

definition buildingInfoRoute :: "ServerEnv \<Rightarrow> InfoRequest \<Rightarrow> nat \<times> InfoJson" where
  "buildingInfoRoute env req =
     (case req_json req of
        Inl e \<Rightarrow> failureResponse
      | Inr building \<Rightarrow>
          if \<not> truthy (apiKeyOf env req) then noKeyResponse
          else
            (case chat env 1 of
               ChatThrows e \<Rightarrow> failureResponse
             | ChatReplies content \<Rightarrow>
                 (let description = orElse content ''A building in the urban landscape.''
                  in case chat env 2 of
                       ChatThrows e \<Rightarrow> failureResponse
                     | ChatReplies nameContent \<Rightarrow>
                         (200, \<lparr> j_error = None,
                                  j_name = Some (generatedNameOf nameContent building),
                                  j_description = Some description,
                                  j_original_tags = Some (b_tags building) \<rparr>))))"

section \<open>The client hook\<close>

text \<open>What \<open>fetch("/api/ai/building-info", ...)\<close> gives the hook: a rejection, or a
  status code with what \<open>response.json()\<close> gives.\<close>

datatype InfoFetch = InfoRejected Thrown | InfoResponse nat "Thrown + InfoJson"

record AIState =
  ai_loading :: bool
  ai_error :: "string option"

text \<open>\<open>err instanceof Error ? err.message : "Unknown error occurred"\<close>.\<close>

fun caughtMessage :: "Thrown \<Rightarrow> string" where
  "caughtMessage (Error m) = m"
| "caughtMessage (Other v) = ''Unknown error occurred''"

text \<open>The body of \<open>try\<close> in \<open>generateBuildingInfo\<close>: the returned data, or what is
  thrown.\<close>

definition tryGenerate :: "InfoFetch \<Rightarrow> Thrown + InfoJson" where
  "tryGenerate f =
     (case f of
        InfoRejected e \<Rightarrow> Inl e
      | InfoResponse status body \<Rightarrow>
          if \<not> res_ok status then
            (case body of
               Inl e \<Rightarrow> Inl e
             | Inr errorData \<Rightarrow>
                 Inl (Error (orElse (j_error errorData) ''Failed to generate building information'')))
          else body)"

text \<open>\<open>generateBuildingInfo\<close>: what the caller receives (\<open>None\<close> for \<open>null\<close>) and the
  state of the hook afterwards.\<close>

definition generateBuildingInfo :: "InfoFetch \<Rightarrow> AIState \<Rightarrow> InfoJson option \<times> AIState" where
  "generateBuildingInfo f st =
     (let st1 = st\<lparr> ai_loading := True \<rparr>;
          st2 = st1\<lparr> ai_error := None \<rparr>
      in case tryGenerate f of
           Inr data \<Rightarrow> (Some data, st2\<lparr> ai_loading := False \<rparr>)
         | Inl err \<Rightarrow> (None, st2\<lparr> ai_error := Some (caughtMessage err) \<rparr>\<lparr> ai_loading := False \<rparr>))"

text \<open>The header the hook sends for the OpenAI key, and the whole flow when the request
  reaches the route and its response reaches the hook.\<close>

definition openaiHeader :: "ApiKeys \<Rightarrow> string option" where
  "openaiHeader keys = (if openai keys \<noteq> [] then Some (trim (openai keys)) else None)"

definition buildingInfoFlow ::
  "ServerEnv \<Rightarrow> ApiKeys \<Rightarrow> BuildingInfo \<Rightarrow> AIState \<Rightarrow> InfoJson option \<times> AIState" where
  "buildingInfoFlow env keys building st =
     (let (status, body) =
            buildingInfoRoute env \<lparr> req_json = Inr building, req_key_header = openaiHeader keys \<rparr>
      in generateBuildingInfo (InfoResponse status (Inr body)) st)"

text \<open>Examples: a building, stored keys, and three servers: one whose model service
  throws, one whose first completion has no content, and one that answers.\<close>

definition someBuilding :: BuildingInfo where
  "someBuilding = \<lparr> b_lat = 52.52, b_lon = 13.405, building_type = ''train_station'',
                     b_name = None, addr_street = None, addr_housenumber = None,
                     addr_city = None, b_height = Some 12, b_levels = None,
                     b_tags = [''building'' \<mapsto> ''train_station''] \<rparr>"

definition someKeys :: ApiKeys where
  "someKeys = \<lparr> openai = ''sk-test'', gemini = [], huggingface = [], ollama = [] \<rparr>"

definition envFailing :: ServerEnv where
  "envFailing = \<lparr> OPENAI_API_KEY = None, chat = (\<lambda>n. ChatThrows (Error ''429 quota exceeded'')) \<rparr>"

definition envSilent :: ServerEnv where
  "envSilent = \<lparr> OPENAI_API_KEY = None,
                 chat = (\<lambda>n. if n = 1 then ChatReplies None else ChatReplies (Some '' Grand Central '')) \<rparr>"

definition idleState :: AIState where
  "idleState = \<lparr> ai_loading = False, ai_error = None \<rparr>"

section \<open>Persisting the API keys\<close>

text \<open>\<open>Partial<ApiKeys>\<close>, the type the source gives to the parsed blob.\<close>

record PartialApiKeys =
  p_openai :: "string option"
  p_gemini :: "string option"
  p_huggingface :: "string option"
  p_ollama :: "string option"

definition STORAGE_KEY :: string where
  "STORAGE_KEY = ''cityblocks:apiKeys''"

text \<open>
  The browser, as far as the two storage functions depend on it: whether \<open>window\<close> is
  defined; whether \<open>window.localStorage\<close> can be used at all (using it throws otherwise);
  which writes \<open>setItem\<close> accepts (it throws for the others, for instance when the quota
  is exceeded); \<open>JSON.stringify\<close> on a record of keys and \<open>JSON.parse\<close>, with the
  result typed as the source's cast says; and the default keys read from the build
  environment by \<open>getEnvApiKeys()\<close>.
\<close>

record Browser =
  has_window :: bool
  storage_usable :: bool
  accepts :: "string \<Rightarrow> string \<Rightarrow> bool"
  JSON_stringify :: "ApiKeys \<Rightarrow> string"
  JSON_parse :: "string \<Rightarrow> Thrown + PartialApiKeys"
  defaultKeys :: ApiKeys

text \<open>The content of \<open>localStorage\<close>.\<close>

type_synonym Items = "string \<rightharpoonup> string"

text \<open>\<open>{ ...defaultKeys, ...parsed }\<close>.\<close>

definition spreadKeys :: "ApiKeys \<Rightarrow> PartialApiKeys \<Rightarrow> ApiKeys" where
  "spreadKeys d parsed =
     \<lparr> openai = (case p_openai parsed of None \<Rightarrow> openai d | Some v \<Rightarrow> v),
       gemini = (case p_gemini parsed of None \<Rightarrow> gemini d | Some v \<Rightarrow> v),
       huggingface = (case p_huggingface parsed of None \<Rightarrow> huggingface d | Some v \<Rightarrow> v),
       ollama = (case p_ollama parsed of None \<Rightarrow> ollama d | Some v \<Rightarrow> v) \<rparr>"

definition readFromStorage :: "Browser \<Rightarrow> Items \<Rightarrow> ApiKeys" where
  "readFromStorage b items =
     (if \<not> has_window b then defaultKeys b
      else if \<not> storage_usable b then defaultKeys b
      else (case items STORAGE_KEY of
              None \<Rightarrow> defaultKeys b
            | Some raw \<Rightarrow>
                if raw = [] then defaultKeys b
                else (case JSON_parse b raw of
                        Inl e \<Rightarrow> defaultKeys b
                      | Inr parsed \<Rightarrow> spreadKeys (defaultKeys b) parsed)))"

definition writeToStorage :: "Browser \<Rightarrow> ApiKeys \<Rightarrow> Items \<Rightarrow> Items" where
  "writeToStorage b v items =
     (if \<not> has_window b then items
      else if \<not> storage_usable b then items
      else if \<not> accepts b STORAGE_KEY (JSON_stringify b v) then items
      else items(STORAGE_KEY \<mapsto> JSON_stringify b v))"

text \<open>A complete record of keys as a parsed blob.\<close>

definition allKeys :: "ApiKeys \<Rightarrow> PartialApiKeys" where
  "allKeys k = \<lparr> p_openai = Some (openai k), p_gemini = Some (gemini k),
                 p_huggingface = Some (huggingface k), p_ollama = Some (ollama k) \<rparr>"

text \<open>
  A JSON codec for the example browsers: it writes a record of keys as JSON text, and
  reads back objects whose members are strings under the four key names. In a string it
  escapes the quotation mark and the backslash.
\<close>

fun escapeJson :: "string \<Rightarrow> string" where
  "escapeJson [] = []"
| "escapeJson (c # cs) =
     (if c = CHR 0x22 \<or> c = CHR 0x5C then CHR 0x5C # c # escapeJson cs else c # escapeJson cs)"

definition quoteJson :: "string \<Rightarrow> string" where
  "quoteJson s = [CHR 0x22] @ escapeJson s @ [CHR 0x22]"

definition stringifyKeys :: "ApiKeys \<Rightarrow> string" where
  "stringifyKeys k =
     ''{'' @ quoteJson ''openai'' @ '':'' @ quoteJson (openai k) @ '','' @
             quoteJson ''gemini'' @ '':'' @ quoteJson (gemini k) @ '','' @
             quoteJson ''huggingface'' @ '':'' @ quoteJson (huggingface k) @ '','' @
             quoteJson ''ollama'' @ '':'' @ quoteJson (ollama k) @ ''}''"

text \<open>The characters of a JSON string up to its closing quotation mark, unescaped, and
  the text after that mark.\<close>

fun unquoteJson :: "string \<Rightarrow> string \<Rightarrow> (string \<times> string) option" where
  "unquoteJson [] acc = None"
| "unquoteJson [c] acc = (if c = CHR 0x22 then Some (acc, []) else None)"
| "unquoteJson (c # d # cs) acc =
     (if c = CHR 0x22 then Some (acc, d # cs)
      else if c = CHR 0x5C then
        (if d = CHR 0x22 \<or> d = CHR 0x5C then unquoteJson cs (acc @ [d]) else None)
      else unquoteJson (d # cs) (acc @ [c]))"

definition readString :: "string \<Rightarrow> (string \<times> string) option" where
  "readString s = (case s of c # cs \<Rightarrow> if c = CHR 0x22 then unquoteJson cs [] else None | [] \<Rightarrow> None)"

definition setMember :: "string \<Rightarrow> string \<Rightarrow> PartialApiKeys \<Rightarrow> PartialApiKeys" where
  "setMember name v p =
     (if name = ''openai'' then p\<lparr> p_openai := Some v \<rparr>
      else if name = ''gemini'' then p\<lparr> p_gemini := Some v \<rparr>
      else if name = ''huggingface'' then p\<lparr> p_huggingface := Some v \<rparr>
      else if name = ''ollama'' then p\<lparr> p_ollama := Some v \<rparr>
      else p)"

text \<open>The members of an object after its opening brace; the number bounds the members
  read, and the length of the text is enough.\<close>

fun readMembers :: "nat \<Rightarrow> string \<Rightarrow> PartialApiKeys \<Rightarrow> PartialApiKeys option" where
  "readMembers 0 s p = None"
| "readMembers (Suc n) s p =
     (case readString s of
        None \<Rightarrow> None
      | Some (name, r1) \<Rightarrow>
          (case r1 of
             [] \<Rightarrow> None
           | c # r2 \<Rightarrow>
               if c \<noteq> CHR '':'' then None
               else (case readString r2 of
                       None \<Rightarrow> None
                     | Some (v, r3) \<Rightarrow>
                         if r3 = ''}'' then Some (setMember name v p)
                         else (case r3 of
                                 [] \<Rightarrow> None
                               | d # r4 \<Rightarrow>
                                   if d = CHR '','' then readMembers n r4 (setMember name v p)
                                   else None))))"

definition noKeys :: PartialApiKeys where
  "noKeys = \<lparr> p_openai = None, p_gemini = None, p_huggingface = None, p_ollama = None \<rparr>"

definition parseKeys :: "string \<Rightarrow> Thrown + PartialApiKeys" where
  "parseKeys s =
     (if s = ''{}'' then Inr noKeys
      else (case s of
              [] \<Rightarrow> Inl (Error ''Unexpected end of JSON input'')
            | c # cs \<Rightarrow>
                if c \<noteq> CHR ''{'' then Inl (Error ''Unexpected token'')
                else (case readMembers (length cs) cs noKeys of
                        None \<Rightarrow> Inl (Error ''Unexpected token'')
                      | Some p \<Rightarrow> Inr p)))"

definition emptyKeys :: ApiKeys where
  "emptyKeys = \<lparr> openai = [], gemini = [], huggingface = [], ollama = [] \<rparr>"

text \<open>Two browsers with this codec and no keys in the build environment: one whose
  storage takes every write, and one whose storage is full.\<close>

definition browserOk :: Browser where
  "browserOk = \<lparr> has_window = True, storage_usable = True, accepts = (\<lambda>k v. True),
                 JSON_stringify = stringifyKeys, JSON_parse = parseKeys,
                 defaultKeys = emptyKeys \<rparr>"

definition browserFull :: Browser where
  "browserFull = \<lparr> has_window = True, storage_usable = True, accepts = (\<lambda>k v. False),
                   JSON_stringify = stringifyKeys, JSON_parse = parseKeys,
                   defaultKeys = emptyKeys \<rparr>"

section \<open>Footprints as objects in a store\<close>

text \<open>
  To speak about mutation, the objects a footprint consists of are placed in a store:
  the \<open>THREE.Vector2\<close> points, the array that holds them, the tag object and the
  footprint object itself, which refers to its array and its tags by address. The
  metadata object is created anew with every footprint and is kept inside it. The store
  is a list of objects, an address is an index into it, and \<open>new\<close> and object literals
  append to it.
\<close>

type_synonym addr = nat

datatype Obj =
    OVector2 real real
  | OArray "addr list"
  | OTags "string \<rightharpoonup> string"
  | OFootprint addr real addr "Metadata option"

type_synonym Store = "Obj list"

definition alloc :: "Store \<Rightarrow> Obj \<Rightarrow> Store \<times> addr" where
  "alloc h ob = (h @ [ob], length h)"

definition lookup :: "Store \<Rightarrow> addr \<Rightarrow> Obj option" where
  "lookup h a = (if a < length h then Some (h ! a) else None)"

text \<open>Reading the values behind an address. \<open>None\<close> means that the store does not hold
  an object of the expected kind there, which the types of the source exclude.\<close>

definition readVector2 :: "Store \<Rightarrow> addr \<Rightarrow> Vector2 option" where
  "readVector2 h a = (case lookup h a of Some (OVector2 x y) \<Rightarrow> Some (Vector2 x y) | _ \<Rightarrow> None)"

definition readArray :: "Store \<Rightarrow> addr \<Rightarrow> addr list option" where
  "readArray h a = (case lookup h a of Some (OArray items) \<Rightarrow> Some items | _ \<Rightarrow> None)"

definition readTags :: "Store \<Rightarrow> addr \<Rightarrow> (string \<rightharpoonup> string) option" where
  "readTags h a = (case lookup h a of Some (OTags t) \<Rightarrow> Some t | _ \<Rightarrow> None)"

definition readPoints :: "Store \<Rightarrow> addr list \<Rightarrow> Vector2 list option" where
  "readPoints h items = those (map (readVector2 h) items)"

definition readFootprint :: "Store \<Rightarrow> addr \<Rightarrow> Footprint option" where
  "readFootprint h a =
     (case lookup h a of
        Some (OFootprint p ht t m) \<Rightarrow>
          (case readArray h p of
             None \<Rightarrow> None
           | Some items \<Rightarrow>
               (case readPoints h items of
                  None \<Rightarrow> None
                | Some ps \<Rightarrow>
                    (case readTags h t of
                       None \<Rightarrow> None
                     | Some tg \<Rightarrow> Some \<lparr> pts = ps, height = ht, tags = tg, metadata = m \<rparr>)))
      | _ \<Rightarrow> None)"

definition readFootprints :: "Store \<Rightarrow> addr list \<Rightarrow> Footprint list option" where
  "readFootprints h footprints = those (map (readFootprint h) footprints)"

text \<open>\<open>fp.pts.map((pt) => new THREE.Vector2(...))\<close>: every point is read and a new
  point is allocated for it.\<close>

fun centrePoints :: "Store \<Rightarrow> Vector2 \<Rightarrow> real \<Rightarrow> addr list \<Rightarrow> (Store \<times> addr list) option" where
  "centrePoints h c fitScale [] = Some (h, [])"
| "centrePoints h c fitScale (a # items) =
     (case readVector2 h a of
        None \<Rightarrow> None
      | Some pt \<Rightarrow>
          (let moved = centrePoint c fitScale pt;
               (h1, a') = alloc h (OVector2 (x_of moved) (y_of moved))
           in case centrePoints h1 c fitScale items of
                None \<Rightarrow> None
              | Some (h2, items') \<Rightarrow> Some (h2, a' # items')))"

text \<open>The callback of \<open>footprints.map\<close> in \<open>prepareFootprints\<close>, on the store: it reads
  the footprint, allocates the new points, their array and the new footprint object, which
  takes over the address of the old tags; \<open>computeFootprintCentroid(centered)\<close> reads the
  new points.\<close>

definition prepareOneS ::
  "Store \<Rightarrow> PrimarySelection \<Rightarrow> real \<Rightarrow> nat \<Rightarrow> addr \<Rightarrow> (Store \<times> addr) option" where
  "prepareOneS h selection fitScale idx a =
     (case lookup h a of
        Some (OFootprint p ht t m) \<Rightarrow>
          (case readArray h p of
             None \<Rightarrow> None
           | Some items \<Rightarrow>
               (case centrePoints h (sel_centroid selection) fitScale items of
                  None \<Rightarrow> None
                | Some (h1, items') \<Rightarrow>
                    (let (h2, centered) = alloc h1 (OArray items')
                     in case readPoints h2 items' of
                          None \<Rightarrow> None
                        | Some ps \<Rightarrow>
                            Some (alloc h2
                              (OFootprint centered (ht * fitScale) t
                                 (Some \<lparr> centroid =
                                           (if idx = sel_index selection then Centroid 0 0
                                            else computeFootprintCentroid ps),
                                         hero = Some (idx = sel_index selection),
                                         scale = Some fitScale \<rparr>))))))
      | _ \<Rightarrow> None)"

fun prepareLoopS ::
  "Store \<Rightarrow> PrimarySelection \<Rightarrow> real \<Rightarrow> nat \<Rightarrow> addr list \<Rightarrow> (Store \<times> addr list) option" where
  "prepareLoopS h selection fitScale idx [] = Some (h, [])"
| "prepareLoopS h selection fitScale idx (a # rest) =
     (case prepareOneS h selection fitScale idx a of
        None \<Rightarrow> None
      | Some (h1, a') \<Rightarrow>
          (case prepareLoopS h1 selection fitScale (Suc idx) rest of
             None \<Rightarrow> None
           | Some (h2, out) \<Rightarrow> Some (h2, a' # out)))"

text \<open>\<open>prepareFootprints\<close> on the store. Selecting the hero and measuring its radius
  only read; they are computed from the values read.\<close>

definition prepareFootprintsS :: "Store \<Rightarrow> addr list \<Rightarrow> real \<Rightarrow> (Store \<times> addr list) option" where
  "prepareFootprintsS h footprints platformSize =
     (case readFootprints h footprints of
        None \<Rightarrow> None
      | Some fps \<Rightarrow>
          (case selectPrimaryFootprint fps of
             None \<Rightarrow> Some (h, [])
           | Some selection \<Rightarrow>
               (let maxRadius = maxRadiusOf (sel_centroid selection)
                                  (pts (fps ! sel_index selection));
                    fitScale = fitScaleOf platformSize maxRadius
                in prepareLoopS h selection fitScale 0 footprints)))"

section \<open>The render pass\<close>

text \<open>
  What the effect of \<open>Buildings\<close> builds for one footprint, as far as it depends on the
  footprint: the outline handed to \<open>THREE.Shape\<close>, the extrusion depth, the arguments of
  \<open>getBuildingMaterial\<close>, and the placement of the mesh. The \<open>three.js\<close> objects themselves
  are not modelled.
\<close>

record Mesh =
  m_outline :: "Vector2 list"
  m_depth :: real
  m_buildingType :: string
  m_isHero :: bool
  m_positionY :: real
  m_rotationDeg :: real
  m_scale :: "real \<times> real \<times> real"

record TargetBuilding =
  t_position :: "real \<times> real \<times> real"
  t_height :: real
  t_tags :: addr

text \<open>\<open>buildingMeshFromFootprint\<close> throws when there is no first point; the effect
  catches that and skips the footprint.\<close>

definition buildingMeshFromFootprint :: "Vector2 list \<Rightarrow> real \<Rightarrow> Thrown + Vector2 list \<times> real" where
  "buildingMeshFromFootprint ps ht =
     (case ps of
        [] \<Rightarrow> Inl (Error ''Cannot read properties of undefined'')
      | p0 # rest \<Rightarrow> Inr (p0 # rest, ht))"

text \<open>The body of \<open>footprints.forEach\<close> in the effect: the mesh added to the group, if
  any, and the new value of \<open>targetBuildingData\<close>.\<close>

definition renderOne ::
  "Store \<Rightarrow> BuildingControlState \<Rightarrow> addr \<Rightarrow> TargetBuilding option
     \<Rightarrow> (Mesh option \<times> TargetBuilding option) option" where
  "renderOne h controls a target =
     (case lookup h a of
        Some (OFootprint p ht t m) \<Rightarrow>
          (case readFootprint h a of
             None \<Rightarrow> None
           | Some fp \<Rightarrow>
               (let isHero' = isHero fp;
                    buildingType = orElse (tags fp ''building'') ''yes''
                in case buildingMeshFromFootprint (pts fp) (height fp) of
                     Inl e \<Rightarrow> Some (None, target)
                   | Inr (outline, depth) \<Rightarrow>
                       (let fScale = (if isHero' then footprintScale controls else 1);
                            hScale = (if isHero' then heightScale controls else 1);
                            rot = (if isHero' then rotation controls else 0);
                            offset = (if isHero' then verticalOffset controls else 0);
                            mesh = \<lparr> m_outline = outline, m_depth = depth,
                                     m_buildingType = buildingType, m_isHero = isHero',
                                     m_positionY = offset, m_rotationDeg = rot,
                                     m_scale = (fScale, hScale, fScale) \<rparr>
                        in Some (Some mesh,
                                 if isHero'
                                 then Some \<lparr> t_position =
                                               (0, height fp * heightScale controls + 10 + offset, 0),
                                             t_height = height fp, t_tags = t \<rparr>
                                 else target))))
      | _ \<Rightarrow> None)"

fun renderLoop ::
  "Store \<Rightarrow> BuildingControlState \<Rightarrow> addr list \<Rightarrow> Mesh list \<Rightarrow> TargetBuilding option
     \<Rightarrow> (Store \<times> Mesh list \<times> TargetBuilding option) option" where
  "renderLoop h controls [] meshes target = Some (h, meshes, target)"
| "renderLoop h controls (a # rest) meshes target =
     (case renderOne h controls a target of
        None \<Rightarrow> None
      | Some (None, target') \<Rightarrow> renderLoop h controls rest meshes target'
      | Some (Some mesh, target') \<Rightarrow> renderLoop h controls rest (meshes @ [mesh]) target')"

text \<open>The effect of \<open>Buildings\<close> for the footprints at the given addresses: the store
  after it, the meshes of the group and the value passed to \<open>setTargetBuilding\<close>.\<close>

definition renderBuildings ::
  "Store \<Rightarrow> BuildingControlState \<Rightarrow> addr list
     \<Rightarrow> (Store \<times> Mesh list \<times> TargetBuilding option) option" where
  "renderBuildings h controls footprints =
     (if length footprints = 0 then Some (h, [], None)
      else renderLoop h controls footprints [] None)"

text \<open>A store that holds the two example footprints, at the addresses 12 and 13.\<close>

definition exampleStore :: Store where
  "exampleStore =
     [OTags Map.empty,
      OVector2 10 10, OVector2 12 10, OVector2 12 12, OVector2 10 10,
      OArray [1, 2, 3, 4],
      OVector2 3 4, OVector2 (-3) 4, OVector2 (-3) (-4), OVector2 3 (-4), OVector2 3 4,
      OArray [6, 7, 8, 9, 10],
      OFootprint 5 9 0 None,
      OFootprint 11 12 0 None]"

section \<open>Properties of hero selection and preparation\<close>

lemma centroidLoopFl_sums:
  "centroidLoopFl fl ps (a, b) =
     (foldl (\<lambda>s x. fl (s + x)) a (map x_of ps), foldl (\<lambda>s y. fl (s + y)) b (map y_of ps))"
  by (induction ps arbitrary: a b) simp_all

lemma computeFootprintCentroidFl_mean:
  "ps \<noteq> [] \<Longrightarrow>
   computeFootprintCentroidFl fl ps = Centroid (x_of (roundedMean fl ps)) (y_of (roundedMean fl ps))"
  by (simp add: computeFootprintCentroidFl_def centroidLoopFl_sums roundedMean_def roundedSum_def
        Let_def)

lemma computeFootprintCentroidFl_empty: "computeFootprintCentroidFl fl [] = CentroidNaN"
  by (simp add: computeFootprintCentroidFl_def)

lemma selectStepFl_empty:
  "pts fp = [] \<Longrightarrow> selectStepFl fl st fp idx = st"
  by (cases st) (simp add: computeFootprintCentroidFl_empty)

lemma selectStepFl_inv:
  assumes "selectInv fl seen st"
  shows "selectInv fl (seen @ [fp]) (selectStepFl fl st fp (length seen))"
proof (cases "pts fp = []")
  case True
  have "selectInv fl (seen @ [fp]) st"
    using assms True
    by (cases st) (auto simp: selectInv_def nth_append less_Suc_eq)
  then show ?thesis using True by (simp add: selectStepFl_empty)
next
  case nonempty: False
  obtain bi bd bc where st: "st = (bi, bd, bc)" by (cases st) auto
  let ?m = "roundedMean fl (pts fp)"
  let ?d = "roundedSqNorm fl ?m"
  have c: "computeFootprintCentroidFl fl (pts fp) = Centroid (x_of ?m) (y_of ?m)"
    using nonempty by (rule computeFootprintCentroidFl_mean)
  have d: "fl (fl (x_of ?m * x_of ?m) + fl (y_of ?m * y_of ?m)) = ?d"
    by (simp add: roundedSqNorm_def)
  show ?thesis
  proof (cases "bd = Infinity")
    case True
    then have first: "st = (0, Infinity, Vector2 0 0)" "\<forall>fp \<in> set seen. pts fp = []"
      using assms by (auto simp: selectInv_def st)
    have step: "selectStepFl fl st fp (length seen) = (length seen, Finite ?d, ?m)"
      by (simp add: first(1) c d)
    show ?thesis unfolding step using first(2) nonempty
      by (auto simp: selectInv_def nth_append less_Suc_eq)
  next
    case False
    then have inv: "bi < length seen" "pts (seen ! bi) \<noteq> []"
      "bc = roundedMean fl (pts (seen ! bi))" "bd = Finite (roundedSqNorm fl bc)"
      "\<forall>j < length seen. pts (seen ! j) \<noteq> [] \<longrightarrow>
          roundedSqNorm fl bc \<le> roundedSqNorm fl (roundedMean fl (pts (seen ! j)))"
      "\<forall>j < bi. pts (seen ! j) \<noteq> [] \<longrightarrow>
          roundedSqNorm fl bc < roundedSqNorm fl (roundedMean fl (pts (seen ! j)))"
      using assms by (auto simp: selectInv_def st)
    show ?thesis
    proof (cases "?d < roundedSqNorm fl bc")
      case True
      then have step: "selectStepFl fl st fp (length seen) = (length seen, Finite ?d, ?m)"
        by (simp add: st c d inv(4) Let_def)
      have "\<forall>j < length seen. pts (seen ! j) \<noteq> [] \<longrightarrow>
              ?d < roundedSqNorm fl (roundedMean fl (pts (seen ! j)))"
        using True inv(5) by fastforce
      then show ?thesis unfolding step using nonempty
        by (auto simp: selectInv_def nth_append less_Suc_eq intro: less_imp_le)
    next
      case False
      then have step: "selectStepFl fl st fp (length seen) = st"
        by (simp add: st c d inv(4) Let_def)
      show ?thesis unfolding step using inv False
        by (auto simp: selectInv_def st nth_append less_Suc_eq)
    qed
  qed
qed

lemma selectLoopFl_inv:
  "selectInv fl seen st \<Longrightarrow> selectInv fl (seen @ rest) (selectLoopFl fl rest (length seen) st)"
proof (induction rest arbitrary: seen st)
  case Nil
  then show ?case by simp
next
  case (Cons fp rest)
  have "selectInv fl (seen @ [fp]) (selectStepFl fl st fp (length seen))"
    using Cons.prems by (rule selectStepFl_inv)
  from Cons.IH[OF this] show ?case by simp
qed

lemma selectLoopFl_final:
  "selectInv fl footprints (selectLoopFl fl footprints 0 (0, Infinity, Vector2 0 0))"
  using selectLoopFl_inv[of fl "[]" "(0, Infinity, Vector2 0 0)" footprints]
  by (simp add: selectInv_def)

lemma selectPrimaryFootprintFl_empty: "selectPrimaryFootprintFl fl [] = None"
  by (simp add: selectPrimaryFootprintFl_def)

lemma selectPrimaryFootprintFl_cases:
  assumes "footprints \<noteq> []"
  obtains
    (none) "selectPrimaryFootprintFl fl footprints = Some (PrimarySelection 0 (Vector2 0 0))"
           "\<forall>fp \<in> set footprints. pts fp = []"
  | (found) h where "h < length footprints" "pts (footprints ! h) \<noteq> []"
      "selectPrimaryFootprintFl fl footprints =
         Some (PrimarySelection h (roundedMean fl (pts (footprints ! h))))"
      "\<forall>j < length footprints. pts (footprints ! j) \<noteq> [] \<longrightarrow>
          roundedSqNorm fl (roundedMean fl (pts (footprints ! h)))
            \<le> roundedSqNorm fl (roundedMean fl (pts (footprints ! j)))"
      "\<forall>j < h. pts (footprints ! j) \<noteq> [] \<longrightarrow>
          roundedSqNorm fl (roundedMean fl (pts (footprints ! h)))
            < roundedSqNorm fl (roundedMean fl (pts (footprints ! j)))"
proof -
  obtain bi bd bc where r: "selectLoopFl fl footprints 0 (0, Infinity, Vector2 0 0) = (bi, bd, bc)"
    by (cases "selectLoopFl fl footprints 0 (0, Infinity, Vector2 0 0)") auto
  have sel: "selectPrimaryFootprintFl fl footprints = Some (PrimarySelection bi bc)"
    using assms by (simp add: selectPrimaryFootprintFl_def r)
  have "selectInv fl footprints (bi, bd, bc)" using selectLoopFl_final[of fl footprints] r by simp
  then consider "(bi, bd, bc) = (0, Infinity, Vector2 0 0)" "\<forall>fp \<in> set footprints. pts fp = []"
    | "bi < length footprints" "pts (footprints ! bi) \<noteq> []"
      "bc = roundedMean fl (pts (footprints ! bi))"
      "\<forall>j < length footprints. pts (footprints ! j) \<noteq> [] \<longrightarrow>
          roundedSqNorm fl bc \<le> roundedSqNorm fl (roundedMean fl (pts (footprints ! j)))"
      "\<forall>j < bi. pts (footprints ! j) \<noteq> [] \<longrightarrow>
          roundedSqNorm fl bc < roundedSqNorm fl (roundedMean fl (pts (footprints ! j)))"
    unfolding selectInv_def by auto
  then show thesis
  proof cases
    case 1
    then show ?thesis using sel none by simp
  next
    case 2
    then show ?thesis using sel found[of bi] by simp
  qed
qed

text \<open>Without rounding these are the exact functions, the arithmetic mean and the
  squared distance.\<close>

lemma centroidLoopFl_exact: "centroidLoopFl (\<lambda>x. x) ps acc = centroidLoop ps acc"
proof (induction ps arbitrary: acc)
  case Nil
  then show ?case by simp
next
  case (Cons pt rest)
  then show ?case by (cases acc) simp
qed

lemma computeFootprintCentroidFl_exact:
  "computeFootprintCentroidFl (\<lambda>x. x) ps = computeFootprintCentroid ps"
  by (simp add: computeFootprintCentroidFl_def computeFootprintCentroid_def centroidLoopFl_exact)

lemma selectStepFl_exact: "selectStepFl (\<lambda>x. x) st fp idx = selectStep st fp idx"
  by (cases st) (simp add: computeFootprintCentroidFl_exact)

lemma selectLoopFl_exact: "selectLoopFl (\<lambda>x. x) footprints idx st = selectLoop footprints idx st"
  by (induction footprints arbitrary: idx st) (simp_all add: selectStepFl_exact)

lemma selectPrimaryFootprintFl_exact:
  "selectPrimaryFootprintFl (\<lambda>x. x) footprints = selectPrimaryFootprint footprints"
  by (simp add: selectPrimaryFootprintFl_def selectPrimaryFootprint_def selectLoopFl_exact)

lemma foldl_plus: "foldl (\<lambda>s x. s + x) a xs = a + sum_list xs" for a :: real
  by (induction xs arbitrary: a) (simp_all add: add.assoc)

lemma roundedMean_exact: "roundedMean (\<lambda>x. x) ps = meanPoint ps"
  by (simp add: roundedMean_def roundedSum_def meanPoint_def foldl_plus)

lemma roundedSqNorm_exact: "roundedSqNorm (\<lambda>x. x) p = sqNorm p"
  by (simp add: roundedSqNorm_def sqNorm_def)

lemma computeFootprintCentroid_mean:
  "ps \<noteq> [] \<Longrightarrow> computeFootprintCentroid ps = Centroid (x_of (meanPoint ps)) (y_of (meanPoint ps))"
  using computeFootprintCentroidFl_mean[of ps "\<lambda>x. x"]
  by (simp add: computeFootprintCentroidFl_exact roundedMean_exact)

lemma selectPrimaryFootprint_empty: "selectPrimaryFootprint [] = None"
  by (simp add: selectPrimaryFootprint_def)



lemma distToOrigin_sqNorm: "distToOrigin p = sqrt (sqNorm p)"
  by (simp add: distToOrigin_def sqNorm_def power2_eq_square)

lemma distToOrigin_le_iff: "distToOrigin p \<le> distToOrigin q \<longleftrightarrow> sqNorm p \<le> sqNorm q"
  by (simp add: distToOrigin_sqNorm)

lemma distToOrigin_less_iff: "distToOrigin p < distToOrigin q \<longleftrightarrow> sqNorm p < sqNorm q"
  by (simp add: distToOrigin_sqNorm)

lemma prepareFootprints_empty: "prepareFootprints [] platformSize = []"
  by (simp add: prepareFootprints_def selectPrimaryFootprint_empty)

lemma prepareFootprints_Some:
  "selectPrimaryFootprint footprints = Some selection \<Longrightarrow>
   prepareFootprints footprints platformSize =
     map (prepareOne selection
            (fitScaleOf platformSize
               (maxRadiusOf (sel_centroid selection) (pts (footprints ! sel_index selection)))))
         (enumerate 0 footprints)"
  by (simp add: prepareFootprints_def Let_def)


lemma prepareFootprints_nth:
  assumes "selectPrimaryFootprint footprints = Some selection" and "i < length footprints"
  shows "prepareFootprints footprints platformSize ! i =
           prepareOne selection
             (fitScaleOf platformSize
                (maxRadiusOf (sel_centroid selection) (pts (footprints ! sel_index selection))))
             (i, footprints ! i)"
  using assms by (simp add: prepareFootprints_Some nth_enumerate_eq)


lemma isHero_prepareOne: "isHero (prepareOne selection s (i, fp)) \<longleftrightarrow> i = sel_index selection"
  by (simp add: isHero_def prepareOne_def Let_def)

lemma hero_least_computed:
  assumes "footprints \<noteq> []" and "\<forall>fp \<in> set footprints. pts fp \<noteq> []"
  shows "\<exists>h < length footprints.
        selectPrimaryFootprintFl fl footprints =
          Some (PrimarySelection h (roundedMean fl (pts (footprints ! h)))) \<and>
        (\<forall>j < length footprints.
           roundedSqNorm fl (roundedMean fl (pts (footprints ! h)))
             \<le> roundedSqNorm fl (roundedMean fl (pts (footprints ! j)))) \<and>
        (\<forall>j < h.
           roundedSqNorm fl (roundedMean fl (pts (footprints ! h)))
             < roundedSqNorm fl (roundedMean fl (pts (footprints ! j))))"
  using assms(1)
proof (cases rule: selectPrimaryFootprintFl_cases[of footprints fl])
  case none
  then show ?thesis using assms by (cases footprints) auto
next
  case (found h)
  have nth_ne: "\<And>j. j < length footprints \<Longrightarrow> pts (footprints ! j) \<noteq> []"
    using assms(2) by simp
  show ?thesis
    using found nth_ne by (intro exI[of _ h]) simp
qed

text \<open>
  Claim C1, as amended. For a non-empty list of fetched footprints (each has points),
  the footprint selected as hero is the first in list order whose centroid, as the
  program computes it, has the least squared distance from the origin, as the program
  computes it: sums from left to right, a division by the count, two products and a
  sum, every operation rounded by \<open>fl\<close>. No footprint has a smaller computed distance, and
  every footprint before the hero has a strictly larger one. If no operation rounds,
  the recorded centroid is the arithmetic mean of the hero's points, no footprint's mean
  lies nearer to the origin, every footprint before the hero lies strictly farther, and
  the hero is the footprint that \<open>prepareFootprints\<close> marks. For the empty list nothing is
  selected and \<open>prepareFootprints\<close> returns the empty list.
\<close>

theorem hero_has_least_computed_distance:
  "selectPrimaryFootprintFl fl [] = None \<and> prepareFootprints [] platformSize = [] \<and>
   (footprints \<noteq> [] \<and> (\<forall>fp \<in> set footprints. pts fp \<noteq> []) \<longrightarrow>
     (\<exists>h < length footprints.
        selectPrimaryFootprintFl fl footprints =
          Some (PrimarySelection h (roundedMean fl (pts (footprints ! h)))) \<and>
        (\<forall>j < length footprints.
           roundedSqNorm fl (roundedMean fl (pts (footprints ! h)))
             \<le> roundedSqNorm fl (roundedMean fl (pts (footprints ! j)))) \<and>
        (\<forall>j < h.
           roundedSqNorm fl (roundedMean fl (pts (footprints ! h)))
             < roundedSqNorm fl (roundedMean fl (pts (footprints ! j)))))) \<and>
   ((\<forall>x. fl x = x) \<and> footprints \<noteq> [] \<and> (\<forall>fp \<in> set footprints. pts fp \<noteq> []) \<longrightarrow>
     (\<exists>h < length footprints.
        selectPrimaryFootprintFl fl footprints =
          Some (PrimarySelection h (meanPoint (pts (footprints ! h)))) \<and>
        (\<forall>i < length footprints.
           isHero (prepareFootprints footprints platformSize ! i) \<longleftrightarrow> i = h) \<and>
        (\<forall>j < length footprints.
           distToOrigin (meanPoint (pts (footprints ! h)))
             \<le> distToOrigin (meanPoint (pts (footprints ! j)))) \<and>
        (\<forall>j < h.
           distToOrigin (meanPoint (pts (footprints ! h)))
             < distToOrigin (meanPoint (pts (footprints ! j))))))"
proof (intro conjI impI)
  show "selectPrimaryFootprintFl fl [] = None" by (rule selectPrimaryFootprintFl_empty)
  show "prepareFootprints [] platformSize = []" by (rule prepareFootprints_empty)
next
  assume "footprints \<noteq> [] \<and> (\<forall>fp \<in> set footprints. pts fp \<noteq> [])"
  then show "\<exists>h < length footprints.
        selectPrimaryFootprintFl fl footprints =
          Some (PrimarySelection h (roundedMean fl (pts (footprints ! h)))) \<and>
        (\<forall>j < length footprints.
           roundedSqNorm fl (roundedMean fl (pts (footprints ! h)))
             \<le> roundedSqNorm fl (roundedMean fl (pts (footprints ! j)))) \<and>
        (\<forall>j < h.
           roundedSqNorm fl (roundedMean fl (pts (footprints ! h)))
             < roundedSqNorm fl (roundedMean fl (pts (footprints ! j))))"
    using hero_least_computed[of footprints fl] by blast
next
  assume a: "(\<forall>x. fl x = x) \<and> footprints \<noteq> [] \<and> (\<forall>fp \<in> set footprints. pts fp \<noteq> [])"
  then have exact: "fl = (\<lambda>x. x)" by auto
  from a hero_least_computed[of footprints "\<lambda>x. x"]
  obtain h where h: "h < length footprints"
    and sel: "selectPrimaryFootprint footprints =
                Some (PrimarySelection h (meanPoint (pts (footprints ! h))))"
    and least: "\<forall>j < length footprints.
           sqNorm (meanPoint (pts (footprints ! h))) \<le> sqNorm (meanPoint (pts (footprints ! j)))"
    and first: "\<forall>j < h.
           sqNorm (meanPoint (pts (footprints ! h))) < sqNorm (meanPoint (pts (footprints ! j)))"
    unfolding selectPrimaryFootprintFl_exact roundedMean_exact roundedSqNorm_exact by blast
  have hero: "\<forall>i < length footprints.
           isHero (prepareFootprints footprints platformSize ! i) \<longleftrightarrow> i = h"
    using sel by (simp add: prepareFootprints_nth isHero_prepareOne)
  show "\<exists>h < length footprints.
        selectPrimaryFootprintFl fl footprints =
          Some (PrimarySelection h (meanPoint (pts (footprints ! h)))) \<and>
        (\<forall>i < length footprints.
           isHero (prepareFootprints footprints platformSize ! i) \<longleftrightarrow> i = h) \<and>
        (\<forall>j < length footprints.
           distToOrigin (meanPoint (pts (footprints ! h)))
             \<le> distToOrigin (meanPoint (pts (footprints ! j)))) \<and>
        (\<forall>j < h.
           distToOrigin (meanPoint (pts (footprints ! h)))
             < distToOrigin (meanPoint (pts (footprints ! j))))"
    using h sel hero least first
    by (intro exI[of _ h])
       (simp add: exact selectPrimaryFootprintFl_exact distToOrigin_le_iff distToOrigin_less_iff)
qed

text \<open>Evaluating \<open>roundDouble\<close>: scaled by \<open>2 ^ k\<close> into the range of the 53-bit
  mantissas, \<open>x\<close> is rounded to the nearest integer.\<close>

lemma roundDouble_evalI:
  fixes k :: nat
  assumes k: "k \<le> 1074" and lo: "2 ^ 52 \<le> \<bar>x\<bar> * 2 ^ k" and hi: "\<bar>x\<bar> * 2 ^ k < 2 ^ 53"
    and n: "roundHalfEven (x * 2 ^ k) = n" and r: "of_int n / 2 ^ k = r"
  shows "roundDouble x = r"
proof -
  have x0: "x \<noteq> 0" using lo by auto
  then have pos: "0 < \<bar>x\<bar>" by simp
  have p: "(2::real) powr (of_int (52 - int k)) = 2 ^ 52 / 2 ^ k"
    by (simp add: powr_diff powr_realpow flip: powr_realpow)
  have q: "(2::real) powr (of_int (52 - int k + 1)) = 2 ^ 53 / 2 ^ k"
    by (simp add: powr_diff flip: powr_realpow)
  have "2 powr (of_int (52 - int k)) \<le> \<bar>x\<bar>"
    unfolding p using lo by (simp add: divide_le_eq)
  moreover have "\<bar>x\<bar> < 2 powr (of_int (52 - int k + 1))"
    unfolding q using hi by (simp add: less_divide_eq)
  ultimately have fl: "\<lfloor>log 2 \<bar>x\<bar>\<rfloor> = 52 - int k"
    using floor_log_eq_powr_iff[of "\<bar>x\<bar>" 2 "52 - int k"] pos by simp
  have e: "max (52 - int k) (- 1022) = 52 - int k" using k by simp
  have u: "(2::real) powr (- real k) = 1 / 2 ^ k"
    by (simp add: powr_minus powr_realpow inverse_eq_divide)
  show ?thesis
    using x0 n r by (simp add: roundDouble_def fl e u Let_def)
qed

lemma roundDouble_zero: "roundDouble 0 = 0"
  by (simp add: roundDouble_def)

text \<open>The doubles written \<open>0.1\<close>, \<open>0.2\<close>, \<open>0.3\<close> and \<open>0.4\<close>.\<close>

lemma roundDouble_tenth: "roundDouble (1 / 10) = 3602879701896397 / 36028797018963968"
  by (rule roundDouble_evalI[where k = 56 and n = 7205759403792794]) (simp_all add: roundHalfEven_def)

lemma roundDouble_fifth: "roundDouble (1 / 5) = 3602879701896397 / 18014398509481984"
  by (rule roundDouble_evalI[where k = 55 and n = 7205759403792794]) (simp_all add: roundHalfEven_def)

lemma roundDouble_three_tenths: "roundDouble (3 / 10) = 5404319552844595 / 18014398509481984"
  by (rule roundDouble_evalI[where k = 54 and n = 5404319552844595]) (simp_all add: roundHalfEven_def)

lemma roundDouble_two_fifths: "roundDouble (2 / 5) = 3602879701896397 / 9007199254740992"
  by (rule roundDouble_evalI[where k = 54 and n = 7205759403792794]) (simp_all add: roundHalfEven_def)

text \<open>The run of the selection on the two triangles, in double precision: the computed
  centroids are (0.07500000000000001, 0.1) and (0.075, 0.1), the computed squared
  distances 0.015625000000000003 and 0.015625.\<close>

lemma select_triangles:
  "selectPrimaryFootprintFl roundDouble [skewTriangle, rightTriangle]
     = Some (PrimarySelection 1 (Vector2 (5404319552844595 / 72057594037927936)
                                        (3602879701896397 / 36028797018963968)))"
proof -
  have rd5: "roundDouble (3602879701896397 / 36028797018963968) = 3602879701896397 / 36028797018963968"
    by (rule roundDouble_evalI[where k = 56 and n = 7205759403792794]) (simp_all add: roundHalfEven_def)
  have rd6: "roundDouble (10808639105689191 / 36028797018963968) = 1351079888211149 / 4503599627370496"
    by (rule roundDouble_evalI[where k = 54 and n = 5404319552844596]) (simp_all add: roundHalfEven_def)
  have rd7: "roundDouble (14411518807585587 / 36028797018963968) = 3602879701896397 / 9007199254740992"
    by (rule roundDouble_evalI[where k = 54 and n = 7205759403792794]) (simp_all add: roundHalfEven_def)
  have rd8: "roundDouble (1351079888211149 / 4503599627370496) = 1351079888211149 / 4503599627370496"
    by (rule roundDouble_evalI[where k = 54 and n = 5404319552844596]) (simp_all add: roundHalfEven_def)
  have rd9: "roundDouble (3602879701896397 / 9007199254740992) = 3602879701896397 / 9007199254740992"
    by (rule roundDouble_evalI[where k = 54 and n = 7205759403792794]) (simp_all add: roundHalfEven_def)
  have rd10: "roundDouble (1351079888211149 / 18014398509481984) = 1351079888211149 / 18014398509481984"
    by (rule roundDouble_evalI[where k = 56 and n = 5404319552844596]) (simp_all add: roundHalfEven_def)
  have rd11: "roundDouble (5404319552844595 / 18014398509481984) = 5404319552844595 / 18014398509481984"
    by (rule roundDouble_evalI[where k = 54 and n = 5404319552844595]) (simp_all add: roundHalfEven_def)
  have rd12: "roundDouble (5404319552844595 / 72057594037927936) = 5404319552844595 / 72057594037927936"
    by (rule roundDouble_evalI[where k = 56 and n = 5404319552844595]) (simp_all add: roundHalfEven_def)
  have rd13: "roundDouble (1825416864328650878587207900201 / 324518553658426726783156020576256) = 1621295865853379 / 288230376151711744"
    by (rule roundDouble_evalI[where k = 60 and n = 6485183463413516]) (simp_all add: roundHalfEven_def)
  have rd14: "roundDouble (12980742146337070512478121581609 / 1298074214633706907132624082305024) = 1441151880758559 / 144115188075855872"
    by (rule roundDouble_evalI[where k = 59 and n = 5764607523034236]) (simp_all add: roundHalfEven_def)
  have rd15: "roundDouble (4503599627370497 / 288230376151711744) = 4503599627370497 / 288230376151711744"
    by (rule roundDouble_evalI[where k = 58 and n = 4503599627370497]) (simp_all add: roundHalfEven_def)
  have rd16: "roundDouble (29206669829258403248756220714025 / 5192296858534827628530496329220096) = 3242591731706757 / 576460752303423488"
    by (rule roundDouble_evalI[where k = 60 and n = 6485183463413514]) (simp_all add: roundHalfEven_def)
  have rd17: "roundDouble (9007199254740993 / 576460752303423488) = 1 / 64"
    by (rule roundDouble_evalI[where k = 58 and n = 4503599627370496]) (simp_all add: roundHalfEven_def)
  note roundings = roundDouble_tenth roundDouble_fifth roundDouble_three_tenths
    roundDouble_two_fifths rd5 rd6 rd7 rd8 rd9 rd10 rd11 rd12 rd13 rd14 rd15 rd16 rd17
  show ?thesis
    by (simp add: selectPrimaryFootprintFl_def computeFootprintCentroidFl_def skewTriangle_def
          rightTriangle_def roundDouble_zero roundings)
qed

lemma exact_means_triangles:
  "sqNorm (meanPoint (pts skewTriangle)) < sqNorm (meanPoint (pts rightTriangle))"
  by (simp add: sqNorm_def meanPoint_def skewTriangle_def rightTriangle_def
        roundDouble_tenth roundDouble_fifth roundDouble_three_tenths roundDouble_two_fifths)

theorem hero_has_least_computed_distance_witness:
  "pts farTriangle \<noteq> [] \<and> pts nearRectangle \<noteq> [] \<and>
   selectPrimaryFootprintFl (\<lambda>x. x) [farTriangle, nearRectangle]
     = Some (PrimarySelection 1 (Vector2 (3 / 5) (4 / 5))) \<and>
   (\<exists>h < length [farTriangle, nearRectangle].
      selectPrimaryFootprintFl (\<lambda>x. x) [farTriangle, nearRectangle] =
        Some (PrimarySelection h (meanPoint (pts ([farTriangle, nearRectangle] ! h)))) \<and>
      (\<forall>i < length [farTriangle, nearRectangle].
         isHero (prepareFootprints [farTriangle, nearRectangle] 120 ! i) \<longleftrightarrow> i = h) \<and>
      (\<forall>j < length [farTriangle, nearRectangle].
         distToOrigin (meanPoint (pts ([farTriangle, nearRectangle] ! h)))
           \<le> distToOrigin (meanPoint (pts ([farTriangle, nearRectangle] ! j)))) \<and>
      (\<forall>j < h.
         distToOrigin (meanPoint (pts ([farTriangle, nearRectangle] ! h)))
           < distToOrigin (meanPoint (pts ([farTriangle, nearRectangle] ! j))))) \<and>
   pts skewTriangle \<noteq> [] \<and> pts rightTriangle \<noteq> [] \<and>
   selectPrimaryFootprintFl roundDouble [skewTriangle, rightTriangle]
     = Some (PrimarySelection 1 (roundedMean roundDouble (pts rightTriangle))) \<and>
   roundedSqNorm roundDouble (roundedMean roundDouble (pts rightTriangle))
     < roundedSqNorm roundDouble (roundedMean roundDouble (pts skewTriangle))"
proof -
  have ne: "pts farTriangle \<noteq> []" "pts nearRectangle \<noteq> []"
    by (simp_all add: farTriangle_def nearRectangle_def)
  then have hyp: "(\<forall>x::real. (\<lambda>x. x) x = x) \<and> [farTriangle, nearRectangle] \<noteq> [] \<and>
             (\<forall>fp \<in> set [farTriangle, nearRectangle]. pts fp \<noteq> [])"
    by simp
  have sel: "selectPrimaryFootprintFl (\<lambda>x. x) [farTriangle, nearRectangle]
               = Some (PrimarySelection 1 (Vector2 (3 / 5) (4 / 5)))"
    by (simp add: selectPrimaryFootprintFl_def computeFootprintCentroidFl_def
                  farTriangle_def nearRectangle_def)
  have exact: "\<exists>h < length [farTriangle, nearRectangle].
      selectPrimaryFootprintFl (\<lambda>x. x) [farTriangle, nearRectangle] =
        Some (PrimarySelection h (meanPoint (pts ([farTriangle, nearRectangle] ! h)))) \<and>
      (\<forall>i < length [farTriangle, nearRectangle].
         isHero (prepareFootprints [farTriangle, nearRectangle] 120 ! i) \<longleftrightarrow> i = h) \<and>
      (\<forall>j < length [farTriangle, nearRectangle].
         distToOrigin (meanPoint (pts ([farTriangle, nearRectangle] ! h)))
           \<le> distToOrigin (meanPoint (pts ([farTriangle, nearRectangle] ! j)))) \<and>
      (\<forall>j < h.
         distToOrigin (meanPoint (pts ([farTriangle, nearRectangle] ! h)))
           < distToOrigin (meanPoint (pts ([farTriangle, nearRectangle] ! j))))"
    using hyp hero_has_least_computed_distance [of "\<lambda>x. x" 120 "[farTriangle, nearRectangle]"]
    by blast
  have ne2: "pts skewTriangle \<noteq> []" "pts rightTriangle \<noteq> []"
    by (simp_all add: skewTriangle_def rightTriangle_def)
  then have hyp2: "[skewTriangle, rightTriangle] \<noteq> [] \<and>
             (\<forall>fp \<in> set [skewTriangle, rightTriangle]. pts fp \<noteq> [])"
    by simp
  obtain h where h: "h < length [skewTriangle, rightTriangle]"
    and selh: "selectPrimaryFootprintFl roundDouble [skewTriangle, rightTriangle] =
        Some (PrimarySelection h (roundedMean roundDouble (pts ([skewTriangle, rightTriangle] ! h))))"
    and first: "\<forall>j < h.
         roundedSqNorm roundDouble (roundedMean roundDouble (pts ([skewTriangle, rightTriangle] ! h)))
           < roundedSqNorm roundDouble (roundedMean roundDouble (pts ([skewTriangle, rightTriangle] ! j)))"
    using hyp2 hero_has_least_computed_distance [of roundDouble 120 "[skewTriangle, rightTriangle]"]
    by blast
  have h1: "h = 1" using selh by (simp add: select_triangles)
  have sel2: "selectPrimaryFootprintFl roundDouble [skewTriangle, rightTriangle]
     = Some (PrimarySelection 1 (roundedMean roundDouble (pts rightTriangle)))"
    using selh by (simp add: h1)
  have less: "roundedSqNorm roundDouble (roundedMean roundDouble (pts rightTriangle))
     < roundedSqNorm roundDouble (roundedMean roundDouble (pts skewTriangle))"
    using first by (simp add: h1)
  show ?thesis
    using ne sel exact ne2 sel2 less by blast
qed

text \<open>
  The claim C1 as stated fails in double precision. The arithmetic mean of the corners
  of \<open>skewTriangle\<close> lies strictly nearer to the origin than that of \<open>rightTriangle\<close>, and
  \<open>skewTriangle\<close> comes first in the list; yet the program computes the centroid
  (0.07500000000000001, 0.1) for the first and (0.075, 0.1) for the second, and selects
  the second.
\<close>

theorem rounding_changes_hero:
  "pts skewTriangle \<noteq> [] \<and> pts rightTriangle \<noteq> [] \<and>
   distToOrigin (meanPoint (pts skewTriangle)) < distToOrigin (meanPoint (pts rightTriangle)) \<and>
   selectPrimaryFootprintFl roundDouble [skewTriangle, rightTriangle]
     = Some (PrimarySelection 1 (Vector2 (5404319552844595 / 72057594037927936)
                                        (3602879701896397 / 36028797018963968)))"
proof -
  have "pts skewTriangle \<noteq> []" "pts rightTriangle \<noteq> []"
    by (simp_all add: skewTriangle_def rightTriangle_def)
  then show ?thesis
    using exact_means_triangles select_triangles by (simp add: distToOrigin_less_iff)
qed















section \<open>Properties of the retry loops\<close>

declare attemptLoop.simps [simp del]

lemma attemptLoop_end: "attemptLoop w lat lon endpoint 2 st = Inl st"
  by (cases st) (simp add: attemptLoop.simps)

lemma attemptLoop_step:
  assumes "attempt < 2"
  shows "attemptLoop w lat lon endpoint attempt (lastError, evs) =
     (case attemptResult w lat lon endpoint attempt of
        Succeeded footprints \<Rightarrow> Inr (footprints, evs @ [Request (label endpoint) attempt])
      | RateLimited \<Rightarrow>
          attemptLoop w lat lon endpoint (attempt + 1)
            (lastError, evs @ [Request (label endpoint) attempt] @ waitAfter RateLimited attempt)
      | Failed e \<Rightarrow>
          attemptLoop w lat lon endpoint (attempt + 1)
            (Some (normalizeError e),
             evs @ [Request (label endpoint) attempt] @ waitAfter (Failed e) attempt))"
  using assms
  by (subst attemptLoop.simps)
     (simp add: attemptResult_def onCatch_def Let_def
           split: FetchOutcome.split Body.split sum.split)

lemma attemptLoop_step':
  assumes "attempt < 2"
  shows "attemptLoop w lat lon endpoint attempt (lastError, evs) =
     (case attemptResult w lat lon endpoint attempt of
        Succeeded footprints \<Rightarrow> Inr (footprints, evs @ [Request (label endpoint) attempt])
      | r \<Rightarrow> attemptLoop w lat lon endpoint (attempt + 1)
            (errorAfter r lastError,
             evs @ [Request (label endpoint) attempt] @ waitAfter r attempt))"
  by (simp add: attemptLoop_step[OF assms] split: AttemptResult.split)

lemma attemptLoop_0:
  "attemptLoop w lat lon endpoint 0 (lastError, evs) =
     (let r0 = attemptResult w lat lon endpoint 0; r1 = attemptResult w lat lon endpoint 1 in
      case r0 of
        Succeeded footprints \<Rightarrow> Inr (footprints, evs @ [Request (label endpoint) 0])
      | _ \<Rightarrow>
        (case r1 of
           Succeeded footprints \<Rightarrow>
             Inr (footprints, evs @ [Request (label endpoint) 0] @ waitAfter r0 0
                                  @ [Request (label endpoint) 1])
         | _ \<Rightarrow> Inl (errorAfter r1 (errorAfter r0 lastError),
                     evs @ [Request (label endpoint) 0] @ waitAfter r0 0
                         @ [Request (label endpoint) 1] @ waitAfter r1 1)))"
proof -
  have two: "Suc (Suc 0) = 2" by simp
  show ?thesis
    by (simp add: attemptLoop_step' attemptLoop_end two Let_def split: AttemptResult.split)
qed

lemma waitAfter_first: "waitAfter r 0 = (if succeeded r then [] else [Delay 2000])"
  by (cases r) simp_all

lemma waitAfter_second: "waitAfter r (Suc 0) = (if r = RateLimited then [Delay 4000] else [])"
  by (cases r) simp_all

lemma endpointLoop_events:
  "eventsOfRun (endpointLoop w lat lon endpoints (lastError, evs))
     = evs @ expectedEvents w lat lon endpoints"
proof (induction endpoints arbitrary: lastError evs)
  case Nil
  then show ?case by (simp add: eventsOfRun_def)
next
  case (Cons endpoint rest)
  show ?case
    using Cons.IH
    by (cases "attemptResult w lat lon endpoint 0"; cases "attemptResult w lat lon endpoint 1")
       (simp_all add: attemptLoop_0 Let_def eventsOfRun_def)
qed

lemma schedule_Cons:
  "schedule (endpoint # rest) = (endpoint, 0) # (endpoint, 1) # schedule rest"
  by (simp add: schedule_def)

lemma schedule_Nil: "schedule [] = []"
  by (simp add: schedule_def)

lemma requestsOf_append: "requestsOf (xs @ ys) = requestsOf xs @ requestsOf ys"
  by (simp add: requestsOf_def)

lemma requestsOf_waitAfter: "filter isRequest (waitAfter r a) = []"
  by (cases r) simp_all

lemma requestsOf_expected:
  "requestsOf (expectedEvents w lat lon endpoints)
     = map requestOf (upToFirst (succeeds w lat lon) (schedule endpoints))"
proof (induction endpoints)
  case Nil
  then show ?case by (simp add: schedule_Nil requestsOf_def)
next
  case (Cons endpoint rest)
  then show ?case
    by (simp add: schedule_Cons Let_def succeeds_def requestOf_def requestsOf_def
                  requestsOf_waitAfter)
qed

lemma endpointLoop_throws:
  "isl (endpointLoop w lat lon endpoints st)
     \<longleftrightarrow> (\<forall>x \<in> set (schedule endpoints). \<not> succeeds w lat lon x)"
proof (induction endpoints arbitrary: st)
  case Nil
  then show ?case by (simp add: schedule_Nil)
next
  case (Cons endpoint rest)
  obtain lastError evs where st: "st = (lastError, evs)" by (cases st) auto
  show ?case
    using Cons.IH
    by (simp add: st attemptLoop_0 Let_def schedule_Cons succeeds_def split: AttemptResult.split)
qed

lemma endpointLoop_returns:
  assumes "endpointLoop w lat lon endpoints st = Inr (footprints, evs)"
  shows "\<exists>endpoint attempt. find (succeeds w lat lon) (schedule endpoints) = Some (endpoint, attempt)
            \<and> attemptResult w lat lon endpoint attempt = Succeeded footprints"
  using assms
proof (induction endpoints arbitrary: st)
  case Nil
  then show ?case by simp
next
  case (Cons endpoint rest)
  obtain lastError evs0 where st: "st = (lastError, evs0)" by (cases st) auto
  show ?case
    using Cons.prems Cons.IH
    by (auto simp: st attemptLoop_0 Let_def schedule_Cons succeeds_def split: AttemptResult.splits)
qed

lemma fetchBuildings_events:
  "snd (fetchBuildings w lat lon sizeMeters) = expectedEvents w lat lon OVERPASS_ENDPOINTS"
  using endpointLoop_events[of w lat lon OVERPASS_ENDPOINTS None "[]"]
  by (simp add: fetchBuildings_def eventsOfRun_def split: sum.splits prod.splits)

lemma fetchBuildings_isl:
  "isl (fst (fetchBuildings w lat lon sizeMeters))
     \<longleftrightarrow> isl (endpointLoop w lat lon OVERPASS_ENDPOINTS (None, []))"
  by (simp add: fetchBuildings_def split: sum.splits prod.splits)

lemma fetchBuildings_Inr:
  "fst (fetchBuildings w lat lon sizeMeters) = Inr footprints
     \<Longrightarrow> \<exists>evs. endpointLoop w lat lon OVERPASS_ENDPOINTS (None, []) = Inr (footprints, evs)"
  by (simp add: fetchBuildings_def split: sum.splits prod.splits)

lemma prefix_upToFirst: "prefix (upToFirst P xs) xs"
  by (induction xs) simp_all

lemma schedule_requests:
  "map requestOf (schedule OVERPASS_ENDPOINTS)
     = [Request ''de'' 0, Request ''de'' 1, Request ''kumi'' 0, Request ''kumi'' 1,
        Request ''ru'' 0, Request ''ru'' 1]"
  by (simp add: schedule_def OVERPASS_ENDPOINTS_def requestOf_def)

lemma request_in_expected:
  "Request l a \<in> set (expectedEvents w lat lon endpoints) \<Longrightarrow> l \<in> label ` set endpoints \<and> a < 2"
proof (induction endpoints)
  case Nil
  then show ?case by simp
next
  case (Cons endpoint rest)
  then show ?case
    by (auto simp: Let_def waitAfter_first waitAfter_second split: if_splits)
qed

lemma retry_iff_expected:
  assumes "distinct (map label endpoints)" and "endpoint \<in> set endpoints"
  shows "Request (label endpoint) 1 \<in> set (expectedEvents w lat lon endpoints) \<longleftrightarrow>
         Request (label endpoint) 0 \<in> set (expectedEvents w lat lon endpoints) \<and>
         \<not> succeeds w lat lon (endpoint, 0)"
  using assms
proof (induction endpoints)
  case Nil
  then show ?case by simp
next
  case (Cons e rest)
  have notin: "\<And>a. Request (label e) a \<notin> set (expectedEvents w lat lon rest)"
    using Cons.prems(1) request_in_expected[of "label e" _ w lat lon rest] by auto
  show ?case
  proof (cases "endpoint = e")
    case True
    then show ?thesis using notin
      by (auto simp: Let_def succeeds_def waitAfter_first waitAfter_second)
  next
    case False
    then have in_rest: "endpoint \<in> set rest" using Cons.prems(2) by simp
    then have neq: "label endpoint \<noteq> label e" using Cons.prems(1) by (force simp: image_iff)
    have IH: "Request (label endpoint) 1 \<in> set (expectedEvents w lat lon rest) \<longleftrightarrow>
         Request (label endpoint) 0 \<in> set (expectedEvents w lat lon rest) \<and>
         \<not> succeeds w lat lon (endpoint, 0)"
      using Cons.IH Cons.prems(1) in_rest by simp
    show ?thesis using IH neq
      by (auto simp: Let_def waitAfter_first waitAfter_second)
  qed
qed

lemma sublist_prepend: "sublist xs zs \<Longrightarrow> sublist xs (ys @ zs)"
proof -
  assume "sublist xs zs"
  then obtain ps ss where "zs = ps @ xs @ ss" by (auto simp: sublist_def)
  then have "ys @ zs = (ys @ ps) @ xs @ ss" by simp
  then show ?thesis unfolding sublist_def by blast
qed

lemma retry_wait_expected:
  "Request l (Suc 0) \<in> set (expectedEvents w lat lon endpoints) \<Longrightarrow>
   sublist [Request l 0, Delay 2000, Request l (Suc 0)] (expectedEvents w lat lon endpoints)"
proof (induction endpoints)
  case Nil
  then show ?case by simp
next
  case (Cons e rest)
  let ?r0 = "attemptResult w lat lon e 0" and ?r1 = "attemptResult w lat lon e 1"
  show ?case
  proof (cases "succeeded ?r0")
    case True
    then show ?thesis using Cons.prems by (simp add: Let_def)
  next
    case False
    define tail where "tail = (if succeeded ?r1 then [] else waitAfter ?r1 1 @ expectedEvents w lat lon rest)"
    have ev: "expectedEvents w lat lon (e # rest)
                = [Request (label e) 0, Delay 2000, Request (label e) (Suc 0)] @ tail"
      using False by (simp add: Let_def waitAfter_first tail_def)
    show ?thesis
    proof (cases "l = label e")
      case True
      then show ?thesis unfolding ev by (intro prefix_imp_sublist) simp
    next
      case False
      then have "Request l (Suc 0) \<in> set tail" using Cons.prems unfolding ev by simp
      then have "Request l (Suc 0) \<in> set (expectedEvents w lat lon rest)"
        by (auto simp: tail_def waitAfter_second split: if_splits)
      then have "sublist [Request l 0, Delay 2000, Request l (Suc 0)] (expectedEvents w lat lon rest)"
        by (rule Cons.IH)
      then have "sublist [Request l 0, Delay 2000, Request l (Suc 0)] tail"
        using \<open>Request l (Suc 0) \<in> set tail\<close>
        by (auto simp: tail_def sublist_append split: if_splits)
      then show ?thesis unfolding ev by (rule sublist_prepend)
    qed
  qed
qed

lemma prefix_filter_length:
  "prefix xs ys \<Longrightarrow> length (filter P xs) \<le> length (filter P ys)"
  by (auto simp: prefix_def)

lemma filter_isRequestTo: "filter (isRequestTo l) evs = filter (isRequestTo l) (requestsOf evs)"
proof -
  have "\<And>e. (isRequest e \<and> isRequestTo l e) = isRequestTo l e"
    by (case_tac e) simp_all
  then show ?thesis by (simp add: requestsOf_def)
qed

text \<open>
  Claim C3, as amended. \<open>fetchBuildings\<close> sends its requests in the fixed order of the
  mirrors, each mirror at most twice: the requests of a run are the six scheduled
  attempts up to and including the first one that succeeds. An endpoint is tried a
  second time exactly when its first attempt was made and did not succeed, whatever the
  reason: a rate-limit or timeout status, any other status outside 200 to 299, a rejected
  request or an unreadable body. The call throws exactly when none of the six attempts
  succeeds, and what it returns are the footprints of the first attempt that succeeds.
\<close>

theorem fetchBuildings_mirrors:
  "requestsOf (snd (fetchBuildings w lat lon sizeMeters))
      = map requestOf (upToFirst (succeeds w lat lon) (schedule OVERPASS_ENDPOINTS)) \<and>
   prefix (requestsOf (snd (fetchBuildings w lat lon sizeMeters)))
      [Request ''de'' 0, Request ''de'' 1, Request ''kumi'' 0, Request ''kumi'' 1,
       Request ''ru'' 0, Request ''ru'' 1] \<and>
   (\<forall>endpoint \<in> set OVERPASS_ENDPOINTS.
      Request (label endpoint) 1 \<in> set (snd (fetchBuildings w lat lon sizeMeters)) \<longleftrightarrow>
      Request (label endpoint) 0 \<in> set (snd (fetchBuildings w lat lon sizeMeters)) \<and>
      \<not> succeeds w lat lon (endpoint, 0)) \<and>
   (isl (fst (fetchBuildings w lat lon sizeMeters))
      \<longleftrightarrow> (\<forall>x \<in> set (schedule OVERPASS_ENDPOINTS). \<not> succeeds w lat lon x)) \<and>
   (\<forall>footprints. fst (fetchBuildings w lat lon sizeMeters) = Inr footprints \<longrightarrow>
      (\<exists>endpoint attempt.
         find (succeeds w lat lon) (schedule OVERPASS_ENDPOINTS) = Some (endpoint, attempt) \<and>
         attemptResult w lat lon endpoint attempt = Succeeded footprints))"
proof -
  let ?evs = "snd (fetchBuildings w lat lon sizeMeters)"
  have req: "requestsOf ?evs
      = map requestOf (upToFirst (succeeds w lat lon) (schedule OVERPASS_ENDPOINTS))"
    by (simp add: fetchBuildings_events requestsOf_expected)
  have "prefix (requestsOf ?evs) (map requestOf (schedule OVERPASS_ENDPOINTS))"
    unfolding req by (intro map_mono_prefix prefix_upToFirst)
  then have pre: "prefix (requestsOf ?evs)
      [Request ''de'' 0, Request ''de'' 1, Request ''kumi'' 0, Request ''kumi'' 1,
       Request ''ru'' 0, Request ''ru'' 1]"
    by (simp only: schedule_requests)
  have dist: "distinct (map label OVERPASS_ENDPOINTS)"
    by (simp add: OVERPASS_ENDPOINTS_def)
  have retry: "\<forall>endpoint \<in> set OVERPASS_ENDPOINTS.
      Request (label endpoint) 1 \<in> set ?evs \<longleftrightarrow>
      Request (label endpoint) 0 \<in> set ?evs \<and> \<not> succeeds w lat lon (endpoint, 0)"
    using retry_iff_expected[OF dist] by (simp add: fetchBuildings_events)
  have throws: "isl (fst (fetchBuildings w lat lon sizeMeters))
      \<longleftrightarrow> (\<forall>x \<in> set (schedule OVERPASS_ENDPOINTS). \<not> succeeds w lat lon x)"
    by (simp only: fetchBuildings_isl endpointLoop_throws)
  have returns: "\<forall>footprints. fst (fetchBuildings w lat lon sizeMeters) = Inr footprints \<longrightarrow>
      (\<exists>endpoint attempt.
         find (succeeds w lat lon) (schedule OVERPASS_ENDPOINTS) = Some (endpoint, attempt) \<and>
         attemptResult w lat lon endpoint attempt = Succeeded footprints)"
    using fetchBuildings_Inr endpointLoop_returns by blast
  show ?thesis using req pre retry throws returns by blast
qed

lemma attemptResult_world500_first:
  "attemptResult world500 lat lon (hd OVERPASS_ENDPOINTS) 0 = Failed (Error ''Overpass API returned 500'')"
  by (simp add: attemptResult_def world500_def OVERPASS_ENDPOINTS_def res_ok_def digitChar_def)

lemma parseFootprints_none: "parseFootprints w lat lon \<lparr> elements = None \<rparr> = Inr []"
  by (simp add: parseFootprints_def)

lemma attemptResult_world500_second:
  "attemptResult world500 lat lon (hd OVERPASS_ENDPOINTS) (Suc 0) = Succeeded []"
  by (simp add: attemptResult_def world500_def OVERPASS_ENDPOINTS_def res_ok_def emptyResponse_def
        parseFootprints_none)

lemma fetchBuildings_world500:
  "fetchBuildings world500 0 0 250 = (Inr [], [Request ''de'' 0, Delay 2000, Request ''de'' 1])"
  using attemptResult_world500_first[of 0 0] attemptResult_world500_second[of 0 0]
  by (simp add: fetchBuildings_def OVERPASS_ENDPOINTS_def attemptLoop_0)

theorem fetchBuildings_mirrors_witness:
  "requestsOf (snd (fetchBuildings world500 0 0 250)) = [Request ''de'' 0, Request ''de'' 1] \<and>
   \<not> succeeds world500 0 0 (hd OVERPASS_ENDPOINTS, 0) \<and>
   succeeds world500 0 0 (hd OVERPASS_ENDPOINTS, 1) \<and>
   fst (fetchBuildings world500 0 0 250) = Inr []"
proof -
  have f: "\<not> succeeds world500 0 0 (hd OVERPASS_ENDPOINTS, 0)"
    by (simp add: succeeds_def attemptResult_world500_first)
  have s: "succeeds world500 0 0 (hd OVERPASS_ENDPOINTS, 1)"
    by (simp add: succeeds_def attemptResult_world500_second)
  have "upToFirst (succeeds world500 0 0) (schedule OVERPASS_ENDPOINTS)
          = [(hd OVERPASS_ENDPOINTS, 0), (hd OVERPASS_ENDPOINTS, 1)]"
    using f s by (simp add: schedule_def OVERPASS_ENDPOINTS_def)
  then have "requestsOf (snd (fetchBuildings world500 0 0 250)) = [Request ''de'' 0, Request ''de'' 1]"
    using fetchBuildings_mirrors [of world500 0 0 250]
    by (simp add: requestOf_def OVERPASS_ENDPOINTS_def)
  then show ?thesis using f s by (simp add: fetchBuildings_world500)
qed

text \<open>
  The claim C3 as stated fails: in \<open>world500\<close> the first mirror answers status 500,
  which is none of 429, 503 and 504, and is tried again after the wait.
\<close>

theorem retry_after_status_500:
  "fetch world500 (hd OVERPASS_ENDPOINTS) 0 = Response 500 (BadJson (Error ''Unexpected token'')) \<and>
   fetchBuildings world500 0 0 250 = (Inr [], [Request ''de'' 0, Delay 2000, Request ''de'' 1])"
  by (simp add: fetchBuildings_world500) (simp add: world500_def OVERPASS_ENDPOINTS_def)

lemma expectedEvents_head:
  "expectedEvents w lat lon endpoints = [] \<or>
   (\<exists>l t. expectedEvents w lat lon endpoints = Request l 0 # t)"
  by (cases endpoints) (auto simp: Let_def)

lemma pair_in_Cons:
  "sublist [a, b] (x # xs) \<longleftrightarrow> (a = x \<and> (\<exists>t. xs = b # t)) \<or> sublist [a, b] xs"
  by (auto simp: sublist_Cons_right prefix_def)

lemma pair_in_Nil: "\<not> sublist [a, b] []"
  by simp

lemma wait_after_expected:
  "sublist [Request l a, Delay ms] (expectedEvents w lat lon endpoints) \<Longrightarrow> ms = 2000 * (a + 1)"
proof (induction endpoints)
  case Nil
  then show ?case by simp
next
  case (Cons e rest)
  show ?case
    using Cons.prems Cons.IH expectedEvents_head[of w lat lon rest]
    by (auto simp: Let_def waitAfter_first waitAfter_second pair_in_Cons split: if_splits)
qed

lemma delay_follows_request:
  "Delay ms \<in> set (expectedEvents w lat lon endpoints) \<Longrightarrow>
   \<exists>l a. sublist [Request l a, Delay ms] (expectedEvents w lat lon endpoints)"
proof (induction endpoints)
  case Nil
  then show ?case by simp
next
  case (Cons e rest)
  show ?case
    using Cons.prems Cons.IH
    by (auto simp: Let_def waitAfter_first waitAfter_second pair_in_Cons split: if_splits)
qed

lemma second_wait_expected:
  assumes "distinct (map label endpoints)" and "endpoint \<in> set endpoints"
    and "Request (label endpoint) 1 \<in> set (expectedEvents w lat lon endpoints)"
  shows "sublist [Request (label endpoint) 1, Delay 4000] (expectedEvents w lat lon endpoints)
           \<longleftrightarrow> attemptResult w lat lon endpoint 1 = RateLimited"
  using assms
proof (induction endpoints)
  case Nil
  then show ?case by simp
next
  case (Cons e rest)
  have notin: "\<And>a. Request (label e) a \<notin> set (expectedEvents w lat lon rest)"
    using Cons.prems(1) request_in_expected[of "label e" _ w lat lon rest] by auto
  have notsub: "\<And>a ev. \<not> sublist [Request (label e) a, ev] (expectedEvents w lat lon rest)"
    using notin set_mono_sublist by fastforce
  show ?case
  proof (cases "endpoint = e")
    case True
    then show ?thesis
      using Cons.prems(3) notin notsub expectedEvents_head[of w lat lon rest]
      by (auto simp: Let_def waitAfter_first waitAfter_second pair_in_Cons split: if_splits)
  next
    case False
    then have in_rest: "endpoint \<in> set rest" using Cons.prems(2) by simp
    then have neq: "label endpoint \<noteq> label e" using Cons.prems(1) by (force simp: image_iff)
    have in_tail: "Request (label endpoint) 1 \<in> set (expectedEvents w lat lon rest)"
      using Cons.prems(3) neq
      by (auto simp: Let_def waitAfter_first waitAfter_second split: if_splits)
    have IH: "sublist [Request (label endpoint) 1, Delay 4000] (expectedEvents w lat lon rest)
           \<longleftrightarrow> attemptResult w lat lon endpoint 1 = RateLimited"
      using Cons.IH Cons.prems(1) in_rest in_tail by simp
    show ?thesis
      using IH neq Cons.prems(3)
      by (auto simp: Let_def waitAfter_first waitAfter_second pair_in_Cons split: if_splits)
  qed
qed

text \<open>
  Claim C5, as amended. One call of \<open>fetchBuildings\<close> sends at most 6 requests, at most
  2 to each of the 3 mirrors, with attempt numbers 0 and 1 only. The wait is not fixed:
  the wait that directly follows attempt number \<open>a\<close> lasts \<open>2000 * (a + 1)\<close> ms, and every
  wait directly follows an attempt. A second attempt at a mirror comes directly after
  the wait of 2000 ms that follows the first; a second attempt is followed by a wait,
  of 4000 ms, exactly when it met a rate-limit or timeout status, and by none when it
  failed in another way. The loops are bounded, so the call always ends: the model is a
  total function, and its result is either a list of footprints or the thrown
  \<open>Building data unavailable\<close> error.
\<close>

theorem fetchBuildings_bounded:
  "length (requestsOf (snd (fetchBuildings w lat lon sizeMeters))) \<le> 6 \<and>
   (\<forall>endpoint \<in> set OVERPASS_ENDPOINTS.
      length (filter (isRequestTo (label endpoint)) (snd (fetchBuildings w lat lon sizeMeters))) \<le> 2) \<and>
   (\<forall>l a. Request l a \<in> set (snd (fetchBuildings w lat lon sizeMeters)) \<longrightarrow>
      l \<in> label ` set OVERPASS_ENDPOINTS \<and> a < 2) \<and>
   (\<forall>l a ms. sublist [Request l a, Delay ms] (snd (fetchBuildings w lat lon sizeMeters)) \<longrightarrow>
      ms = 2000 * (a + 1)) \<and>
   (\<forall>ms. Delay ms \<in> set (snd (fetchBuildings w lat lon sizeMeters)) \<longrightarrow>
      (\<exists>l a. sublist [Request l a, Delay ms] (snd (fetchBuildings w lat lon sizeMeters)))) \<and>
   (\<forall>l. Request l 1 \<in> set (snd (fetchBuildings w lat lon sizeMeters)) \<longrightarrow>
      sublist [Request l 0, Delay 2000, Request l 1] (snd (fetchBuildings w lat lon sizeMeters))) \<and>
   (\<forall>endpoint \<in> set OVERPASS_ENDPOINTS.
      Request (label endpoint) 1 \<in> set (snd (fetchBuildings w lat lon sizeMeters)) \<longrightarrow>
      (sublist [Request (label endpoint) 1, Delay 4000] (snd (fetchBuildings w lat lon sizeMeters))
         \<longleftrightarrow> attemptResult w lat lon endpoint 1 = RateLimited)) \<and>
   ((\<exists>footprints. fst (fetchBuildings w lat lon sizeMeters) = Inr footprints) \<or>
    (\<exists>lastError. fst (fetchBuildings w lat lon sizeMeters) = Inl (unavailable lastError)))"
proof -
  let ?evs = "snd (fetchBuildings w lat lon sizeMeters)"
  let ?all = "[Request ''de'' 0, Request ''de'' 1, Request ''kumi'' 0, Request ''kumi'' 1,
               Request ''ru'' 0, Request ''ru'' 1]"
  have "prefix (requestsOf ?evs) (map requestOf (schedule OVERPASS_ENDPOINTS))"
    by (simp add: fetchBuildings_events requestsOf_expected map_mono_prefix prefix_upToFirst)
  then have pre: "prefix (requestsOf ?evs) ?all"
    by (simp only: schedule_requests)
  have total: "length (requestsOf ?evs) \<le> 6"
    using prefix_length_le[OF pre] by simp
  have each: "\<forall>endpoint \<in> set OVERPASS_ENDPOINTS.
      length (filter (isRequestTo (label endpoint)) ?evs) \<le> 2"
  proof
    fix endpoint assume "endpoint \<in> set OVERPASS_ENDPOINTS"
    then have "length (filter (isRequestTo (label endpoint)) ?all) \<le> 2"
      by (auto simp: OVERPASS_ENDPOINTS_def)
    then show "length (filter (isRequestTo (label endpoint)) ?evs) \<le> 2"
      using prefix_filter_length[OF pre, of "isRequestTo (label endpoint)"]
      by (simp add: filter_isRequestTo[of _ ?evs])
  qed
  have known: "\<forall>l a. Request l a \<in> set ?evs \<longrightarrow> l \<in> label ` set OVERPASS_ENDPOINTS \<and> a < 2"
    using request_in_expected by (simp add: fetchBuildings_events)
  have law: "\<forall>l a ms. sublist [Request l a, Delay ms] ?evs \<longrightarrow> ms = 2000 * (a + 1)"
    using wait_after_expected by (simp add: fetchBuildings_events)
  have follows: "\<forall>ms. Delay ms \<in> set ?evs \<longrightarrow> (\<exists>l a. sublist [Request l a, Delay ms] ?evs)"
    using delay_follows_request by (simp add: fetchBuildings_events)
  have wait: "\<forall>l. Request l 1 \<in> set ?evs \<longrightarrow> sublist [Request l 0, Delay 2000, Request l 1] ?evs"
    using retry_wait_expected by (simp add: fetchBuildings_events)
  have dist: "distinct (map label OVERPASS_ENDPOINTS)"
    by (simp add: OVERPASS_ENDPOINTS_def)
  have second: "\<forall>endpoint \<in> set OVERPASS_ENDPOINTS.
      Request (label endpoint) 1 \<in> set ?evs \<longrightarrow>
      (sublist [Request (label endpoint) 1, Delay 4000] ?evs
         \<longleftrightarrow> attemptResult w lat lon endpoint 1 = RateLimited)"
    using second_wait_expected[OF dist] by (simp add: fetchBuildings_events)
  have result: "(\<exists>footprints. fst (fetchBuildings w lat lon sizeMeters) = Inr footprints) \<or>
    (\<exists>lastError. fst (fetchBuildings w lat lon sizeMeters) = Inl (unavailable lastError))"
    by (auto simp: fetchBuildings_def split: sum.splits prod.splits)
  show ?thesis using total each known law follows wait second result by blast
qed

lemma attemptResult_worldBusy: "attemptResult worldBusy lat lon endpoint attempt = RateLimited"
  by (simp add: attemptResult_def worldBusy_def res_ok_def)

lemma fetchBuildings_worldBusy:
  "fetchBuildings worldBusy 0 0 250 =
     (Inl (unavailable None),
      [Request ''de'' 0, Delay 2000, Request ''de'' 1, Delay 4000,
       Request ''kumi'' 0, Delay 2000, Request ''kumi'' 1, Delay 4000,
       Request ''ru'' 0, Delay 2000, Request ''ru'' 1, Delay 4000])"
  by (simp add: fetchBuildings_def OVERPASS_ENDPOINTS_def attemptLoop_0 attemptResult_worldBusy)

theorem fetchBuildings_bounded_witness:
  "length (requestsOf (snd (fetchBuildings worldBusy 0 0 250))) = 6 \<and>
   length (filter (isRequestTo ''kumi'') (snd (fetchBuildings worldBusy 0 0 250))) = 2 \<and>
   Request ''kumi'' 1 \<in> set (snd (fetchBuildings worldBusy 0 0 250)) \<and>
   sublist [Request ''kumi'' 0, Delay 2000, Request ''kumi'' 1]
     (snd (fetchBuildings worldBusy 0 0 250)) \<and>
   attemptResult worldBusy 0 0 (OVERPASS_ENDPOINTS ! 1) 1 = RateLimited \<and>
   sublist [Request ''kumi'' 1, Delay 4000] (snd (fetchBuildings worldBusy 0 0 250)) \<and>
   fst (fetchBuildings worldBusy 0 0 250) = Inl (unavailable None)"
proof -
  let ?kumi = "OVERPASS_ENDPOINTS ! 1"
  have kumi: "?kumi \<in> set OVERPASS_ENDPOINTS" "label ?kumi = ''kumi''"
    by (simp_all add: OVERPASS_ENDPOINTS_def)
  have mem: "Request ''kumi'' 1 \<in> set (snd (fetchBuildings worldBusy 0 0 250))"
    by (simp add: fetchBuildings_worldBusy)
  have busy: "attemptResult worldBusy 0 0 ?kumi 1 = RateLimited"
    by (rule attemptResult_worldBusy)
  note bounded = fetchBuildings_bounded [of worldBusy 0 0 250]
  have first: "sublist [Request ''kumi'' 0, Delay 2000, Request ''kumi'' 1]
          (snd (fetchBuildings worldBusy 0 0 250))"
    using mem bounded by blast
  have "sublist [Request (label ?kumi) 1, Delay 4000] (snd (fetchBuildings worldBusy 0 0 250))"
    using mem busy kumi bounded by metis
  then have second: "sublist [Request ''kumi'' 1, Delay 4000] (snd (fetchBuildings worldBusy 0 0 250))"
    by (simp only: kumi(2))
  show ?thesis
    using mem first second busy by (simp add: fetchBuildings_worldBusy requestsOf_def)
qed

text \<open>
  The claim C5 as stated fails in its fixed delay. In \<open>worldBusy\<close>, where every request
  meets status 429, one run waits 2000 ms after each first attempt and 4000 ms after
  each second attempt. In \<open>world429then500\<close> the first mirror answers 429 and then 500:
  the run waits 2000 ms before the second attempt and not at all between that attempt
  and the first one at the next mirror.
\<close>

lemma attemptResult_world429then500:
  "attemptResult world429then500 lat lon (OVERPASS_ENDPOINTS ! 0) 0 = RateLimited"
  "attemptResult world429then500 lat lon (OVERPASS_ENDPOINTS ! 0) (Suc 0)
     = Failed (Error ''Overpass API returned 500'')"
  "attemptResult world429then500 lat lon (OVERPASS_ENDPOINTS ! 1) 0 = Succeeded []"
  by (simp_all add: attemptResult_def world429then500_def OVERPASS_ENDPOINTS_def res_ok_def
        digitChar_def emptyResponse_def parseFootprints_none)

theorem backoff_not_fixed:
  "snd (fetchBuildings worldBusy 0 0 250) =
      [Request ''de'' 0, Delay 2000, Request ''de'' 1, Delay 4000,
       Request ''kumi'' 0, Delay 2000, Request ''kumi'' 1, Delay 4000,
       Request ''ru'' 0, Delay 2000, Request ''ru'' 1, Delay 4000] \<and>
   fetchBuildings world429then500 0 0 250 =
      (Inr [], [Request ''de'' 0, Delay 2000, Request ''de'' 1, Request ''kumi'' 0])"
proof -
  have "fetchBuildings world429then500 0 0 250 =
      (Inr [], [Request ''de'' 0, Delay 2000, Request ''de'' 1, Request ''kumi'' 0])"
    using attemptResult_world429then500[of 0 0]
    by (simp add: fetchBuildings_def OVERPASS_ENDPOINTS_def attemptLoop_0)
  then show ?thesis by (simp add: fetchBuildings_worldBusy)
qed

section \<open>Properties of the fetched polygons\<close>






















section \<open>Properties of location resolution\<close>











lemma referencePoint_empty:
  "referencePoint g [] fallbackLat fallbackLon = (LatLon fallbackLat fallbackLon, [])"
  by (simp add: referencePoint_def)

lemma referencePoint_found:
  "locality \<noteq> [] \<Longrightarrow> geocodeNominatim g locality = Inr r \<Longrightarrow>
   referencePoint g locality fallbackLat fallbackLon = (r, [locality])"
  by (simp add: referencePoint_def)

lemma referencePoint_failed:
  "locality \<noteq> [] \<Longrightarrow> geocodeNominatim g locality = Inl e \<Longrightarrow>
   referencePoint g locality fallbackLat fallbackLon = (LatLon fallbackLat fallbackLon, [locality])"
  by (simp add: referencePoint_def)


















section \<open>Properties of the handlers\<close>

lemma errorMessage_nonempty: "fallback \<noteq> [] \<Longrightarrow> errorMessage e fallback \<noteq> []"
  by (cases e) (simp_all add: errorMessage_def)

lemma handleLocate_failed:
  "fst (resolveLocationString g (s_locQuery s) (s_lat s) (s_lon s)) = Inl e \<Longrightarrow>
   handleLocate g s = s\<lparr> s_loading := False,
                         s_error := Some (errorMessage e ''Failed to geocode location.'') \<rparr>"
  by (simp add: handleLocate_def)

lemma handleRender_geocode_failed:
  "fst (resolveLocationString g (s_locQuery s) (s_lat s) (s_lon s)) = Inl e \<Longrightarrow>
   handleRender g w s = s\<lparr> s_loading := False,
                           s_error := Some (errorMessage e ''Failed to fetch building data.'') \<rparr>"
  by (simp add: handleRender_def)

lemma handleRender_fetch_failed:
  "fst (resolveLocationString g (s_locQuery s) (s_lat s) (s_lon s)) = Inr found \<Longrightarrow>
   fst (fetchBuildings w (lat_of found) (lon_of found) (s_size s)) = Inl e \<Longrightarrow>
   handleRender g w s = s\<lparr> s_lat := lat_of found, s_lon := lon_of found, s_loading := False,
                           s_error := Some (errorMessage e ''Failed to fetch building data.'') \<rparr>"
  by (simp add: handleRender_def Let_def)

lemma handleLocate_loading: "s_loading (handleLocate g s) = False"
  by (simp add: handleLocate_def Let_def split: sum.split)

lemma handleRender_loading: "s_loading (handleRender g w s) = False"
  by (simp add: handleRender_def Let_def split: sum.split)

text \<open>
  Claim C7, as amended. The handlers never let a failure escape: they return a state in
  every case, with the loading flag reset. When resolving the location fails,
  \<open>handleLocate\<close> and \<open>handleRender\<close> set the error message (the message of the error,
  or a fixed text when that is empty; never the empty string) and leave every other
  state variable as it was. When the location resolves and fetching the buildings fails,
  \<open>handleRender\<close> sets the error message and leaves the footprints, the render key, the
  query and the size as they were; the latitude and longitude, stored before the fetch,
  hold the newly resolved coordinates.
\<close>

theorem handlers_surface_errors:
  "s_loading (handleLocate g s) = False \<and> s_loading (handleRender g w s) = False \<and>
   (fst (resolveLocationString g (s_locQuery s) (s_lat s) (s_lon s)) = Inl e \<longrightarrow>
      handleLocate g s
        = s\<lparr> s_loading := False,
             s_error := Some (errorMessage e ''Failed to geocode location.'') \<rparr> \<and>
      handleRender g w s
        = s\<lparr> s_loading := False,
             s_error := Some (errorMessage e ''Failed to fetch building data.'') \<rparr> \<and>
      errorMessage e ''Failed to geocode location.'' \<noteq> [] \<and>
      errorMessage e ''Failed to fetch building data.'' \<noteq> []) \<and>
   (fst (resolveLocationString g (s_locQuery s) (s_lat s) (s_lon s)) = Inr found \<and>
    fst (fetchBuildings w (lat_of found) (lon_of found) (s_size s)) = Inl e' \<longrightarrow>
      handleRender g w s
        = s\<lparr> s_lat := lat_of found, s_lon := lon_of found, s_loading := False,
             s_error := Some (errorMessage e' ''Failed to fetch building data.'') \<rparr> \<and>
      s_footprints (handleRender g w s) = s_footprints s \<and>
      s_renderKey (handleRender g w s) = s_renderKey s \<and>
      errorMessage e' ''Failed to fetch building data.'' \<noteq> [])"
proof (intro conjI impI)
  show "s_loading (handleLocate g s) = False" by (rule handleLocate_loading)
  show "s_loading (handleRender g w s) = False" by (rule handleRender_loading)
next
  assume a: "fst (resolveLocationString g (s_locQuery s) (s_lat s) (s_lon s)) = Inl e"
  show "handleLocate g s
        = s\<lparr> s_loading := False,
             s_error := Some (errorMessage e ''Failed to geocode location.'') \<rparr>"
    using a by (rule handleLocate_failed)
  show "handleRender g w s
        = s\<lparr> s_loading := False,
             s_error := Some (errorMessage e ''Failed to fetch building data.'') \<rparr>"
    using a by (rule handleRender_geocode_failed)
  show "errorMessage e ''Failed to geocode location.'' \<noteq> []"
    by (rule errorMessage_nonempty) simp
  show "errorMessage e ''Failed to fetch building data.'' \<noteq> []"
    by (rule errorMessage_nonempty) simp
next
  assume b: "fst (resolveLocationString g (s_locQuery s) (s_lat s) (s_lon s)) = Inr found \<and>
    fst (fetchBuildings w (lat_of found) (lon_of found) (s_size s)) = Inl e'"
  then have eq: "handleRender g w s
        = s\<lparr> s_lat := lat_of found, s_lon := lon_of found, s_loading := False,
             s_error := Some (errorMessage e' ''Failed to fetch building data.'') \<rparr>"
    by (intro handleRender_fetch_failed) simp_all
  show "handleRender g w s
        = s\<lparr> s_lat := lat_of found, s_lon := lon_of found, s_loading := False,
             s_error := Some (errorMessage e' ''Failed to fetch building data.'') \<rparr>"
    by (rule eq)
  show "s_footprints (handleRender g w s) = s_footprints s" by (simp add: eq)
  show "s_renderKey (handleRender g w s) = s_renderKey s" by (simp add: eq)
  show "errorMessage e' ''Failed to fetch building data.'' \<noteq> []"
    by (rule errorMessage_nonempty) simp
qed

lemma attemptResult_worldDown:
  "attemptResult worldDown la lo endpoint attempt = Failed (Error ''Failed to fetch'')"
  by (simp add: attemptResult_def worldDown_def)

lemma fetchBuildings_worldDown:
  "fst (fetchBuildings worldDown la lo sz) = Inl (unavailable (Some (Error ''Failed to fetch'')))"
  by (simp add: fetchBuildings_def OVERPASS_ENDPOINTS_def attemptLoop_0 attemptResult_worldDown)

lemma unavailable_message:
  "errorMessage (unavailable (Some (Error ''Failed to fetch''))) ''Failed to fetch building data.''
     = ''Building data unavailable (last error: Failed to fetch). Try again in a minute or reduce the search area.''"
  by (simp add: errorMessage_def unavailable_def)

lemma resolve_rendered:
  "fst (resolveLocationString g (s_locQuery renderedState) (s_lat renderedState) (s_lon renderedState))
     = Inr (LatLon 1 2)"
proof -
  have "\<not> blank ''1, 2'' \<and> matchLatLon ''1, 2'' = Some (''1'', ''2'')" by code_simp
  moreover have "parseDecimal ''1'' = 1 \<and> parseDecimal ''2'' = 2"
    by (simp add: parseDecimal_def isDigit_def digitsValue_def digitValue_def)
  ultimately show ?thesis
    by (simp add: renderedState_def resolveLocationString_def)
qed

lemma resolve_address_down:
  "fst (resolveLocationString geoDown ''Brandenburg Gate'' la lo) = Inl (Error ''Failed to fetch'')"
proof -
  have "\<not> blank ''Brandenburg Gate'' \<and> matchLatLon ''Brandenburg Gate'' = None \<and>
        extractPlusCode ''Brandenburg Gate'' = None" by code_simp
  then show ?thesis
    by (simp add: resolveLocationString_def geocodeNominatim_def geoDown_def)
qed

theorem handlers_surface_errors_witness:
  "handleLocate geoDown (renderedState\<lparr> s_locQuery := ''Brandenburg Gate'' \<rparr>)
     = renderedState\<lparr> s_locQuery := ''Brandenburg Gate'', s_error := Some ''Failed to fetch'' \<rparr> \<and>
   handleRender geoDown worldDown (renderedState\<lparr> s_locQuery := ''Brandenburg Gate'' \<rparr>)
     = renderedState\<lparr> s_locQuery := ''Brandenburg Gate'', s_error := Some ''Failed to fetch'' \<rparr> \<and>
   handleRender geoDown worldDown renderedState
     = renderedState\<lparr> s_lat := 1, s_lon := 2,
         s_error := Some ''Building data unavailable (last error: Failed to fetch). Try again in a minute or reduce the search area.'' \<rparr>"
proof -
  let ?s = "renderedState\<lparr> s_locQuery := ''Brandenburg Gate'' \<rparr>"
  have r1: "fst (resolveLocationString geoDown (s_locQuery ?s) (s_lat ?s) (s_lon ?s))
              = Inl (Error ''Failed to fetch'')"
    by (simp add: resolve_address_down)
  have m: "errorMessage (Error ''Failed to fetch'') ''Failed to geocode location.'' = ''Failed to fetch''"
          "errorMessage (Error ''Failed to fetch'') ''Failed to fetch building data.'' = ''Failed to fetch''"
    by (simp_all add: errorMessage_def)
  have a: "handleLocate geoDown ?s = ?s\<lparr> s_loading := False, s_error := Some ''Failed to fetch'' \<rparr>"
          "handleRender geoDown worldDown ?s = ?s\<lparr> s_loading := False, s_error := Some ''Failed to fetch'' \<rparr>"
    using handlers_surface_errors [where g = geoDown and s = ?s and w = worldDown
        and e = "Error ''Failed to fetch''"] r1
    by (simp_all only: m) 
  have r2: "fst (resolveLocationString geoDown (s_locQuery renderedState) (s_lat renderedState)
                   (s_lon renderedState)) = Inr (LatLon 1 2)"
    by (rule resolve_rendered)
  have f: "fst (fetchBuildings worldDown (lat_of (LatLon 1 2)) (lon_of (LatLon 1 2)) (s_size renderedState))
             = Inl (unavailable (Some (Error ''Failed to fetch'')))"
    by (rule fetchBuildings_worldDown)
  have b: "handleRender geoDown worldDown renderedState
     = renderedState\<lparr> s_lat := lat_of (LatLon 1 2), s_lon := lon_of (LatLon 1 2), s_loading := False,
         s_error := Some (errorMessage (unavailable (Some (Error ''Failed to fetch'')))
                            ''Failed to fetch building data.'') \<rparr>"
    using handlers_surface_errors [where g = geoDown and s = renderedState and w = worldDown
        and found = "LatLon 1 2" and e' = "unavailable (Some (Error ''Failed to fetch''))"] r2 f
    by blast
  have l: "s_loading renderedState = False" by (simp add: renderedState_def)
  show ?thesis
    using a b l by (simp add: unavailable_message)
qed

text \<open>
  The claim C7 as stated fails: with a query that resolves without the network and a
  network that is down, \<open>handleRender\<close> sets the error message and keeps the footprints,
  but the latitude and longitude of the state are no longer the previous ones.
\<close>

theorem failed_render_moves_location:
  "s_error (handleRender geoDown worldDown renderedState)
     = Some ''Building data unavailable (last error: Failed to fetch). Try again in a minute or reduce the search area.'' \<and>
   s_footprints (handleRender geoDown worldDown renderedState) = s_footprints renderedState \<and>
   s_lat renderedState = 52.52 \<and> s_lon renderedState = 13.405 \<and>
   s_lat (handleRender geoDown worldDown renderedState) = 1 \<and>
   s_lon (handleRender geoDown worldDown renderedState) = 2"
proof -
  have "handleRender geoDown worldDown renderedState
     = renderedState\<lparr> s_lat := 1, s_lon := 2, s_loading := False,
         s_error := Some ''Building data unavailable (last error: Failed to fetch). Try again in a minute or reduce the search area.'' \<rparr>"
    using handleRender_fetch_failed [OF resolve_rendered, of worldDown]
    by (simp add: fetchBuildings_worldDown unavailable_message)
  then show ?thesis by (simp add: renderedState_def)
qed

section \<open>Properties of the building-info flow\<close>

lemma route_first_throws:
  "req_json req = Inr building \<Longrightarrow> truthy (apiKeyOf env req) \<Longrightarrow> chat env 1 = ChatThrows e \<Longrightarrow>
   buildingInfoRoute env req = failureResponse"
  by (simp add: buildingInfoRoute_def)

lemma route_second_throws:
  "req_json req = Inr building \<Longrightarrow> truthy (apiKeyOf env req) \<Longrightarrow>
   chat env 1 = ChatReplies content \<Longrightarrow> chat env 2 = ChatThrows e \<Longrightarrow>
   buildingInfoRoute env req = failureResponse"
  by (simp add: buildingInfoRoute_def)

lemma route_no_content:
  "req_json req = Inr building \<Longrightarrow> truthy (apiKeyOf env req) \<Longrightarrow>
   chat env 1 = ChatReplies content \<Longrightarrow> \<not> truthy content \<Longrightarrow>
   chat env 2 = ChatReplies nameContent \<Longrightarrow>
   buildingInfoRoute env req =
     (200, \<lparr> j_error = None, j_name = Some (generatedNameOf nameContent building),
              j_description = Some ''A building in the urban landscape.'',
              j_original_tags = Some (b_tags building) \<rparr>)"
  by (cases content) (simp_all add: buildingInfoRoute_def)

lemma client_ok:
  "res_ok status \<Longrightarrow>
   generateBuildingInfo (InfoResponse status (Inr body)) st
     = (Some body, st\<lparr> ai_loading := False, ai_error := None \<rparr>)"
  by (simp add: generateBuildingInfo_def tryGenerate_def)

lemma client_not_ok:
  "\<not> res_ok status \<Longrightarrow>
   generateBuildingInfo (InfoResponse status (Inr body)) st
     = (None, st\<lparr> ai_loading := False,
                   ai_error := Some (orElse (j_error body) ''Failed to generate building information'') \<rparr>)"
  by (simp add: generateBuildingInfo_def tryGenerate_def)

lemma trim_idem: "trim (trim s) = trim s"
proof -
  have a: "\<And>xs. dropWhile isSpace (dropWhile isSpace xs) = dropWhile isSpace xs"
    by (simp add: dropWhile_idem)
  have b: "dropWhile isSpace (rev (dropWhile isSpace (rev (dropWhile isSpace s))))
             = rev (dropWhile isSpace (rev (dropWhile isSpace s)))"
  proof (cases "dropWhile isSpace s")
    case Nil
    show ?thesis unfolding Nil by simp
  next
    case (Cons c cs)
    then have c: "\<not> isSpace c" using hd_dropWhile[of isSpace s] by simp
    define t where "t = rev (dropWhile isSpace (rev (c # cs)))"
    have "c # cs = t @ rev (takeWhile isSpace (rev (c # cs)))"
      unfolding t_def by (metis rev_append rev_rev_ident takeWhile_dropWhile_id)
    moreover have "t \<noteq> []"
    proof
      assume "t = []"
      then have "\<forall>x \<in> set (rev (c # cs)). isSpace x"
        unfolding t_def by (simp add: dropWhile_eq_Nil_conv)
      then show False using c by simp
    qed
    ultimately have "hd t = c" by (cases t) (auto simp: Cons_eq_append_conv)
    then have "dropWhile isSpace t = t" using c \<open>t \<noteq> []\<close> by (cases t) auto
    then show ?thesis unfolding t_def Cons by simp
  qed
  show ?thesis unfolding trim_def by (simp add: b)
qed

lemma apiKeyOf_header:
  "openai keys \<noteq> [] \<Longrightarrow> trim (openai keys) \<noteq> [] \<Longrightarrow>
   truthy (apiKeyOf env \<lparr> req_json = Inr building, req_key_header = openaiHeader keys \<rparr>)"
  by (simp add: apiKeyOf_def openaiHeader_def trim_idem)

lemma flow_llm_throws:
  assumes "openai keys \<noteq> []" "trim (openai keys) \<noteq> []" "chat env 1 = ChatThrows e"
  shows "buildingInfoFlow env keys building st
           = (None, st\<lparr> ai_loading := False,
                         ai_error := Some ''Failed to generate building information'' \<rparr>)"
proof -
  have "buildingInfoRoute env \<lparr> req_json = Inr building, req_key_header = openaiHeader keys \<rparr>
          = failureResponse"
    using assms by (intro route_first_throws apiKeyOf_header) simp_all
  then show ?thesis
    by (simp add: buildingInfoFlow_def failureResponse_def client_not_ok res_ok_def)
qed

lemma flow_no_content:
  assumes "openai keys \<noteq> []" "trim (openai keys) \<noteq> []" "chat env 1 = ChatReplies content"
    "\<not> truthy content" "chat env 2 = ChatReplies nameContent"
  shows "buildingInfoFlow env keys building st
           = (Some \<lparr> j_error = None, j_name = Some (generatedNameOf nameContent building),
                      j_description = Some ''A building in the urban landscape.'',
                      j_original_tags = Some (b_tags building) \<rparr>,
              st\<lparr> ai_loading := False, ai_error := None \<rparr>)"
proof -
  have "buildingInfoRoute env \<lparr> req_json = Inr building, req_key_header = openaiHeader keys \<rparr>
          = (200, \<lparr> j_error = None, j_name = Some (generatedNameOf nameContent building),
                     j_description = Some ''A building in the urban landscape.'',
                     j_original_tags = Some (b_tags building) \<rparr>)"
    using assms by (intro route_no_content apiKeyOf_header) simp_all
  then show ?thesis
    by (simp add: buildingInfoFlow_def client_ok res_ok_def)
qed

text \<open>
  Claim C8, as amended. When a chat completion throws, the route answers with status
  500 and a body that carries the error text, the fixed name \<open>Unknown Building\<close> and a
  generic description; when the first completion has no content, the route answers with
  status 200 and the default description \<open>A building in the urban landscape.\<close>. The hook
  hands a body to its caller only for a status from 200 to 299: the default description
  reaches the caller in place of generated text, whereas for the failure response the
  caller receives \<open>null\<close> and the hook's error message is set to the error text of the
  body, so the placeholder name and description of that response do not reach the caller.
\<close>

theorem llm_failure_flow:
  "fst failureResponse = 500 \<and>
   j_name (snd failureResponse) = Some ''Unknown Building'' \<and>
   j_description (snd failureResponse)
     = Some ''A unique structure in the urban environment, contributing to the city's architectural diversity.'' \<and>
   (req_json req = Inr building \<and> truthy (apiKeyOf env req) \<and>
    (chat env 1 = ChatThrows e \<or> chat env 1 = ChatReplies content \<and> chat env 2 = ChatThrows e) \<longrightarrow>
      buildingInfoRoute env req = failureResponse) \<and>
   (req_json req = Inr building \<and> truthy (apiKeyOf env req) \<and>
    chat env 1 = ChatReplies content \<and> \<not> truthy content \<and> chat env 2 = ChatReplies nameContent \<longrightarrow>
      buildingInfoRoute env req =
        (200, \<lparr> j_error = None, j_name = Some (generatedNameOf nameContent building),
                 j_description = Some ''A building in the urban landscape.'',
                 j_original_tags = Some (b_tags building) \<rparr>)) \<and>
   (res_ok status \<longrightarrow>
      generateBuildingInfo (InfoResponse status (Inr body)) st
        = (Some body, st\<lparr> ai_loading := False, ai_error := None \<rparr>)) \<and>
   (\<not> res_ok status \<longrightarrow>
      generateBuildingInfo (InfoResponse status (Inr body)) st
        = (None, st\<lparr> ai_loading := False,
                      ai_error := Some (orElse (j_error body)
                                          ''Failed to generate building information'') \<rparr>)) \<and>
   (openai keys \<noteq> [] \<and> trim (openai keys) \<noteq> [] \<and> chat env 1 = ChatThrows e \<longrightarrow>
      buildingInfoFlow env keys building st
        = (None, st\<lparr> ai_loading := False,
                      ai_error := Some ''Failed to generate building information'' \<rparr>)) \<and>
   (openai keys \<noteq> [] \<and> trim (openai keys) \<noteq> [] \<and> chat env 1 = ChatReplies content \<and>
    \<not> truthy content \<and> chat env 2 = ChatReplies nameContent \<longrightarrow>
      buildingInfoFlow env keys building st
        = (Some \<lparr> j_error = None, j_name = Some (generatedNameOf nameContent building),
                   j_description = Some ''A building in the urban landscape.'',
                   j_original_tags = Some (b_tags building) \<rparr>,
           st\<lparr> ai_loading := False, ai_error := None \<rparr>))"
proof (intro conjI impI)
  show "fst failureResponse = 500" by (simp add: failureResponse_def)
  show "j_name (snd failureResponse) = Some ''Unknown Building''" by (simp add: failureResponse_def)
  show "j_description (snd failureResponse)
     = Some ''A unique structure in the urban environment, contributing to the city's architectural diversity.''"
    by (simp add: failureResponse_def)
next
  assume "req_json req = Inr building \<and> truthy (apiKeyOf env req) \<and>
    (chat env 1 = ChatThrows e \<or> chat env 1 = ChatReplies content \<and> chat env 2 = ChatThrows e)"
  then show "buildingInfoRoute env req = failureResponse"
    using route_first_throws route_second_throws by blast
next
  assume "req_json req = Inr building \<and> truthy (apiKeyOf env req) \<and>
    chat env 1 = ChatReplies content \<and> \<not> truthy content \<and> chat env 2 = ChatReplies nameContent"
  then show "buildingInfoRoute env req =
        (200, \<lparr> j_error = None, j_name = Some (generatedNameOf nameContent building),
                 j_description = Some ''A building in the urban landscape.'',
                 j_original_tags = Some (b_tags building) \<rparr>)"
    using route_no_content by blast
next
  assume "res_ok status"
  then show "generateBuildingInfo (InfoResponse status (Inr body)) st
        = (Some body, st\<lparr> ai_loading := False, ai_error := None \<rparr>)"
    by (rule client_ok)
next
  assume "\<not> res_ok status"
  then show "generateBuildingInfo (InfoResponse status (Inr body)) st
        = (None, st\<lparr> ai_loading := False,
                      ai_error := Some (orElse (j_error body)
                                          ''Failed to generate building information'') \<rparr>)"
    by (rule client_not_ok)
next
  assume "openai keys \<noteq> [] \<and> trim (openai keys) \<noteq> [] \<and> chat env 1 = ChatThrows e"
  then show "buildingInfoFlow env keys building st
        = (None, st\<lparr> ai_loading := False,
                      ai_error := Some ''Failed to generate building information'' \<rparr>)"
    using flow_llm_throws by blast
next
  assume "openai keys \<noteq> [] \<and> trim (openai keys) \<noteq> [] \<and> chat env 1 = ChatReplies content \<and>
    \<not> truthy content \<and> chat env 2 = ChatReplies nameContent"
  then show "buildingInfoFlow env keys building st
        = (Some \<lparr> j_error = None, j_name = Some (generatedNameOf nameContent building),
                   j_description = Some ''A building in the urban landscape.'',
                   j_original_tags = Some (b_tags building) \<rparr>,
           st\<lparr> ai_loading := False, ai_error := None \<rparr>)"
    using flow_no_content by blast
qed

lemma someKeys_header: "openai someKeys \<noteq> [] \<and> trim (openai someKeys) \<noteq> []"
  by (simp add: someKeys_def trim_def isSpace_def)

lemma generated_name:
  "generatedNameOf (Some '' Grand Central '') someBuilding = ''Grand Central''"
  by (simp add: generatedNameOf_def trim_def isSpace_def)

theorem llm_failure_flow_witness:
  "buildingInfoFlow envFailing someKeys someBuilding idleState
     = (None, \<lparr> ai_loading = False,
                 ai_error = Some ''Failed to generate building information'' \<rparr>) \<and>
   buildingInfoFlow envSilent someKeys someBuilding idleState
     = (Some \<lparr> j_error = None, j_name = Some ''Grand Central'',
                j_description = Some ''A building in the urban landscape.'',
                j_original_tags = Some [''building'' \<mapsto> ''train_station''] \<rparr>,
        \<lparr> ai_loading = False, ai_error = None \<rparr>)"
proof -
  note flow = llm_failure_flow
  have f: "chat envFailing 1 = ChatThrows (Error ''429 quota exceeded'')"
    by (simp add: envFailing_def)
  have a: "buildingInfoFlow envFailing someKeys someBuilding idleState
     = (None, idleState\<lparr> ai_loading := False,
                 ai_error := Some ''Failed to generate building information'' \<rparr>)"
    using flow [where keys = someKeys and env = envFailing and e = "Error ''429 quota exceeded''"
                  and building = someBuilding and st = idleState] someKeys_header f
    by blast
  have s: "chat envSilent 1 = ChatReplies None" "\<not> truthy None"
          "chat envSilent 2 = ChatReplies (Some '' Grand Central '')"
    by (simp_all add: envSilent_def)
  have b: "buildingInfoFlow envSilent someKeys someBuilding idleState
     = (Some \<lparr> j_error = None,
                j_name = Some (generatedNameOf (Some '' Grand Central '') someBuilding),
                j_description = Some ''A building in the urban landscape.'',
                j_original_tags = Some (b_tags someBuilding) \<rparr>,
        idleState\<lparr> ai_loading := False, ai_error := None \<rparr>)"
    using flow [where keys = someKeys and env = envSilent and content = None
                  and nameContent = "Some '' Grand Central ''"
                  and building = someBuilding and st = idleState] someKeys_header s
    by blast
  show ?thesis
    unfolding a b generated_name by (simp add: idleState_def someBuilding_def)
qed

text \<open>
  The claim C8 as stated fails: when the model service throws, the route's response
  carries the placeholder, but the caller of \<open>generateBuildingInfo\<close> receives \<open>null\<close>.
\<close>

theorem placeholder_not_delivered:
  "buildingInfoRoute envFailing \<lparr> req_json = Inr someBuilding, req_key_header = Some ''sk-test'' \<rparr>
     = failureResponse \<and>
   j_name (snd failureResponse) = Some ''Unknown Building'' \<and>
   openaiHeader someKeys = Some ''sk-test'' \<and>
   fst (buildingInfoFlow envFailing someKeys someBuilding idleState) = None"
proof -
  have h: "openaiHeader someKeys = Some ''sk-test''"
    by (simp add: openaiHeader_def someKeys_def trim_def isSpace_def)
  have r: "buildingInfoRoute envFailing
             \<lparr> req_json = Inr someBuilding, req_key_header = Some ''sk-test'' \<rparr> = failureResponse"
    by (simp add: buildingInfoRoute_def apiKeyOf_def envFailing_def trim_def isSpace_def)
  have "fst (buildingInfoFlow envFailing someKeys someBuilding idleState) = None"
    by (simp add: buildingInfoFlow_def h r failureResponse_def generateBuildingInfo_def
                  tryGenerate_def res_ok_def)
  then show ?thesis using h r by (simp add: failureResponse_def)
qed

section \<open>Properties of the key storage\<close>

lemma spreadKeys_allKeys: "spreadKeys d (allKeys k) = k"
  by (simp add: spreadKeys_def allKeys_def)

lemma unquoteJson_escape:
  "unquoteJson (escapeJson s @ CHR 0x22 # rest) acc = Some (acc @ s, rest)"
proof (induction s arbitrary: acc)
  case Nil
  then show ?case by (cases rest) simp_all
next
  case (Cons c cs)
  obtain d ds where tail: "escapeJson cs @ CHR 0x22 # rest = d # ds"
    by (cases "escapeJson cs @ CHR 0x22 # rest") auto
  show ?case
  proof (cases "c = CHR 0x22 \<or> c = CHR 0x5C")
    case True
    then show ?thesis using Cons.IH[of "acc @ [c]"] by auto
  next
    case False
    then have "unquoteJson (escapeJson (c # cs) @ CHR 0x22 # rest) acc
                 = unquoteJson (d # ds) (acc @ [c])"
      by (simp add: tail)
    then show ?thesis using Cons.IH[of "acc @ [c]"] by (simp add: tail)
  qed
qed

lemma readString_quote: "readString (quoteJson s @ rest) = Some (s, rest)"
  by (simp add: readString_def quoteJson_def unquoteJson_escape)

lemma readMembers_more:
  "readMembers (Suc n) (quoteJson name @ CHR '':'' # quoteJson v @ CHR '','' # rest) p
     = readMembers n rest (setMember name v p)"
proof -
  have 1: "readString (quoteJson name @ CHR '':'' # quoteJson v @ CHR '','' # rest)
             = Some (name, CHR '':'' # quoteJson v @ CHR '','' # rest)"
    by (rule readString_quote)
  have 2: "readString (quoteJson v @ CHR '','' # rest) = Some (v, CHR '','' # rest)"
    by (rule readString_quote)
  show ?thesis
    by (simp add: 1 2 del: readString_def)
qed

lemma readMembers_last:
  "readMembers (Suc n) (quoteJson name @ CHR '':'' # quoteJson v @ ''}'') p
     = Some (setMember name v p)"
proof -
  have 1: "readString (quoteJson name @ CHR '':'' # quoteJson v @ ''}'')
             = Some (name, CHR '':'' # quoteJson v @ ''}'')"
    by (rule readString_quote)
  have 2: "readString (quoteJson v @ ''}'') = Some (v, ''}'')"
    by (rule readString_quote)
  show ?thesis
    by (simp add: 1 2 del: readString_def)
qed

lemma stringifyKeys_shape:
  "stringifyKeys k = CHR ''{'' #
     (quoteJson ''openai'' @ CHR '':'' # quoteJson (openai k) @ CHR '','' #
      quoteJson ''gemini'' @ CHR '':'' # quoteJson (gemini k) @ CHR '','' #
      quoteJson ''huggingface'' @ CHR '':'' # quoteJson (huggingface k) @ CHR '','' #
      quoteJson ''ollama'' @ CHR '':'' # quoteJson (ollama k) @ ''}'')"
  unfolding stringifyKeys_def by simp

lemma readMembers_four:
  "readMembers (Suc (Suc (Suc (Suc n))))
     (quoteJson ''openai'' @ CHR '':'' # quoteJson a @ CHR '','' #
      quoteJson ''gemini'' @ CHR '':'' # quoteJson b @ CHR '','' #
      quoteJson ''huggingface'' @ CHR '':'' # quoteJson c @ CHR '','' #
      quoteJson ''ollama'' @ CHR '':'' # quoteJson d @ ''}'') noKeys
   = Some (setMember ''ollama'' d (setMember ''huggingface'' c
             (setMember ''gemini'' b (setMember ''openai'' a noKeys))))"
  by (simp only: readMembers_more readMembers_last)

lemma parseKeys_object:
  "rest \<noteq> ''}'' \<Longrightarrow>
   parseKeys (CHR ''{'' # rest)
     = (case readMembers (length rest) rest noKeys of
          None \<Rightarrow> Inl (Error ''Unexpected token'') | Some p \<Rightarrow> Inr p)"
  by (simp add: parseKeys_def del: readMembers.simps)

lemma setMember_all:
  "setMember ''ollama'' d (setMember ''huggingface'' c
     (setMember ''gemini'' b (setMember ''openai'' a noKeys)))
   = \<lparr> p_openai = Some a, p_gemini = Some b, p_huggingface = Some c, p_ollama = Some d \<rparr>"
  by (simp add: setMember_def noKeys_def)

lemma at_least_four: "4 \<le> (m::nat) \<Longrightarrow> \<exists>n. m = Suc (Suc (Suc (Suc n)))"
  by presburger

lemma parseKeys_stringifyKeys: "parseKeys (stringifyKeys k) = Inr (allKeys k)"
proof -
  let ?rest = "quoteJson ''openai'' @ CHR '':'' # quoteJson (openai k) @ CHR '','' #
      quoteJson ''gemini'' @ CHR '':'' # quoteJson (gemini k) @ CHR '','' #
      quoteJson ''huggingface'' @ CHR '':'' # quoteJson (huggingface k) @ CHR '','' #
      quoteJson ''ollama'' @ CHR '':'' # quoteJson (ollama k) @ ''}''"
  have len: "4 \<le> length ?rest" by simp
  from at_least_four[OF len] obtain n where n: "length ?rest = Suc (Suc (Suc (Suc n)))" ..
  have ne: "?rest \<noteq> ''}''"
  proof
    assume "?rest = ''}''"
    then have "length ?rest = length ''}''" by (rule arg_cong)
    then show False using len by simp
  qed
  have "parseKeys (stringifyKeys k)
          = (case readMembers (Suc (Suc (Suc (Suc n)))) ?rest noKeys of
               None \<Rightarrow> Inl (Error ''Unexpected token'') | Some p \<Rightarrow> Inr p)"
    by (simp only: stringifyKeys_shape parseKeys_object[OF ne] n)
  also have "\<dots> = Inr (allKeys k)"
    by (simp only: readMembers_four setMember_all option.case allKeys_def)
  finally show ?thesis .
qed

lemma stringifyKeys_nonempty: "stringifyKeys k \<noteq> []"
  by (simp add: stringifyKeys_shape)

text \<open>
  Claim C9, as amended. The keys are persisted as one JSON text under the fixed key
  \<open>cityblocks:apiKeys\<close>. A write that the storage accepts changes that one item, and
  reading after it recovers the record that was written, given that parsing undoes
  writing as \<open>JSON.parse\<close> does for \<open>JSON.stringify\<close>. A write that the storage rejects
  is dropped and the store stays as it was. Missing or unparsable stored data yields
  the default keys.
\<close>

theorem storage_roundtrip:
  "STORAGE_KEY = ''cityblocks:apiKeys'' \<and>
   (has_window b \<and> storage_usable b \<and> accepts b STORAGE_KEY (JSON_stringify b k) \<and>
    JSON_stringify b k \<noteq> [] \<and> JSON_parse b (JSON_stringify b k) = Inr (allKeys k) \<longrightarrow>
      writeToStorage b k items = items(STORAGE_KEY \<mapsto> JSON_stringify b k) \<and>
      readFromStorage b (writeToStorage b k items) = k) \<and>
   (has_window b \<and> storage_usable b \<and> \<not> accepts b STORAGE_KEY (JSON_stringify b k) \<longrightarrow>
      writeToStorage b k items = items) \<and>
   (items STORAGE_KEY = None \<longrightarrow> readFromStorage b items = defaultKeys b) \<and>
   (items STORAGE_KEY = Some raw \<and> JSON_parse b raw = Inl e \<longrightarrow>
      readFromStorage b items = defaultKeys b)"
proof (intro conjI impI)
  show "STORAGE_KEY = ''cityblocks:apiKeys''" by (simp add: STORAGE_KEY_def)
next
  assume a: "has_window b \<and> storage_usable b \<and> accepts b STORAGE_KEY (JSON_stringify b k) \<and>
    JSON_stringify b k \<noteq> [] \<and> JSON_parse b (JSON_stringify b k) = Inr (allKeys k)"
  then show w: "writeToStorage b k items = items(STORAGE_KEY \<mapsto> JSON_stringify b k)"
    by (simp add: writeToStorage_def)
  show "readFromStorage b (writeToStorage b k items) = k"
    using a by (simp add: w readFromStorage_def spreadKeys_allKeys)
next
  assume "has_window b \<and> storage_usable b \<and> \<not> accepts b STORAGE_KEY (JSON_stringify b k)"
  then show "writeToStorage b k items = items" by (simp add: writeToStorage_def)
next
  assume "items STORAGE_KEY = None"
  then show "readFromStorage b items = defaultKeys b" by (simp add: readFromStorage_def)
next
  assume "items STORAGE_KEY = Some raw \<and> JSON_parse b raw = Inl e"
  then show "readFromStorage b items = defaultKeys b" by (simp add: readFromStorage_def)
qed

lemma browserOk_fields:
  "has_window browserOk" "storage_usable browserOk" "accepts browserOk key text"
  "JSON_stringify browserOk = stringifyKeys" "JSON_parse browserOk = parseKeys"
  "defaultKeys browserOk = emptyKeys"
  by (simp_all add: browserOk_def)

theorem storage_roundtrip_witness:
  "JSON_stringify browserOk someKeys
     = ''{\"openai\":\"sk-test\",\"gemini\":\"\",\"huggingface\":\"\",\"ollama\":\"\"}'' \<and>
   JSON_parse browserOk (JSON_stringify browserOk someKeys) = Inr (allKeys someKeys) \<and>
   readFromStorage browserOk (writeToStorage browserOk someKeys Map.empty) = someKeys \<and>
   readFromStorage browserOk Map.empty = emptyKeys \<and>
   readFromStorage browserOk [STORAGE_KEY \<mapsto> ''{oops''] = emptyKeys"
proof -
  have t: "JSON_stringify browserOk someKeys
     = ''{\"openai\":\"sk-test\",\"gemini\":\"\",\"huggingface\":\"\",\"ollama\":\"\"}''"
    by (simp add: browserOk_fields stringifyKeys_shape quoteJson_def someKeys_def)
  have law: "JSON_parse browserOk (JSON_stringify browserOk someKeys) = Inr (allKeys someKeys)"
    by (simp add: browserOk_fields parseKeys_stringifyKeys)
  have ne: "JSON_stringify browserOk someKeys \<noteq> []"
    by (simp add: browserOk_fields stringifyKeys_nonempty)
  have a: "readFromStorage browserOk (writeToStorage browserOk someKeys Map.empty) = someKeys"
    using storage_roundtrip [where b = browserOk and k = someKeys and items = Map.empty]
      browserOk_fields(1-3) law ne
    by blast
  have b: "readFromStorage browserOk Map.empty = emptyKeys"
    using storage_roundtrip [where b = browserOk and items = Map.empty]
    by (simp add: browserOk_fields)
  have "parseKeys ''{oops'' = Inl (Error ''Unexpected token'')"
    by code_simp
  then have bad: "JSON_parse browserOk ''{oops'' = Inl (Error ''Unexpected token'')"
    by (simp only: browserOk_fields)
  have c: "readFromStorage browserOk [STORAGE_KEY \<mapsto> ''{oops''] = emptyKeys"
    using storage_roundtrip [where b = browserOk and items = "[STORAGE_KEY \<mapsto> ''{oops'']"
                               and raw = "''{oops''" and e = "Error ''Unexpected token''"] bad
    by (simp add: browserOk_fields)
  show ?thesis by (intro conjI t law a b c)
qed

text \<open>
  The claim C9 as stated fails in a browser whose storage is full: \<open>setItem\<close> throws,
  \<open>writeToStorage\<close> catches it, and reading afterwards gives the default keys, not the
  record that was to be written.
\<close>

theorem rejected_write_is_lost:
  "writeToStorage browserFull someKeys Map.empty = Map.empty \<and>
   readFromStorage browserFull (writeToStorage browserFull someKeys Map.empty) = emptyKeys \<and>
   someKeys \<noteq> emptyKeys"
  by (simp add: writeToStorage_def readFromStorage_def browserFull_def someKeys_def emptyKeys_def)

section \<open>Properties of preparation and rendering on the store\<close>

lemma prefix_alloc: "prefix h (fst (alloc h ob))"
  by (simp add: alloc_def)

lemma lookup_prefix: "prefix h h' \<Longrightarrow> lookup h a = Some ob \<Longrightarrow> lookup h' a = Some ob"
  by (auto simp: lookup_def prefix_def nth_append split: if_splits)

lemma lookup_old: "prefix h h' \<Longrightarrow> a < length h \<Longrightarrow> lookup h' a = lookup h a"
  by (auto simp: lookup_def prefix_def nth_append)

lemma lookup_new: "lookup (h @ [ob]) (length h) = Some ob"
  by (simp add: lookup_def)

lemma readVector2_prefix:
  "prefix h h' \<Longrightarrow> readVector2 h a = Some v \<Longrightarrow> readVector2 h' a = Some v"
  by (auto simp: readVector2_def dest: lookup_prefix split: option.splits Obj.splits)

lemma readArray_prefix:
  "prefix h h' \<Longrightarrow> readArray h a = Some v \<Longrightarrow> readArray h' a = Some v"
  by (auto simp: readArray_def dest: lookup_prefix split: option.splits Obj.splits)

lemma readTags_prefix:
  "prefix h h' \<Longrightarrow> readTags h a = Some v \<Longrightarrow> readTags h' a = Some v"
  by (auto simp: readTags_def dest: lookup_prefix split: option.splits Obj.splits)

lemma those_Cons_Some:
  "those (x # xs) = Some ys \<longleftrightarrow> (\<exists>y ys'. x = Some y \<and> those xs = Some ys' \<and> ys = y # ys')"
  by (auto split: option.splits)

lemma readPoints_Cons:
  "readPoints h (a # items) = Some ps \<longleftrightarrow>
     (\<exists>p ps'. readVector2 h a = Some p \<and> readPoints h items = Some ps' \<and> ps = p # ps')"
  by (cases "readVector2 h a") (auto simp: readPoints_def)

lemma readPoints_Nil: "readPoints h [] = Some []"
  by (simp add: readPoints_def)

lemma readPoints_prefix:
  "prefix h h' \<Longrightarrow> readPoints h items = Some ps \<Longrightarrow> readPoints h' items = Some ps"
proof (induction items arbitrary: ps)
  case Nil
  then show ?case by (simp add: readPoints_def)
next
  case (Cons a items)
  then show ?case by (auto simp: readPoints_Cons dest: readVector2_prefix)
qed

lemma readFootprint_prefix:
  assumes "prefix h h'" and "readFootprint h a = Some fp"
  shows "readFootprint h' a = Some fp"
proof -
  obtain p ht t m items ps tg where
    l: "lookup h a = Some (OFootprint p ht t m)" and
    r: "readArray h p = Some items" "readPoints h items = Some ps" "readTags h t = Some tg" and
    fp: "fp = \<lparr> pts = ps, height = ht, tags = tg, metadata = m \<rparr>"
    using assms(2) by (auto simp: readFootprint_def split: option.splits Obj.splits)
  show ?thesis
    using lookup_prefix[OF assms(1) l] readArray_prefix[OF assms(1) r(1)]
      readPoints_prefix[OF assms(1) r(2)] readTags_prefix[OF assms(1) r(3)] fp
    by (simp add: readFootprint_def)
qed

lemma readFootprints_Cons:
  "readFootprints h (a # rest) = Some fps \<longleftrightarrow>
     (\<exists>fp fps'. readFootprint h a = Some fp \<and> readFootprints h rest = Some fps' \<and> fps = fp # fps')"
  by (cases "readFootprint h a") (auto simp: readFootprints_def)

lemma readFootprints_prefix:
  "prefix h h' \<Longrightarrow> readFootprints h items = Some fps \<Longrightarrow> readFootprints h' items = Some fps"
proof (induction items arbitrary: fps)
  case Nil
  then show ?case by (simp add: readFootprints_def)
next
  case (Cons a items)
  then show ?case by (auto simp: readFootprints_Cons dest: readFootprint_prefix)
qed

lemma readFootprints_length:
  "readFootprints h items = Some fps \<Longrightarrow> length fps = length items"
proof (induction items arbitrary: fps)
  case Nil
  then show ?case by (simp add: readFootprints_def)
next
  case (Cons a items)
  then show ?case by (auto simp: readFootprints_Cons)
qed

text \<open>An address is new for \<open>h\<close> in \<open>h'\<close> when it lies beyond \<open>h\<close> and within \<open>h'\<close>.\<close>

lemma centrePoints_spec:
  assumes "readPoints h items = Some ps"
  shows "\<exists>h' items'. centrePoints h c s items = Some (h', items') \<and> prefix h h' \<and>
           readPoints h' items' = Some (map (centrePoint c s) ps) \<and>
           (\<forall>a \<in> set items'. length h \<le> a \<and> a < length h')"
  using assms
proof (induction items arbitrary: h ps)
  case Nil
  then show ?case by (simp add: readPoints_def)
next
  case (Cons a items)
  obtain p ps' where a: "readVector2 h a = Some p" and rest: "readPoints h items = Some ps'"
    and ps: "ps = p # ps'"
    using Cons.prems by (auto simp: readPoints_Cons)
  let ?m = "centrePoint c s p"
  let ?h1 = "h @ [OVector2 (x_of ?m) (y_of ?m)]"
  have pre1: "prefix h ?h1" by simp
  have rest1: "readPoints ?h1 items = Some ps'" using readPoints_prefix[OF pre1 rest] .
  obtain h2 items' where
    rec: "centrePoints ?h1 c s items = Some (h2, items')" and pre2: "prefix ?h1 h2" and
    rd: "readPoints h2 items' = Some (map (centrePoint c s) ps')" and
    fresh: "\<forall>a \<in> set items'. length ?h1 \<le> a \<and> a < length h2"
    using Cons.IH[OF rest1] by blast
  have new: "readVector2 ?h1 (length h) = Some ?m"
    by (simp add: readVector2_def lookup_new)
  have new2: "readVector2 h2 (length h) = Some ?m"
    using readVector2_prefix[OF pre2 new] .
  have len: "length h < length h2" using pre2 by (auto simp: prefix_def)
  have "centrePoints h c s (a # items) = Some (h2, length h # items')"
    by (simp add: a alloc_def rec)
  moreover have "prefix h h2" using pre1 pre2 by (rule prefix_order.trans)
  moreover have "readPoints h2 (length h # items') = Some (map (centrePoint c s) ps)"
    by (simp add: readPoints_Cons new2 rd ps)
  moreover have "\<forall>a \<in> set (length h # items'). length h \<le> a \<and> a < length h2"
    using fresh len by auto
  ultimately show ?case by blast
qed

lemma prepareOneS_spec:
  assumes "readFootprint h a = Some fp"
  shows "\<exists>h' a'. prepareOneS h selection s idx a = Some (h', a') \<and> prefix h h' \<and>
           readFootprint h' a' = Some (prepareOne selection s (idx, fp)) \<and>
           length h \<le> a' \<and> a' < length h'"
proof -
  obtain p ht t m items ps tg where
    l: "lookup h a = Some (OFootprint p ht t m)" and
    r: "readArray h p = Some items" "readPoints h items = Some ps" "readTags h t = Some tg" and
    fp: "fp = \<lparr> pts = ps, height = ht, tags = tg, metadata = m \<rparr>"
    using assms by (auto simp: readFootprint_def split: option.splits Obj.splits)
  let ?c = "sel_centroid selection"
  obtain h1 items' where
    cp: "centrePoints h ?c s items = Some (h1, items')" and pre1: "prefix h h1" and
    rd1: "readPoints h1 items' = Some (map (centrePoint ?c s) ps)"
    using centrePoints_spec[OF r(2)] by blast
  define meta where "meta = Some \<lparr> centroid = (if idx = sel_index selection then Centroid 0 0
                                      else computeFootprintCentroid (map (centrePoint ?c s) ps)),
                        hero = Some (idx = sel_index selection), scale = Some s \<rparr>"
  define h2 where "h2 = h1 @ [OArray items']"
  define h3 where "h3 = h2 @ [OFootprint (length h1) (ht * s) t meta]"
  have pre2: "prefix h1 h2" by (simp add: h2_def)
  have pre3: "prefix h2 h3" by (simp add: h3_def)
  have pre13: "prefix h1 h3" using pre2 pre3 by (rule prefix_order.trans)
  have pre03: "prefix h h3" using pre1 pre13 by (rule prefix_order.trans)
  have rd2: "readPoints h2 items' = Some (map (centrePoint ?c s) ps)"
    using readPoints_prefix[OF pre2 rd1] .
  have run: "prepareOneS h selection s idx a = Some (h3, length h2)"
    by (simp add: prepareOneS_def l r(1) cp alloc_def rd2[unfolded h2_def] h3_def h2_def meta_def)
  have "lookup h2 (length h1) = Some (OArray items')"
    unfolding h2_def by (rule lookup_new)
  then have "readArray h2 (length h1) = Some items'" by (simp add: readArray_def)
  then have arr: "readArray h3 (length h1) = Some items'" using pre3 by (rule readArray_prefix[rotated])
  have pts3: "readPoints h3 items' = Some (map (centrePoint ?c s) ps)"
    using readPoints_prefix[OF pre13 rd1] .
  have tg3: "readTags h3 t = Some tg" using readTags_prefix[OF pre03 r(3)] .
  have obj: "lookup h3 (length h2) = Some (OFootprint (length h1) (ht * s) t meta)"
    unfolding h3_def by (rule lookup_new)
  have rd: "readFootprint h3 (length h2) = Some (prepareOne selection s (idx, fp))"
    by (simp add: readFootprint_def obj arr pts3 tg3 prepareOne_def fp Let_def meta_def)
  have "length h \<le> length h2" using pre1 by (auto simp: prefix_def h2_def)
  moreover have "length h2 < length h3" by (simp add: h3_def)
  ultimately show ?thesis using run pre03 rd by blast
qed

lemma prepareLoopS_spec:
  assumes "readFootprints h items = Some fps"
  shows "\<exists>h' out. prepareLoopS h selection s idx items = Some (h', out) \<and> prefix h h' \<and>
           readFootprints h' out = Some (map (prepareOne selection s) (enumerate idx fps)) \<and>
           (\<forall>a \<in> set out. length h \<le> a \<and> a < length h')"
  using assms
proof (induction items arbitrary: h fps idx)
  case Nil
  then show ?case by (simp add: readFootprints_def)
next
  case (Cons a items)
  obtain fp fps' where a: "readFootprint h a = Some fp" and rest: "readFootprints h items = Some fps'"
    and fps: "fps = fp # fps'"
    using Cons.prems by (auto simp: readFootprints_Cons)
  obtain h1 a' where
    one: "prepareOneS h selection s idx a = Some (h1, a')" and pre1: "prefix h h1" and
    rd1: "readFootprint h1 a' = Some (prepareOne selection s (idx, fp))" and
    fresh1: "length h \<le> a'" "a' < length h1"
    using prepareOneS_spec[OF a] by blast
  have rest1: "readFootprints h1 items = Some fps'" using readFootprints_prefix[OF pre1 rest] .
  obtain h2 out where
    rec: "prepareLoopS h1 selection s (Suc idx) items = Some (h2, out)" and pre2: "prefix h1 h2" and
    rd2: "readFootprints h2 out = Some (map (prepareOne selection s) (enumerate (Suc idx) fps'))" and
    fresh2: "\<forall>a \<in> set out. length h1 \<le> a \<and> a < length h2"
    using Cons.IH[OF rest1] by blast
  have len1: "length h \<le> length h1" using pre1 by (auto simp: prefix_def)
  have len2: "length h1 \<le> length h2" using pre2 by (auto simp: prefix_def)
  have "prepareLoopS h selection s idx (a # items) = Some (h2, a' # out)"
    by (simp add: one rec)
  moreover have "prefix h h2" using pre1 pre2 by (rule prefix_order.trans)
  moreover have "readFootprints h2 (a' # out)
                   = Some (map (prepareOne selection s) (enumerate idx fps))"
    using readFootprint_prefix[OF pre2 rd1] rd2 by (simp add: readFootprints_Cons fps)
  moreover have "\<forall>b \<in> set (a' # out). length h \<le> b \<and> b < length h2"
    using fresh1 fresh2 len1 len2 by auto
  ultimately show ?case by blast
qed

lemma readFootprints_Nil_iff: "readFootprints h items = Some [] \<longleftrightarrow> items = []"
  using readFootprints_length[of h items "[]"] by (auto simp: readFootprints_def)

lemma prepareFootprintsS_spec:
  assumes "readFootprints h footprints = Some fps"
  shows "\<exists>h' prepared. prepareFootprintsS h footprints platformSize = Some (h', prepared) \<and>
           prefix h h' \<and>
           readFootprints h' prepared = Some (prepareFootprints fps platformSize) \<and>
           (\<forall>a \<in> set prepared. length h \<le> a \<and> a < length h')"
proof (cases "selectPrimaryFootprint fps")
  case None
  then have "fps = []" by (auto simp: selectPrimaryFootprint_def split: if_splits prod.splits)
  then have "footprints = []" using assms by (simp add: readFootprints_Nil_iff)
  then show ?thesis
    using assms None \<open>fps = []\<close>
    by (simp add: prepareFootprintsS_def prepareFootprints_def readFootprints_def)
next
  case (Some selection)
  let ?s = "fitScaleOf platformSize
              (maxRadiusOf (sel_centroid selection) (pts (fps ! sel_index selection)))"
  have run: "prepareFootprintsS h footprints platformSize
               = prepareLoopS h selection ?s 0 footprints"
    by (simp add: prepareFootprintsS_def assms Some Let_def)
  have out: "prepareFootprints fps platformSize = map (prepareOne selection ?s) (enumerate 0 fps)"
    using Some by (rule prepareFootprints_Some)
  show ?thesis
    unfolding run out using prepareLoopS_spec[OF assms] by blast
qed

lemma renderOne_total:
  "readFootprint h a = Some fp \<Longrightarrow> \<exists>r. renderOne h controls a target = Some r"
  by (auto simp: renderOne_def readFootprint_def Let_def
           split: option.splits Obj.splits sum.splits prod.splits)

lemma renderLoop_spec:
  "readFootprints h items = Some fps \<Longrightarrow>
   \<exists>meshes' target'. renderLoop h controls items meshes target = Some (h, meshes', target')"
proof (induction items arbitrary: fps meshes target)
  case Nil
  then show ?case by simp
next
  case (Cons a items)
  obtain fp fps' where a: "readFootprint h a = Some fp" and rest: "readFootprints h items = Some fps'"
    using Cons.prems by (auto simp: readFootprints_Cons)
  obtain mesh target1 where one: "renderOne h controls a target = Some (mesh, target1)"
    using renderOne_total[OF a] by (metis surj_pair)
  show ?case
    using Cons.IH[OF rest] by (cases mesh) (simp_all add: one)
qed

lemma renderBuildings_spec:
  "readFootprints h items = Some fps \<Longrightarrow>
   \<exists>meshes target. renderBuildings h controls items = Some (h, meshes, target)"
  using renderLoop_spec[of h items fps controls "[]" None]
  by (simp add: renderBuildings_def)

lemma renderLoop_store:
  "renderLoop h controls items meshes target = Some (h', meshes', target') \<Longrightarrow> h' = h"
proof (induction items arbitrary: meshes target)
  case Nil
  then show ?case by simp
next
  case (Cons a items)
  then show ?case by (auto split: option.splits prod.splits)
qed

lemma renderBuildings_store:
  "renderBuildings h controls items = Some (h', meshes, target) \<Longrightarrow> h' = h"
  by (auto simp: renderBuildings_def dest: renderLoop_store split: if_splits)

text \<open>
  Claim C10. Preparation is the one step that gives footprints new points, heights
  and metadata, and it does so without touching the objects it is given: for footprints
  held in the store, \<open>prepareFootprints\<close> returns, every object that existed before the
  call is the same after it (so each input footprint keeps its points, height and tags),
  and the prepared footprints are new objects whose values are those computed by
  \<open>prepareFootprints\<close>. The render pass over the prepared footprints returns, and leaves
  the store exactly as it was.
\<close>

theorem footprints_not_mutated:
  assumes "readFootprints h footprints = Some fps"
  shows "\<exists>h' prepared.
           prepareFootprintsS h footprints platformSize = Some (h', prepared) \<and>
           (\<forall>a < length h. lookup h' a = lookup h a) \<and>
           readFootprints h' footprints = Some fps \<and>
           readFootprints h' prepared = Some (prepareFootprints fps platformSize) \<and>
           (\<forall>a \<in> set prepared. length h \<le> a \<and> a < length h') \<and>
           (\<exists>meshes target. renderBuildings h' controls prepared = Some (h', meshes, target)) \<and>
           (\<forall>h'' meshes target.
              renderBuildings h' controls prepared = Some (h'', meshes, target) \<longrightarrow> h'' = h')"
proof -
  obtain h' prepared where
    run: "prepareFootprintsS h footprints platformSize = Some (h', prepared)" and
    pre: "prefix h h'" and
    out: "readFootprints h' prepared = Some (prepareFootprints fps platformSize)" and
    fresh: "\<forall>a \<in> set prepared. length h \<le> a \<and> a < length h'"
    using prepareFootprintsS_spec[OF assms] by blast
  have old: "\<forall>a < length h. lookup h' a = lookup h a"
    using lookup_old[OF pre] by blast
  have kept: "readFootprints h' footprints = Some fps"
    using readFootprints_prefix[OF pre assms] .
  have rendered: "\<exists>meshes target. renderBuildings h' controls prepared = Some (h', meshes, target)"
    using renderBuildings_spec[OF out] .
  have same: "\<forall>h'' meshes target.
              renderBuildings h' controls prepared = Some (h'', meshes, target) \<longrightarrow> h'' = h'"
    using renderBuildings_store by blast
  show ?thesis using run old kept out fresh rendered same by blast
qed

lemma readFootprints_example:
  "readFootprints exampleStore [12, 13] = Some [farTriangle, nearRectangle]"
  by (simp add: readFootprints_def readFootprint_def readArray_def readTags_def readPoints_def
                readVector2_def lookup_def exampleStore_def farTriangle_def nearRectangle_def)

theorem footprints_not_mutated_witness:
  "readFootprints exampleStore [12, 13] = Some [farTriangle, nearRectangle] \<and>
   (\<exists>h' prepared.
      prepareFootprintsS exampleStore [12, 13] 120 = Some (h', prepared) \<and>
      (\<forall>a < length exampleStore. lookup h' a = lookup exampleStore a) \<and>
      readFootprints h' [12, 13] = Some [farTriangle, nearRectangle] \<and>
      readFootprints h' prepared = Some (prepareFootprints [farTriangle, nearRectangle] 120) \<and>
      (\<forall>a \<in> set prepared. length exampleStore \<le> a \<and> a < length h') \<and>
      (\<exists>meshes target.
         renderBuildings h' (s_buildingControls renderedState) prepared = Some (h', meshes, target)) \<and>
      (\<forall>h'' meshes target.
         renderBuildings h' (s_buildingControls renderedState) prepared = Some (h'', meshes, target)
           \<longrightarrow> h'' = h'))"
  using readFootprints_example
    footprints_not_mutated [OF readFootprints_example, of 120 "s_buildingControls renderedState"]
  by blast

end
